theory Spec2Isabelle
  imports Main "HOL-Library.Sublist" "HOL-Library.AList" "HOL-Library.Word"
begin

section \<open>Errors and results\<close>

text \<open>
  A Go \<open>error\<close> value is modelled by the API status reason that
  \<open>errors.IsAlreadyExists\<close> and \<open>errors.IsNotFound\<close> inspect, together with its message.
  A function that returns \<open>(T, error)\<close> becomes \<open>error + T\<close> (\<open>Inl\<close> the error) when the
  caller never reads the value beside an error, and a pair \<open>T \<times> error option\<close> when it does.
  A run-time panic (a nil pointer dereference) is a value of its own, \<open>Panic\<close>: it unwinds
  through every caller, so nothing after it runs.
\<close>

datatype ErrReason = AlreadyExists | NotFound | Unknown

datatype error = Err ErrReason string

fun IsAlreadyExists :: "error \<Rightarrow> bool" where
  "IsAlreadyExists (Err r _) = (r = AlreadyExists)"

fun IsNotFound :: "error \<Rightarrow> bool" where
  "IsNotFound (Err r _) = (r = NotFound)"

fun Error :: "error \<Rightarrow> string" where
  "Error (Err _ msg) = msg"

definition Errorf :: "string \<Rightarrow> error" where
  \<comment> \<open>\<open>fmt.Errorf\<close>: a fresh error that carries only a message.\<close>
  "Errorf msg = Err Unknown msg"

datatype 'a run = Done 'a | Panic string

section \<open>Data model of the group-snapshot controller\<close>

datatype ConditionStatus = ConditionTrue | ConditionFalse | ConditionUnknown

datatype VolumeSnapshotConditionType =
  VolumeSnapshotConditionPending | VolumeSnapshotConditionReady | VolumeSnapshotConditionError

record VolumeSnapshotCondition =
  Cond_Type :: VolumeSnapshotConditionType
  Cond_Status :: ConditionStatus
  Cond_Message :: string

text \<open>
  The driver-specific payload \<open>crdv1.VolumeSnapshotDataSource\<close> is opaque to the controller;
  it is kept as a string. \<open>DataSource\<close> is a pointer in the source, so it may be nil.
\<close>

type_synonym VolumeSnapshotDataSource = string

record VolumeSnapshotStatus =
  VolumeSnapshotName :: string
  TaskID :: string
  ParentVolumeID :: string
  DataSource :: "VolumeSnapshotDataSource option"
  Conditions :: "VolumeSnapshotCondition list"

section \<open>Condition predicates (groupsnapshot.go, lines 744-794)\<close>

fun isAnySnapshotFailed_loop :: "VolumeSnapshotStatus list \<Rightarrow> string list \<Rightarrow> string list" where
  "isAnySnapshotFailed_loop [] failedTasks = failedTasks"
| "isAnySnapshotFailed_loop (snapshot # rest) failedTasks =
     (case Conditions snapshot of
        [] \<Rightarrow> isAnySnapshotFailed_loop rest failedTasks
      | lastCondition # _ \<Rightarrow>
          if Cond_Status lastCondition = ConditionTrue
             \<and> Cond_Type lastCondition = VolumeSnapshotConditionError
          then isAnySnapshotFailed_loop rest (failedTasks @ [TaskID snapshot])
          else isAnySnapshotFailed_loop rest failedTasks)"

definition isAnySnapshotFailed :: "VolumeSnapshotStatus list \<Rightarrow> bool \<times> string list" where
  "isAnySnapshotFailed snapshots =
     (let failedTasks = isAnySnapshotFailed_loop snapshots []
      in (length failedTasks > 0, failedTasks))"

fun areAllSnapshotsStarted_loop :: "VolumeSnapshotStatus list \<Rightarrow> bool" where
  "areAllSnapshotsStarted_loop [] = True"
| "areAllSnapshotsStarted_loop (snapshot # rest) =
     (if length (Conditions snapshot) = 0 then False else areAllSnapshotsStarted_loop rest)"

definition areAllSnapshotsStarted :: "VolumeSnapshotStatus list \<Rightarrow> bool" where
  "areAllSnapshotsStarted snapshots =
     (if length snapshots = 0 then False else areAllSnapshotsStarted_loop snapshots)"

fun areAllSnapshotsDone_loop :: "VolumeSnapshotStatus list \<Rightarrow> nat \<Rightarrow> nat" where
  "areAllSnapshotsDone_loop [] readySnapshots = readySnapshots"
| "areAllSnapshotsDone_loop (snapshot # rest) readySnapshots =
     (case Conditions snapshot of
        [] \<Rightarrow> areAllSnapshotsDone_loop rest readySnapshots
      | lastCondition # _ \<Rightarrow>
          if Cond_Status lastCondition = ConditionTrue
             \<and> Cond_Type lastCondition = VolumeSnapshotConditionReady
          then areAllSnapshotsDone_loop rest (readySnapshots + 1)
          else areAllSnapshotsDone_loop rest readySnapshots)"

definition areAllSnapshotsDone :: "VolumeSnapshotStatus list \<Rightarrow> bool" where
  "areAllSnapshotsDone snapshots =
     (if length snapshots = 0 then False
      else areAllSnapshotsDone_loop snapshots 0 = length snapshots)"

text \<open>
  Vocabulary of the statements about these predicates: a record whose first condition
  has the given type with status True, and a record cut down to its first condition.
\<close>

definition firstConditionIs :: "VolumeSnapshotConditionType \<Rightarrow> VolumeSnapshotStatus \<Rightarrow> bool" where
  "firstConditionIs ty snapshot =
     (Conditions snapshot \<noteq> []
      \<and> Cond_Type (hd (Conditions snapshot)) = ty
      \<and> Cond_Status (hd (Conditions snapshot)) = ConditionTrue)"

definition onlyFirstCondition :: "VolumeSnapshotStatus \<Rightarrow> VolumeSnapshotStatus" where
  "onlyFirstCondition snapshot = snapshot\<lparr>Conditions := take 1 (Conditions snapshot)\<rparr>"

section \<open>Kubernetes objects of the group-snapshot controller\<close>

text \<open>
  \<open>metav1.ObjectMeta\<close>, with the fields the controllers read. Go maps of strings
  (\<open>Labels\<close>, \<open>Annotations\<close>) are association lists; the source only tests their length and
  sets one key, so a nil map and an empty map are both \<open>[]\<close>. \<open>Finalizers\<close> keeps the
  difference between a nil slice and an empty one, which \<open>handle\<close> tests.
\<close>

record OwnerReference =
  Owner_Name :: string
  Owner_UID :: string
  Owner_Kind :: string
  Owner_APIVersion :: string

record ObjectMeta =
  Name :: string
  Namespace :: string
  UID :: string
  ResourceVersion :: string
  DeletionTimestamp :: "nat option"
  Finalizers :: "string list option"
  Labels :: "(string \<times> string) list"
  Annotations :: "(string \<times> string) list"
  OwnerReferences :: "OwnerReference list"

definition emptyMeta :: ObjectMeta where
  \<comment> \<open>The zero value \<open>metav1.ObjectMeta{}\<close>.\<close>
  "emptyMeta = \<lparr>Name = [], Namespace = [], UID = [], ResourceVersion = [],
     DeletionTimestamp = None, Finalizers = None, Labels = [], Annotations = [],
     OwnerReferences = []\<rparr>"

record LabelSelectorRequirement =
  Req_Key :: string
  Req_Operator :: string
  Req_Values :: "string list"

record LabelSelector =
  MatchLabels :: "(string \<times> string) list"
  MatchExpressions :: "LabelSelectorRequirement list"

record GroupVolumeSnapshotSpec =
  PVCSelector :: LabelSelector
  PreExecRule :: string
  PostExecRule :: string
  MaxRetries :: int
  RestoreNamespaces :: "string list"

text \<open>
  The stage and status types are strings in the source; the constants the controller
  compares with are the constructors, and any other stage string is \<open>GroupSnapshotStageOther\<close>
  (the \<open>default\<close> branch of \<open>handle\<close>).
\<close>

datatype GroupVolumeSnapshotStageType =
    GroupSnapshotStageInitial
  | GroupSnapshotStagePreChecks
  | GroupSnapshotStagePreSnapshot
  | GroupSnapshotStageSnapshot
  | GroupSnapshotStagePostSnapshot
  | GroupSnapshotStageFinal
  | GroupSnapshotStageOther string

datatype GroupVolumeSnapshotStatusType =
    GroupSnapshotInitial
  | GroupSnapshotPending
  | GroupSnapshotInProgress
  | GroupSnapshotFailed
  | GroupSnapshotSuccessful

text \<open>
  \<open>NumRetries\<close> and \<open>MaxRetries\<close> are Go \<open>int\<close>s. The only arithmetic on them is the
  increment of \<open>NumRetries\<close> under the guard \<open>NumRetries < MaxRetries\<close>, which cannot
  overflow, so they are modelled as unbounded integers.
\<close>

record GroupVolumeSnapshotStatus =
  Stage :: GroupVolumeSnapshotStageType
  Status :: GroupVolumeSnapshotStatusType
  NumRetries :: int
  VolumeSnapshots :: "VolumeSnapshotStatus list"

record GroupVolumeSnapshot =
  gs_Kind :: string
  gs_APIVersion :: string
  gs_Meta :: ObjectMeta
  gs_Spec :: GroupVolumeSnapshotSpec
  gs_Status :: GroupVolumeSnapshotStatus

record ObjectReference =
  Ref_Kind :: string
  Ref_Name :: string
  Ref_Namespace :: string

record VolumeSnapshotDataSpec =
  VolumeSnapshotRef :: "ObjectReference option"
  PersistentVolumeRef :: "ObjectReference option"
  VolumeSnapshotDataSource :: VolumeSnapshotDataSource

text \<open>
  The single condition of a snapshot-data object is a copy of the last condition of the
  volume record, or the zero value of the condition struct when the record has none
  (\<open>None\<close> here).
\<close>

record VolumeSnapshotData =
  vsd_Meta :: ObjectMeta
  vsd_Spec :: VolumeSnapshotDataSpec
  vsd_Conditions :: "VolumeSnapshotCondition option list"

record VolumeSnapshotSpec =
  SnapshotDataName :: string
  PersistentVolumeClaimName :: string

record VolumeSnapshot =
  vs_Meta :: ObjectMeta
  vs_Spec :: VolumeSnapshotSpec
  vs_Conditions :: "VolumeSnapshotCondition list"

section \<open>Collaborators of the group-snapshot controller\<close>

text \<open>
  The volume driver, the API server clients, the rule runner and the event recorder are
  outside the repository. Their state is a value of an arbitrary type \<open>'w\<close>, and each
  operation is a function from that state to a result and a new state: nothing is assumed
  about what they answer. The controller's calls are recorded, in order, in a log beside
  the collaborators' state, so that a statement can say which calls were made.
\<close>

datatype EventType = EventTypeNormal | EventTypeWarning

datatype RuleType = PreExecRule_t | PostExecRule_t

datatype Call =
    GetGroupSnapshotStatus_c
  | CreateGroupSnapshot_c
  | DeleteGroupSnapshot_c
  | InspectVolume_c string
  | GetPersistentVolume_c string
  | GetPersistentVolumeClaim_c string string
  | GetPVCsForGroupSnapshot_c string
  | GetRule_c string string
  | ExecuteRule_c string RuleType
  | GetGroupSnapshot_c string string
  | CreateSnapshotData_c VolumeSnapshotData
  | GetSnapshotData_c string
  | DeleteSnapshotData_c string
  | CreateSnapshot_c VolumeSnapshot
  | DeleteSnapshot_c string string
  | GetSnapshot_c string string
  | UpdateSnapshot_c VolumeSnapshot
  | ClientGet_c string string
  | ClientUpdate_c GroupVolumeSnapshot
  | RecorderEvent_c EventType string string
  | ChannelSend_c nat
  | Sleep_c nat

type_synonym 'w st = "'w \<times> Call list"

text \<open>
  \<open>CreateSnapshot\<close> is the one call whose returned pointer the source reads beside an
  error (\<open>snap, err = CreateSnapshot(snap)\<close> followed by \<open>replaceSnapshot(snap)\<close>), so its
  failure carries that pointer: \<open>None\<close> is nil. \<open>ExecuteRule\<close> returns the channel of the
  background commands and the error side by side, since the source reads the channel in
  both cases. \<open>client.Update\<close> writes the server's answer back into the object, so on
  success it returns the object as stored. The version type \<open>'v\<close> and its parser and order
  belong to the version library.
\<close>

record ('w, 'v) Env =
  GetGroupSnapshotStatus :: "GroupVolumeSnapshot \<Rightarrow> 'w \<Rightarrow> (error + VolumeSnapshotStatus list) \<times> 'w"
  CreateGroupSnapshot :: "GroupVolumeSnapshot \<Rightarrow> 'w \<Rightarrow> (error + VolumeSnapshotStatus list) \<times> 'w"
  DeleteGroupSnapshot :: "GroupVolumeSnapshot \<Rightarrow> 'w \<Rightarrow> error option \<times> 'w"
  InspectVolume :: "string \<Rightarrow> 'w \<Rightarrow> (error + string) \<times> 'w"
  GetPersistentVolume :: "string \<Rightarrow> 'w \<Rightarrow> (error + ObjectReference option) \<times> 'w"
  GetPersistentVolumeClaim :: "string \<Rightarrow> string \<Rightarrow> 'w \<Rightarrow> (error + string) \<times> 'w"
  GetPVCsForGroupSnapshot :: "string \<Rightarrow> (string \<times> string) list \<Rightarrow> 'w \<Rightarrow> error option \<times> 'w"
  GetRule :: "string \<Rightarrow> string \<Rightarrow> 'w \<Rightarrow> (error + string) \<times> 'w"
  ExecuteRule :: "string \<Rightarrow> RuleType \<Rightarrow> GroupVolumeSnapshot \<Rightarrow> string \<Rightarrow> 'w
                   \<Rightarrow> (nat option \<times> error option) \<times> 'w"
  GetGroupSnapshot :: "string \<Rightarrow> string \<Rightarrow> 'w \<Rightarrow> (error + GroupVolumeSnapshot) \<times> 'w"
  CreateSnapshotData :: "VolumeSnapshotData \<Rightarrow> 'w \<Rightarrow> error option \<times> 'w"
  GetSnapshotData :: "string \<Rightarrow> 'w \<Rightarrow> (error + VolumeSnapshotData) \<times> 'w"
  DeleteSnapshotData :: "string \<Rightarrow> 'w \<Rightarrow> error option \<times> 'w"
  CreateSnapshot :: "VolumeSnapshot \<Rightarrow> 'w \<Rightarrow> ((VolumeSnapshot option \<times> error) + VolumeSnapshot) \<times> 'w"
  DeleteSnapshot :: "string \<Rightarrow> string \<Rightarrow> 'w \<Rightarrow> error option \<times> 'w"
  GetSnapshot :: "string \<Rightarrow> string \<Rightarrow> 'w \<Rightarrow> (error + VolumeSnapshot) \<times> 'w"
  UpdateSnapshot :: "VolumeSnapshot \<Rightarrow> 'w \<Rightarrow> error option \<times> 'w"
  ClientGet :: "string \<Rightarrow> string \<Rightarrow> 'w \<Rightarrow> (error + GroupVolumeSnapshot) \<times> 'w"
  ClientUpdate :: "GroupVolumeSnapshot \<Rightarrow> 'w \<Rightarrow> (error + GroupVolumeSnapshot) \<times> 'w"
  NewVersion :: "string \<Rightarrow> error + 'v"
  LessThan :: "'v \<Rightarrow> 'v \<Rightarrow> bool"

definition call :: "Call \<Rightarrow> ('w \<Rightarrow> 'r \<times> 'w) \<Rightarrow> 'w st \<Rightarrow> 'r \<times> 'w st" where
  \<comment> \<open>One call of a collaborator: its answer, its new state, and the call appended to the log.\<close>
  "call c f s = (case f (fst s) of (r, w') \<Rightarrow> (r, (w', snd s @ [c])))"

definition Event :: "EventType \<Rightarrow> string \<Rightarrow> string \<Rightarrow> 'w st \<Rightarrow> 'w st" where
  \<comment> \<open>\<open>recorder.Event(obj, eventtype, reason, message)\<close>.\<close>
  "Event ty reason msg s = (fst s, snd s @ [RecorderEvent_c ty reason msg])"

definition statusString :: "GroupVolumeSnapshotStatusType \<Rightarrow> string" where
  "statusString x = (case x of
       GroupSnapshotInitial \<Rightarrow> []
     | GroupSnapshotPending \<Rightarrow> ''Pending''
     | GroupSnapshotInProgress \<Rightarrow> ''InProgress''
     | GroupSnapshotFailed \<Rightarrow> ''Failed''
     | GroupSnapshotSuccessful \<Rightarrow> ''Successful'')"

section \<open>Formatting helpers\<close>

fun Join :: "string list \<Rightarrow> string \<Rightarrow> string" where
  \<comment> \<open>\<open>strings.Join\<close>.\<close>
  "Join [] sep = []"
| "Join [x] sep = x"
| "Join (x # y # ys) sep = x @ sep @ Join (y # ys) sep"

definition showStrings :: "string list \<Rightarrow> string" where
  \<comment> \<open>A slice of strings under the verb \<open>%s\<close>: \<open>[a b c]\<close>.\<close>
  "showStrings xs = ''['' @ Join xs '' '' @ '']''"

fun showNat :: "nat \<Rightarrow> string" where
  "showNat n = (if n < 10 then [char_of (48 + n)]
                else showNat (n div 10) @ [char_of (48 + n mod 10)])"

definition showInt :: "int \<Rightarrow> string" where
  \<comment> \<open>An integer under the verb \<open>%d\<close>.\<close>
  "showInt i = (if i < 0 then ''-'' @ showNat (nat (- i)) else showNat (nat i))"

section \<open>Stage handlers of the group-snapshot controller\<close>

definition updateCRD :: bool where
  "updateCRD = True"

definition setStatus :: "GroupVolumeSnapshotStatusType \<Rightarrow> GroupVolumeSnapshot \<Rightarrow> GroupVolumeSnapshot" where
  \<comment> \<open>The assignment \<open>groupSnap.Status.Status = x\<close>.\<close>
  "setStatus x groupSnap = groupSnap\<lparr>gs_Status := (gs_Status groupSnap)\<lparr>Status := x\<rparr>\<rparr>"

definition setStage :: "GroupVolumeSnapshotStageType \<Rightarrow> GroupVolumeSnapshot \<Rightarrow> GroupVolumeSnapshot" where
  \<comment> \<open>The assignment \<open>groupSnap.Status.Stage = x\<close>.\<close>
  "setStage x groupSnap = groupSnap\<lparr>gs_Status := (gs_Status groupSnap)\<lparr>Stage := x\<rparr>\<rparr>"

definition setVolumeSnapshots :: "VolumeSnapshotStatus list \<Rightarrow> GroupVolumeSnapshot \<Rightarrow> GroupVolumeSnapshot" where
  \<comment> \<open>The assignment \<open>groupSnap.Status.VolumeSnapshots = x\<close>.\<close>
  "setVolumeSnapshots x groupSnap =
     groupSnap\<lparr>gs_Status := (gs_Status groupSnap)\<lparr>VolumeSnapshots := x\<rparr>\<rparr>"

definition incNumRetries :: "GroupVolumeSnapshot \<Rightarrow> GroupVolumeSnapshot" where
  \<comment> \<open>\<open>groupSnap.Status.NumRetries++\<close>.\<close>
  "incNumRetries groupSnap =
     groupSnap\<lparr>gs_Status := (gs_Status groupSnap)\<lparr>NumRetries := NumRetries (gs_Status groupSnap) + 1\<rparr>\<rparr>"

text \<open>
  \<open>handleInitial\<close> (lines 249-303). The result is the pair the source returns and the
  group snapshot as the handler leaves it in memory (the source mutates it through the
  pointer, also on the paths that return an error).
\<close>

definition validateRule :: "('w, 'v) Env \<Rightarrow> string \<Rightarrow> string \<Rightarrow> 'w st \<Rightarrow> error option \<times> 'w st" where
  \<comment> \<open>\<open>if len(name) > 0 { if _, err := GetRule(name, ns); err != nil { return } }\<close>.\<close>
  "validateRule env ruleName ns s =
     (if length ruleName > 0
      then (case call (GetRule_c ruleName ns) (GetRule env ruleName ns) s of
              (Inl err, s1) \<Rightarrow> (Some err, s1)
            | (Inr _, s1) \<Rightarrow> (None, s1))
      else (None, s))"

definition handleInitial ::
  "('w, 'v) Env \<Rightarrow> GroupVolumeSnapshot \<Rightarrow> 'w st
     \<Rightarrow> ((bool \<times> error option) \<times> GroupVolumeSnapshot) \<times> 'w st" where
  "handleInitial env groupSnap s =
     (let err0 = (if length (MatchExpressions (PVCSelector (gs_Spec groupSnap))) > 0
                  then Some (Errorf ''matchExpressions are currently not supported in the spec. Use matchLabels'')
                  else None);
          err1 = (if length (MatchLabels (PVCSelector (gs_Spec groupSnap))) = 0
                  then Some (Errorf ''matchLabels are required for group snapshots. Refer to spec examples'')
                  else err0)
      in case err1 of
           Some err \<Rightarrow>
             (((updateCRD, Some err),
               setStage GroupSnapshotStageFinal (setStatus GroupSnapshotFailed groupSnap)), s)
         | None \<Rightarrow>
             (case call (GetPVCsForGroupSnapshot_c (Namespace (gs_Meta groupSnap)))
                     (GetPVCsForGroupSnapshot env (Namespace (gs_Meta groupSnap))
                        (MatchLabels (PVCSelector (gs_Spec groupSnap)))) s of
                (Some err, s1) \<Rightarrow>
                  if Status (gs_Status groupSnap) = GroupSnapshotPending
                  then (((\<not> updateCRD, Some err), groupSnap), s1)
                  else (((updateCRD, Some err),
                         setStage GroupSnapshotStagePreChecks
                           (setStatus GroupSnapshotPending groupSnap)), s1)
              | (None, s1) \<Rightarrow>
                  (let preSnapRuleName = PreExecRule (gs_Spec groupSnap);
                       postSnapRuleName = PostExecRule (gs_Spec groupSnap)
                   in case validateRule env preSnapRuleName (Namespace (gs_Meta groupSnap)) s1 of
                        (Some err, s2) \<Rightarrow> (((\<not> updateCRD, Some err), groupSnap), s2)
                      | (None, s2) \<Rightarrow>
                          (case validateRule env postSnapRuleName (Namespace (gs_Meta groupSnap)) s2 of
                             (Some err, s3) \<Rightarrow> (((\<not> updateCRD, Some err), groupSnap), s3)
                           | (None, s3) \<Rightarrow>
                               (((updateCRD, None),
                                 (if length preSnapRuleName > 0
                                  then setStage GroupSnapshotStagePreSnapshot
                                  else setStage GroupSnapshotStageSnapshot)
                                   (setStatus GroupSnapshotInProgress groupSnap)), s3)))))"

text \<open>
  The controller's process-local state: the channels of the background commands and the
  resource-version floors, both keyed by UID.
\<close>

record Controller =
  bgChannelsForRules :: "string \<rightharpoonup> nat"
  minResourceVersions :: "string \<rightharpoonup> string"

text \<open>
  \<open>handlePreSnap\<close> (lines 305-344). The first component of the result is the returned
  pointer: \<open>None\<close> is nil.
\<close>

definition handlePreSnap ::
  "('w, 'v) Env \<Rightarrow> Controller \<Rightarrow> GroupVolumeSnapshot \<Rightarrow> 'w st
     \<Rightarrow> ((GroupVolumeSnapshot option \<times> bool \<times> error option) \<times> Controller) \<times> 'w st" where
  "handlePreSnap env m groupSnap s =
     (let ruleName = PreExecRule (gs_Spec groupSnap)
      in if length ruleName = 0
         then (((Some (setStage GroupSnapshotStageSnapshot
                         (setStatus GroupSnapshotInProgress groupSnap)), updateCRD, None), m), s)
         else
           (case call (GetRule_c ruleName (Namespace (gs_Meta groupSnap)))
                   (GetRule env ruleName (Namespace (gs_Meta groupSnap))) s of
              (Inl err, s1) \<Rightarrow> (((None, \<not> updateCRD, Some err), m), s1)
            | (Inr r, s1) \<Rightarrow>
                (case call (ExecuteRule_c r PreExecRule_t)
                        (ExecuteRule env r PreExecRule_t groupSnap (Namespace (gs_Meta groupSnap))) s1 of
                   ((backgroundCommandTermChan, Some err), s2) \<Rightarrow>
                     (((None, \<not> updateCRD, Some err), m),
                      (case backgroundCommandTermChan of
                         Some ch \<Rightarrow> (fst s2, snd s2 @ [ChannelSend_c ch])
                       | None \<Rightarrow> s2))
                 | ((backgroundCommandTermChan, None), s2) \<Rightarrow>
                     (case call (GetGroupSnapshot_c (Name (gs_Meta groupSnap)) (Namespace (gs_Meta groupSnap)))
                             (GetGroupSnapshot env (Name (gs_Meta groupSnap)) (Namespace (gs_Meta groupSnap))) s2 of
                        (Inl err, s3) \<Rightarrow> (((None, \<not> updateCRD, Some err), m), s3)
                      | (Inr groupSnap', s3) \<Rightarrow>
                          (((Some (setStage GroupSnapshotStageSnapshot groupSnap'), updateCRD, None),
                            (case backgroundCommandTermChan of
                               Some ch \<Rightarrow>
                                 m\<lparr>bgChannelsForRules := (bgChannelsForRules m)(UID (gs_Meta groupSnap') \<mapsto> ch)\<rparr>
                             | None \<Rightarrow> m)), s3)))))"

section \<open>Derived-object materialization (groupsnapshot.go, lines 423-649)\<close>

text \<open>
  \<open>wait.Backoff\<close> and \<open>wait.ExponentialBackoff\<close> belong to the API machinery library. The
  model follows its contract: the condition is tried at once and then after each sleep, at
  most \<open>Steps\<close> times; each sleep lasts the current duration, which is then multiplied by
  the factor; the loop ends at the first try that succeeds or returns an error, and with
  \<open>ErrWaitTimeout\<close> when the steps are used up. Durations are in nanoseconds. Each sleep
  is recorded in the log.
\<close>

record Backoff =
  Duration :: nat
  Factor :: nat
  Steps :: nat

definition Second :: nat where
  "Second = 1000000000"

definition volumeSnapshotInitialDelay :: nat where
  "volumeSnapshotInitialDelay = 2 * Second"

definition volumeSnapshotFactor :: nat where
  "volumeSnapshotFactor = 1"

definition volumeSnapshotSteps :: nat where
  "volumeSnapshotSteps = 60"

definition snapDeleteBackoff :: Backoff where
  "snapDeleteBackoff = \<lparr>Duration = volumeSnapshotInitialDelay, Factor = volumeSnapshotFactor,
                         Steps = volumeSnapshotSteps\<rparr>"

definition ErrWaitTimeout :: error where
  "ErrWaitTimeout = Err Unknown ''timed out waiting for the condition''"

fun ExponentialBackoff_loop ::
  "nat \<Rightarrow> nat \<Rightarrow> nat \<Rightarrow> ('w st \<Rightarrow> (bool \<times> error option) \<times> 'w st) \<Rightarrow> 'w st \<Rightarrow> error option \<times> 'w st" where
  "ExponentialBackoff_loop 0 duration factor condition s = (Some ErrWaitTimeout, s)"
| "ExponentialBackoff_loop (Suc steps) duration factor condition s =
     (case condition s of
        ((ok, err), s1) \<Rightarrow>
          if err \<noteq> None \<or> ok then (err, s1)
          else if steps = 0 then (Some ErrWaitTimeout, s1)
          else ExponentialBackoff_loop steps (duration * factor) factor condition
                 (fst s1, snd s1 @ [Sleep_c duration]))"

definition ExponentialBackoff ::
  "Backoff \<Rightarrow> ('w st \<Rightarrow> (bool \<times> error option) \<times> 'w st) \<Rightarrow> 'w st \<Rightarrow> error option \<times> 'w st" where
  "ExponentialBackoff backoff condition s =
     ExponentialBackoff_loop (Steps backoff) (Duration backoff) (Factor backoff) condition s"

definition deleteSnapshotCondition ::
  "('w, 'v) Env \<Rightarrow> VolumeSnapshot \<Rightarrow> 'w st \<Rightarrow> (bool \<times> error option) \<times> 'w st" where
  \<comment> \<open>The closure that \<open>revertSnapObjs\<close> hands to the backoff loop (lines 601-609).\<close>
  "deleteSnapshotCondition env snap s =
     (case call (DeleteSnapshot_c (Name (vs_Meta snap)) (Namespace (vs_Meta snap)))
             (DeleteSnapshot env (Name (vs_Meta snap)) (Namespace (vs_Meta snap))) s of
        (Some deleteErr, s1) \<Rightarrow> ((False, None), s1)
      | (None, s1) \<Rightarrow> ((True, None), s1))"

text \<open>
  \<open>revertSnapObjs\<close> (lines 593-626). The source returns nothing: the deletions that
  failed are collected in \<open>failedDeletions\<close> and written to the error log. The model
  returns that collection (as a list, in the order of the failures) beside the state.
\<close>

fun revertSnapObjs_loop ::
  "('w, 'v) Env \<Rightarrow> VolumeSnapshot list \<Rightarrow> (string \<times> error) list \<Rightarrow> 'w st
     \<Rightarrow> (string \<times> error) list \<times> 'w st" where
  "revertSnapObjs_loop env [] failedDeletions s = (failedDeletions, s)"
| "revertSnapObjs_loop env (snap # rest) failedDeletions s =
     (case ExponentialBackoff snapDeleteBackoff (deleteSnapshotCondition env snap) s of
        (Some err, s1) \<Rightarrow>
          revertSnapObjs_loop env rest
            (failedDeletions @
               [(''['' @ Namespace (vs_Meta snap) @ ''] '' @ Name (vs_Meta snap), err)]) s1
      | (None, s1) \<Rightarrow> revertSnapObjs_loop env rest failedDeletions s1)"

definition revertSnapObjs ::
  "('w, 'v) Env \<Rightarrow> VolumeSnapshot list \<Rightarrow> 'w st \<Rightarrow> (string \<times> error) list \<times> 'w st" where
  "revertSnapObjs env snapObjs s =
     (if length snapObjs = 0 then ([], s) else revertSnapObjs_loop env snapObjs [] s)"

text \<open>
  \<open>getPVCNameFromVolumeID\<close> (lines 629-649). It never returns an error; it panics when
  the persistent volume has no claim reference (\<open>parentPV.Spec.ClaimRef\<close> is a pointer).
\<close>

definition getPVCNameFromVolumeID ::
  "('w, 'v) Env \<Rightarrow> string \<Rightarrow> 'w st \<Rightarrow> (error + string) run \<times> 'w st" where
  "getPVCNameFromVolumeID env volID s =
     (case call (InspectVolume_c volID) (InspectVolume env volID) s of
        (Inl err, s1) \<Rightarrow> (Done (Inr volID), s1)
      | (Inr volumeName, s1) \<Rightarrow>
          (case call (GetPersistentVolume_c volumeName) (GetPersistentVolume env volumeName) s1 of
             (Inl err, s2) \<Rightarrow> (Done (Inr volID), s2)
           | (Inr None, s2) \<Rightarrow> (Panic ''nil pointer dereference: parentPV.Spec.ClaimRef'', s2)
           | (Inr (Some claimRef), s2) \<Rightarrow>
               (case call (GetPersistentVolumeClaim_c (Ref_Name claimRef) (Ref_Namespace claimRef))
                       (GetPersistentVolumeClaim env (Ref_Name claimRef) (Ref_Namespace claimRef)) s2 of
                  (Inl err, s3) \<Rightarrow> (Done (Inr volID), s3)
                | (Inr pvcName, s3) \<Rightarrow> (Done (Inr pvcName), s3))))"

text \<open>\<open>replaceSnapshotData\<close> (lines 423-441).\<close>

definition replaceSnapshotData ::
  "('w, 'v) Env \<Rightarrow> VolumeSnapshotData \<Rightarrow> 'w st \<Rightarrow> error option \<times> 'w st" where
  "replaceSnapshotData env snapData s =
     (case call (GetSnapshotData_c (Name (vsd_Meta snapData)))
             (GetSnapshotData env (Name (vsd_Meta snapData))) s of
        (Inl err, s1) \<Rightarrow> (Some err, s1)
      | (Inr data, s1) \<Rightarrow>
          if \<not> (vsd_Spec data = vsd_Spec snapData)
          then (case call (DeleteSnapshotData_c (Name (vsd_Meta snapData)))
                        (DeleteSnapshotData env (Name (vsd_Meta snapData))) s1 of
                  (Some err, s2) \<Rightarrow> (Some err, s2)
                | (None, s2) \<Rightarrow>
                    call (CreateSnapshotData_c snapData) (CreateSnapshotData env snapData) s2)
          else (None, s1))"

text \<open>
  \<open>replaceSnapshot\<close> (lines 443-461). The source fetches the snapshot-data object of the
  same name (\<open>GetSnapshotData\<close>) and compares its spec, a \<open>VolumeSnapshotDataSpec\<close>, with
  the spec of the snapshot, a \<open>VolumeSnapshotSpec\<close>. \<open>reflect.DeepEqual\<close> of two values of
  different types is false. The argument is the pointer the caller holds; reading
  \<open>snap.Metadata.Name\<close> through a nil pointer panics.
\<close>

definition DeepEqual_DataSpec_SnapshotSpec :: "VolumeSnapshotDataSpec \<Rightarrow> VolumeSnapshotSpec \<Rightarrow> bool" where
  "DeepEqual_DataSpec_SnapshotSpec a b = False"

definition snapshotOf :: "((VolumeSnapshot option \<times> error) + VolumeSnapshot) \<Rightarrow> VolumeSnapshot option" where
  \<comment> \<open>The pointer that \<open>CreateSnapshot\<close> returned.\<close>
  "snapshotOf r = (case r of Inl (p, err) \<Rightarrow> p | Inr snap \<Rightarrow> Some snap)"

definition errorOf :: "((VolumeSnapshot option \<times> error) + VolumeSnapshot) \<Rightarrow> error option" where
  \<comment> \<open>The error that \<open>CreateSnapshot\<close> returned.\<close>
  "errorOf r = (case r of Inl (p, err) \<Rightarrow> Some err | Inr snap \<Rightarrow> None)"

definition replaceSnapshot ::
  "('w, 'v) Env \<Rightarrow> VolumeSnapshot option \<Rightarrow> 'w st \<Rightarrow> error option run \<times> 'w st" where
  "replaceSnapshot env snapPtr s =
     (case snapPtr of
        None \<Rightarrow> (Panic ''nil pointer dereference: snap.Metadata'', s)
      | Some snap \<Rightarrow>
          (case call (GetSnapshotData_c (Name (vs_Meta snap)))
                  (GetSnapshotData env (Name (vs_Meta snap))) s of
             (Inl err, s1) \<Rightarrow> (Done (Some err), s1)
           | (Inr d, s1) \<Rightarrow>
               if \<not> DeepEqual_DataSpec_SnapshotSpec (vsd_Spec d) (vs_Spec snap)
               then (case call (DeleteSnapshotData_c (Name (vs_Meta snap)))
                             (DeleteSnapshotData env (Name (vs_Meta snap))) s1 of
                       (Some err, s2) \<Rightarrow> (Done (Some err), s2)
                     | (None, s2) \<Rightarrow>
                         (case call (CreateSnapshot_c snap) (CreateSnapshot env snap) s2 of
                            (r, s3) \<Rightarrow> (Done (errorOf r), s3)))
               else (Done None, s1)))"

text \<open>
  \<open>createSnapAndDataObjects\<close> (lines 463-591). \<open>snapshotDataFor\<close> and \<open>snapshotFor\<close> are
  the two object literals of the loop body (lines 505-525 and 541-563);
  \<open>createSnapAndDataObjects_body\<close> is one iteration of the loop: it returns the updated
  volume record and the snapshot object to append to \<open>createSnapObjects\<close>, or the error
  the function returns. \<open>rollback\<close> is lines 574-580.
\<close>

definition NamespaceDefault :: string where
  "NamespaceDefault = ''default''"

definition StorkSnapshotRestoreNamespacesAnnotation :: string where
  \<comment> \<open>Modelled from the spec: the key of the restore-namespaces annotation is declared in
      the snapshot controllers package, which is not among the sources; no statement depends
      on its value.\<close>
  "StorkSnapshotRestoreNamespacesAnnotation = ''stork.libopenstorage.org/snapshot-restore-namespaces''"

definition volumeSnapshotNameOf :: "string \<Rightarrow> string \<Rightarrow> string \<Rightarrow> string" where
  \<comment> \<open>\<open>fmt.Sprintf("%s-%s-%s", parentName, parentPVCOrVolID, parentUUID)\<close>.\<close>
  "volumeSnapshotNameOf parentName parentPVCOrVolID parentUUID =
     parentName @ ''-'' @ parentPVCOrVolID @ ''-'' @ parentUUID"

definition snapshotDataFor ::
  "GroupVolumeSnapshot \<Rightarrow> string \<Rightarrow> (string \<times> string) list \<Rightarrow> string \<Rightarrow> VolumeSnapshotStatus
     \<Rightarrow> VolumeSnapshotDataSource \<Rightarrow> VolumeSnapshotData" where
  "snapshotDataFor groupSnap parentNamespace snapAnnotations volumeSnapshotName snapshot dataSource =
     \<lparr>vsd_Meta = emptyMeta\<lparr>Name := volumeSnapshotName,
                            Labels := Labels (gs_Meta groupSnap),
                            Annotations := snapAnnotations\<rparr>,
      vsd_Spec = \<lparr>VolumeSnapshotRef =
                    Some \<lparr>Ref_Kind = ''VolumeSnapshot'', Ref_Name = volumeSnapshotName,
                          Ref_Namespace = parentNamespace\<rparr>,
                  PersistentVolumeRef = Some \<lparr>Ref_Kind = [], Ref_Name = [], Ref_Namespace = []\<rparr>,
                  VolumeSnapshotDataSource = dataSource\<rparr>,
      vsd_Conditions =
        [if length (Conditions snapshot) > 0 then Some (last (Conditions snapshot)) else None]\<rparr>"

definition snapshotFor ::
  "GroupVolumeSnapshot \<Rightarrow> string \<Rightarrow> (string \<times> string) list \<Rightarrow> string \<Rightarrow> string
     \<Rightarrow> VolumeSnapshotStatus \<Rightarrow> VolumeSnapshotData \<Rightarrow> VolumeSnapshot" where
  "snapshotFor groupSnap parentNamespace snapAnnotations volumeSnapshotName parentPVCOrVolID snapshot snapData =
     \<lparr>vs_Meta = emptyMeta\<lparr>Name := volumeSnapshotName,
                           Namespace := parentNamespace,
                           Labels := Labels (gs_Meta groupSnap),
                           Annotations := snapAnnotations,
                           OwnerReferences :=
                             [\<lparr>Owner_Name = Name (gs_Meta groupSnap),
                               Owner_UID = UID (gs_Meta groupSnap),
                               Owner_Kind = gs_Kind groupSnap,
                               Owner_APIVersion = gs_APIVersion groupSnap\<rparr>]\<rparr>,
      vs_Spec = \<lparr>SnapshotDataName = Name (vsd_Meta snapData),
                 PersistentVolumeClaimName = parentPVCOrVolID\<rparr>,
      vs_Conditions = Conditions snapshot\<rparr>"

definition rollback ::
  "('w, 'v) Env \<Rightarrow> VolumeSnapshotData \<Rightarrow> VolumeSnapshot list \<Rightarrow> 'w st \<Rightarrow> 'w st" where
  "rollback env snapData createSnapObjects s =
     (case call (DeleteSnapshotData_c (Name (vsd_Meta snapData)))
             (DeleteSnapshotData env (Name (vsd_Meta snapData))) s of
        (deleteErr, s1) \<Rightarrow> snd (revertSnapObjs env createSnapObjects s1))"

definition createSnapshotDataOrReplace ::
  "('w, 'v) Env \<Rightarrow> VolumeSnapshotData \<Rightarrow> 'w st \<Rightarrow> error option \<times> 'w st" where
  \<comment> \<open>Lines 527-532: create the snapshot data, and try to replace it if it already exists.\<close>
  "createSnapshotDataOrReplace env snapData s =
     (case call (CreateSnapshotData_c snapData) (CreateSnapshotData env snapData) s of
        (None, s1) \<Rightarrow> (None, s1)
      | (Some err, s1) \<Rightarrow>
          if IsAlreadyExists err then replaceSnapshotData env snapData s1 else (Some err, s1))"

definition createSnapshotOrReplace ::
  "('w, 'v) Env \<Rightarrow> VolumeSnapshot \<Rightarrow> 'w st \<Rightarrow> (VolumeSnapshot option \<times> error option) run \<times> 'w st" where
  \<comment> \<open>Lines 565-570: \<open>snap\<close> is overwritten by the pointer that \<open>CreateSnapshot\<close> returns,
      and that pointer is what \<open>replaceSnapshot\<close> receives.\<close>
  "createSnapshotOrReplace env snap s =
     (case call (CreateSnapshot_c snap) (CreateSnapshot env snap) s of
        (r, s1) \<Rightarrow>
          (case errorOf r of
             None \<Rightarrow> (Done (snapshotOf r, None), s1)
           | Some err \<Rightarrow>
               if IsAlreadyExists err
               then (case replaceSnapshot env (snapshotOf r) s1 of
                       (Panic p, s2) \<Rightarrow> (Panic p, s2)
                     | (Done err', s2) \<Rightarrow> (Done (snapshotOf r, err'), s2))
               else (Done (snapshotOf r, Some err), s1)))"

definition createSnapAndDataObjects_body ::
  "('w, 'v) Env \<Rightarrow> GroupVolumeSnapshot \<Rightarrow> string \<Rightarrow> (string \<times> string) list \<Rightarrow> VolumeSnapshot list
     \<Rightarrow> VolumeSnapshotStatus \<Rightarrow> 'w st
     \<Rightarrow> (error + VolumeSnapshotStatus \<times> VolumeSnapshot) run \<times> 'w st" where
  "createSnapAndDataObjects_body env groupSnap parentNamespace snapAnnotations createSnapObjects snapshot s =
     (case getPVCNameFromVolumeID env (ParentVolumeID snapshot) s of
        (Panic p, s1) \<Rightarrow> (Panic p, s1)
      | (Done (Inl err), s1) \<Rightarrow> (Done (Inl err), s1)
      | (Done (Inr parentPVCOrVolID), s1) \<Rightarrow>
          (let volumeSnapshotName =
                 volumeSnapshotNameOf (Name (gs_Meta groupSnap)) parentPVCOrVolID (UID (gs_Meta groupSnap))
           in case DataSource snapshot of
                None \<Rightarrow> (Panic ''nil pointer dereference: snapshot.DataSource'', s1)
              | Some dataSource \<Rightarrow>
                  (let snapData = snapshotDataFor groupSnap parentNamespace snapAnnotations
                                    volumeSnapshotName snapshot dataSource
                   in case createSnapshotDataOrReplace env snapData s1 of
                        (Some err, s2) \<Rightarrow>
                          (Done (Inl (Errorf (''error creating the VolumeSnapshotData for snap ''
                                   @ volumeSnapshotName @ '' due to err: '' @ Error err))), s2)
                      | (None, s2) \<Rightarrow>
                          (case createSnapshotOrReplace env
                                  (snapshotFor groupSnap parentNamespace snapAnnotations
                                     volumeSnapshotName parentPVCOrVolID snapshot snapData) s2 of
                             (Panic p, s3) \<Rightarrow> (Panic p, s3)
                           | (Done (snapPtr, Some err), s3) \<Rightarrow>
                               (Done (Inl err), rollback env snapData createSnapObjects s3)
                           | (Done (None, None), s3) \<Rightarrow>
                               \<comment> \<open>not reached: a nil error comes with a snapshot object\<close>
                               (Panic ''nil pointer in createSnapObjects'', s3)
                           | (Done (Some snap, None), s3) \<Rightarrow>
                               (Done (Inr (snapshot\<lparr>VolumeSnapshotName := volumeSnapshotName\<rparr>, snap)),
                                s3)))))"

fun createSnapAndDataObjects_loop ::
  "('w, 'v) Env \<Rightarrow> GroupVolumeSnapshot \<Rightarrow> string \<Rightarrow> (string \<times> string) list
     \<Rightarrow> VolumeSnapshotStatus list \<Rightarrow> VolumeSnapshotStatus list \<Rightarrow> VolumeSnapshot list \<Rightarrow> 'w st
     \<Rightarrow> (error + VolumeSnapshotStatus list) run \<times> 'w st" where
  "createSnapAndDataObjects_loop env groupSnap parentNamespace snapAnnotations []
      updatedStatues createSnapObjects s = (Done (Inr updatedStatues), s)"
| "createSnapAndDataObjects_loop env groupSnap parentNamespace snapAnnotations (snapshot # rest)
      updatedStatues createSnapObjects s =
     (case createSnapAndDataObjects_body env groupSnap parentNamespace snapAnnotations
             createSnapObjects snapshot s of
        (Panic p, s1) \<Rightarrow> (Panic p, s1)
      | (Done (Inl err), s1) \<Rightarrow> (Done (Inl err), s1)
      | (Done (Inr (snapshot', snap)), s1) \<Rightarrow>
          createSnapAndDataObjects_loop env groupSnap parentNamespace snapAnnotations rest
            (updatedStatues @ [snapshot']) (createSnapObjects @ [snap]) s1)"

text \<open>
  The annotations of the parent are a Go map, that is a reference: when the parent has
  annotations and restore namespaces, setting the key on \<open>snapAnnotations\<close> sets it on the
  parent too. The function therefore also returns the group snapshot as it leaves it.
\<close>

definition createSnapAndDataObjects ::
  "('w, 'v) Env \<Rightarrow> GroupVolumeSnapshot \<Rightarrow> VolumeSnapshotStatus list \<Rightarrow> 'w st
     \<Rightarrow> ((error + VolumeSnapshotStatus list) run \<times> GroupVolumeSnapshot) \<times> 'w st" where
  "createSnapAndDataObjects env groupSnap snapshots s =
     (let parentNamespace = (if length (Namespace (gs_Meta groupSnap)) = 0 then NamespaceDefault
                             else Namespace (gs_Meta groupSnap));
          snapAnnotations =
            (if length (RestoreNamespaces (gs_Spec groupSnap)) > 0
             then AList.update StorkSnapshotRestoreNamespacesAnnotation
                    (Join (RestoreNamespaces (gs_Spec groupSnap)) '','')
                    (Annotations (gs_Meta groupSnap))
             else Annotations (gs_Meta groupSnap));
          groupSnap' =
            (if length (RestoreNamespaces (gs_Spec groupSnap)) > 0
                \<and> length (Annotations (gs_Meta groupSnap)) \<noteq> 0
             then groupSnap\<lparr>gs_Meta := (gs_Meta groupSnap)\<lparr>Annotations := snapAnnotations\<rparr>\<rparr>
             else groupSnap)
      in case createSnapAndDataObjects_loop env groupSnap' parentNamespace snapAnnotations
                snapshots [] [] s of
           (r, s1) \<Rightarrow> ((r, groupSnap'), s1))"

section \<open>The snapshot, post-snapshot and final stages\<close>

text \<open>\<open>handleSnap\<close> (lines 346-421). \<open>driverResponse\<close> is the call of lines 354-360.\<close>

definition driverResponse ::
  "('w, 'v) Env \<Rightarrow> GroupVolumeSnapshot \<Rightarrow> 'w st \<Rightarrow> (error + VolumeSnapshotStatus list) \<times> 'w st" where
  "driverResponse env groupSnap s =
     (if length (VolumeSnapshots (gs_Status groupSnap)) > 0
      then call GetGroupSnapshotStatus_c (GetGroupSnapshotStatus env groupSnap) s
      else call CreateGroupSnapshot_c (CreateGroupSnapshot env groupSnap) s)"

definition handleSnap ::
  "('w, 'v) Env \<Rightarrow> GroupVolumeSnapshot \<Rightarrow> 'w st
     \<Rightarrow> ((bool \<times> error option) \<times> GroupVolumeSnapshot) run \<times> 'w st" where
  "handleSnap env groupSnap s =
     (case driverResponse env groupSnap s of
        (Inl err, s1) \<Rightarrow> (Done ((\<not> updateCRD, Some err), groupSnap), s1)
      | (Inr snapshots, s1) \<Rightarrow>
          if length snapshots = 0
          then (Done ((\<not> updateCRD,
                  Some (Errorf ''group snapshot call returned 0 snapshots in response from driver'')),
                  groupSnap), s1)
          else
            (case isAnySnapshotFailed snapshots of
               (isFailed, failedTasks) \<Rightarrow>
                 if isFailed then
                   (let errMsgPrefix = ''Some snapshots in group have failed: '' @ showStrings failedTasks
                    in if NumRetries (gs_Status groupSnap) < MaxRetries (gs_Spec groupSnap)
                       then
                         (let groupSnap1 = incNumRetries groupSnap;
                              err = Errorf (errMsgPrefix @ ''. Resetting group snapshot for retry: ''
                                      @ showInt (NumRetries (gs_Status groupSnap1)))
                          in (Done ((updateCRD, None),
                                setStage GroupSnapshotStageSnapshot
                                  (setStatus GroupSnapshotPending
                                     (setVolumeSnapshots [] groupSnap1))),
                              Event EventTypeWarning (statusString GroupSnapshotFailed) (Error err) s1))
                       else
                         (let err = (if MaxRetries (gs_Spec groupSnap) = 0
                                     then Errorf (errMsgPrefix
                                            @ ''. Failing the groupsnapshot as retries are not enabled'')
                                     else Errorf (errMsgPrefix @ ''. Failing the groupsnapshot as all ''
                                            @ showInt (MaxRetries (gs_Spec groupSnap))
                                            @ '' retries are exhausted''))
                          in (Done ((updateCRD, None),
                                setStage GroupSnapshotStagePostSnapshot
                                  (setStatus GroupSnapshotFailed
                                     (setVolumeSnapshots snapshots groupSnap))),
                              Event EventTypeWarning (statusString GroupSnapshotFailed) (Error err) s1)))
                 else if areAllSnapshotsDone snapshots then
                   (case createSnapAndDataObjects env groupSnap snapshots s1 of
                      ((Panic p, groupSnap'), s2) \<Rightarrow> (Panic p, s2)
                    | ((Done (Inl err), groupSnap'), s2) \<Rightarrow>
                        (Done ((\<not> updateCRD, Some err), groupSnap'), s2)
                    | ((Done (Inr snapshots'), groupSnap'), s2) \<Rightarrow>
                        (Done ((updateCRD, None),
                           setStage GroupSnapshotStagePostSnapshot
                             (setStatus GroupSnapshotInProgress
                                (setVolumeSnapshots snapshots' groupSnap'))), s2))
                 else
                   (Done ((updateCRD, None),
                      setStage GroupSnapshotStageSnapshot
                        (setStatus GroupSnapshotInProgress
                           (setVolumeSnapshots snapshots groupSnap))), s1)))"

text \<open>\<open>handlePostSnap\<close> (lines 651-685).\<close>

definition finalize :: "GroupVolumeSnapshot \<Rightarrow> GroupVolumeSnapshot" where
  \<comment> \<open>Lines 655-658 and 680-683: Successful unless already Failed, stage Final.\<close>
  "finalize groupSnap =
     setStage GroupSnapshotStageFinal
       (if Status (gs_Status groupSnap) \<noteq> GroupSnapshotFailed
        then setStatus GroupSnapshotSuccessful groupSnap else groupSnap)"

definition handlePostSnap ::
  "('w, 'v) Env \<Rightarrow> GroupVolumeSnapshot \<Rightarrow> 'w st
     \<Rightarrow> (GroupVolumeSnapshot option \<times> bool \<times> error option) \<times> 'w st" where
  "handlePostSnap env groupSnap s =
     (let ruleName = PostExecRule (gs_Spec groupSnap)
      in if length ruleName = 0
         then ((Some (finalize groupSnap), updateCRD, None), s)
         else
           (case call (GetRule_c ruleName (Namespace (gs_Meta groupSnap)))
                   (GetRule env ruleName (Namespace (gs_Meta groupSnap))) s of
              (Inl err, s1) \<Rightarrow> ((None, \<not> updateCRD, Some err), s1)
            | (Inr r, s1) \<Rightarrow>
                (case call (ExecuteRule_c r PostExecRule_t)
                        (ExecuteRule env r PostExecRule_t groupSnap (Namespace (gs_Meta groupSnap))) s1 of
                   ((ch, Some err), s2) \<Rightarrow> ((None, \<not> updateCRD, Some err), s2)
                 | ((ch, None), s2) \<Rightarrow>
                     (case call (GetGroupSnapshot_c (Name (gs_Meta groupSnap)) (Namespace (gs_Meta groupSnap)))
                             (GetGroupSnapshot env (Name (gs_Meta groupSnap)) (Namespace (gs_Meta groupSnap))) s2 of
                        (Inl err, s3) \<Rightarrow> ((None, \<not> updateCRD, Some err), s3)
                      | (Inr groupSnap', s3) \<Rightarrow>
                          ((Some (finalize groupSnap'), updateCRD, None), s3)))))"

text \<open>\<open>handleFinal\<close> (lines 687-731) and \<open>handleDelete\<close> (lines 733-742).\<close>

definition lookupAnnotation :: "(string \<times> string) list \<Rightarrow> string \<Rightarrow> string" where
  \<comment> \<open>Reading a key of a Go map of strings: the empty string when the key is absent.\<close>
  "lookupAnnotation m k = (case map_of m k of None \<Rightarrow> [] | Some v \<Rightarrow> v)"

fun handleFinal_loop ::
  "('w, 'v) Env \<Rightarrow> string \<Rightarrow> string \<Rightarrow> VolumeSnapshotStatus list \<Rightarrow> 'w st \<Rightarrow> error option \<times> 'w st" where
  "handleFinal_loop env ns latest [] s = (None, s)"
| "handleFinal_loop env ns latest (childSnap # rest) s =
     (case call (GetSnapshot_c (VolumeSnapshotName childSnap) ns)
             (GetSnapshot env (VolumeSnapshotName childSnap) ns) s of
        (Inl err, s1) \<Rightarrow>
          if IsNotFound err then handleFinal_loop env ns latest rest s1 else (Some err, s1)
      | (Inr vs0, s1) \<Rightarrow>
          (let vs1 = vs0\<lparr>vs_Meta := (vs_Meta vs0)\<lparr>Annotations :=
                        AList.update StorkSnapshotRestoreNamespacesAnnotation latest
                          (Annotations (vs_Meta vs0))\<rparr>\<rparr>
           in case call (UpdateSnapshot_c vs1) (UpdateSnapshot env vs1) s1 of
                (Some err, s2) \<Rightarrow> (Some err, s2)
              | (None, s2) \<Rightarrow> handleFinal_loop env ns latest rest s2))"

definition handleFinal ::
  "('w, 'v) Env \<Rightarrow> GroupVolumeSnapshot \<Rightarrow> 'w st \<Rightarrow> error option \<times> 'w st" where
  "handleFinal env groupSnap s =
     (case VolumeSnapshots (gs_Status groupSnap) of
        [] \<Rightarrow> (None, s)
      | first # _ \<Rightarrow>
          (let latestRestoreNamespacesInCSV = Join (RestoreNamespaces (gs_Spec groupSnap)) '',''
           in case call (GetSnapshot_c (VolumeSnapshotName first) (Namespace (gs_Meta groupSnap)))
                     (GetSnapshot env (VolumeSnapshotName first) (Namespace (gs_Meta groupSnap))) s of
                (Inl err, s1) \<Rightarrow> (Some err, s1)
              | (Inr vsObject, s1) \<Rightarrow>
                  if latestRestoreNamespacesInCSV \<noteq>
                       lookupAnnotation (Annotations (vs_Meta vsObject))
                         StorkSnapshotRestoreNamespacesAnnotation
                  then handleFinal_loop env (Namespace (gs_Meta groupSnap))
                         latestRestoreNamespacesInCSV (VolumeSnapshots (gs_Status groupSnap)) s1
                  else (None, s1)))"

definition handleDelete ::
  "('w, 'v) Env \<Rightarrow> Controller \<Rightarrow> GroupVolumeSnapshot \<Rightarrow> 'w st \<Rightarrow> (error option \<times> Controller) \<times> 'w st" where
  "handleDelete env m groupSnap s =
     (let m1 = m\<lparr>minResourceVersions := (minResourceVersions m)(UID (gs_Meta groupSnap) := None)\<rparr>
      in case call DeleteGroupSnapshot_c (DeleteGroupSnapshot env groupSnap) s of
           (err, s1) \<Rightarrow> ((err, m1), s1))"

definition SetKind :: "GroupVolumeSnapshot \<Rightarrow> GroupVolumeSnapshot" where
  \<comment> \<open>Lines 797-800; the group and version string is that of the stork API package.\<close>
  "SetKind snap = snap\<lparr>gs_Kind := ''GroupVolumeSnapshot'',
                         gs_APIVersion := ''stork.libopenstorage.org/v1alpha1''\<rparr>"

section \<open>Reconciliation of a group snapshot (groupsnapshot.go, lines 93-230)\<close>

definition FinalizerCleanup :: string where
  \<comment> \<open>Modelled from the spec: the name of the cleanup finalizer is declared in the shared
      controllers package, which is not among the sources; no statement depends on its value.\<close>
  "FinalizerCleanup = ''stork.libopenstorage.org/finalizer-cleanup''"

definition ContainsFinalizer :: "ObjectMeta \<Rightarrow> string \<Rightarrow> bool" where
  \<comment> \<open>Modelled from the spec: the finalizer helpers of the shared controllers package are not
      among the sources; an object carries a finalizer when its list of finalizers holds it.\<close>
  "ContainsFinalizer meta f = (case Finalizers meta of None \<Rightarrow> False | Some fs \<Rightarrow> f \<in> set fs)"

definition RemoveFinalizer :: "ObjectMeta \<Rightarrow> string \<Rightarrow> ObjectMeta" where
  \<comment> \<open>Modelled from the spec: see \<open>ContainsFinalizer\<close>.\<close>
  "RemoveFinalizer meta f =
     meta\<lparr>Finalizers := (case Finalizers meta of None \<Rightarrow> None
                           | Some fs \<Rightarrow> Some (filter (\<lambda>x. x \<noteq> f) fs))\<rparr>"

definition SetFinalizer :: "ObjectMeta \<Rightarrow> string \<Rightarrow> ObjectMeta" where
  \<comment> \<open>Modelled from the spec: see \<open>ContainsFinalizer\<close>.\<close>
  "SetFinalizer meta f =
     meta\<lparr>Finalizers := (case Finalizers meta of None \<Rightarrow> Some [f] | Some fs \<Rightarrow> Some (fs @ [f]))\<rparr>"

definition stageString :: "GroupVolumeSnapshotStageType \<Rightarrow> string" where
  "stageString x = (case x of
       GroupSnapshotStageInitial \<Rightarrow> []
     | GroupSnapshotStagePreChecks \<Rightarrow> ''PreChecks''
     | GroupSnapshotStagePreSnapshot \<Rightarrow> ''PreSnapshot''
     | GroupSnapshotStageSnapshot \<Rightarrow> ''Snapshot''
     | GroupSnapshotStagePostSnapshot \<Rightarrow> ''PostSnapshot''
     | GroupSnapshotStageFinal \<Rightarrow> ''Final''
     | GroupSnapshotStageOther st \<Rightarrow> st)"

text \<open>
  The end of \<open>handle\<close> (lines 206-229): an error of the stage handler is reported as a
  warning event and returned; otherwise the resource is written back when the handler
  asked for it, and the floor of its UID is raised to the version the server answered.
\<close>

definition finishEvent ::
  "('w, 'v) Env \<Rightarrow> Controller \<Rightarrow> GroupVolumeSnapshot \<Rightarrow> bool \<Rightarrow> error option \<Rightarrow> 'w st
     \<Rightarrow> (error option \<times> Controller \<times> GroupVolumeSnapshot) run \<times> 'w st" where
  "finishEvent env m groupSnapshot updateCRDForThisEvent err s =
     (case err of
        Some e \<Rightarrow>
          (Done (Some e, m, groupSnapshot),
           Event EventTypeWarning (statusString GroupSnapshotFailed) (Error e) s)
      | None \<Rightarrow>
          if updateCRDForThisEvent
          then (let groupSnapshot1 = SetKind groupSnapshot
                in case call (ClientUpdate_c groupSnapshot1) (ClientUpdate env groupSnapshot1) s of
                     (Inl updateErr, s1) \<Rightarrow> (Done (Some updateErr, m, groupSnapshot1), s1)
                   | (Inr groupSnapshot2, s1) \<Rightarrow>
                       (Done (None,
                              m\<lparr>minResourceVersions := (minResourceVersions m)
                                   (UID (gs_Meta groupSnapshot2) \<mapsto> ResourceVersion (gs_Meta groupSnapshot2))\<rparr>,
                              groupSnapshot2), s1))
          else (Done (None, m, groupSnapshot), s))"

text \<open>
  The stage dispatch of \<open>handle\<close> (lines 170-204), followed by \<open>finishEvent\<close>. A handler
  that returns a nil error returns a group snapshot; the branches for a nil pointer with a
  nil error are not reached.
\<close>

definition terminateBackground ::
  "Controller \<Rightarrow> GroupVolumeSnapshot \<Rightarrow> 'w st \<Rightarrow> Controller \<times> 'w st" where
  \<comment> \<open>Lines 186-193.\<close>
  "terminateBackground m groupSnapshot s =
     (let snapUID = UID (gs_Meta groupSnapshot)
      in if areAllSnapshotsStarted (VolumeSnapshots (gs_Status groupSnapshot))
         then (case bgChannelsForRules m snapUID of
                 Some backgroundChannel \<Rightarrow>
                   (m\<lparr>bgChannelsForRules := (bgChannelsForRules m)(snapUID := None)\<rparr>,
                    (fst s, snd s @ [ChannelSend_c backgroundChannel]))
               | None \<Rightarrow> (m, s))
         else (m, s))"

definition processStage ::
  "('w, 'v) Env \<Rightarrow> Controller \<Rightarrow> GroupVolumeSnapshot \<Rightarrow> 'w st
     \<Rightarrow> (error option \<times> Controller \<times> GroupVolumeSnapshot) run \<times> 'w st" where
  "processStage env m groupSnapshot s =
     (case Stage (gs_Status groupSnapshot) of
        GroupSnapshotStageInitial \<Rightarrow>
          (case handleInitial env groupSnapshot s of
             (((upd, err), groupSnapshot'), s1) \<Rightarrow> finishEvent env m groupSnapshot' upd err s1)
      | GroupSnapshotStagePreChecks \<Rightarrow>
          (case handleInitial env groupSnapshot s of
             (((upd, err), groupSnapshot'), s1) \<Rightarrow> finishEvent env m groupSnapshot' upd err s1)
      | GroupSnapshotStagePreSnapshot \<Rightarrow>
          (case handlePreSnap env m groupSnapshot s of
             (((updatedGroupSnapshot, upd, Some e), m1), s1) \<Rightarrow>
               finishEvent env m1 groupSnapshot upd (Some e) s1
           | (((Some updatedGroupSnapshot, upd, None), m1), s1) \<Rightarrow>
               finishEvent env m1 updatedGroupSnapshot upd None s1
           | (((None, upd, None), m1), s1) \<Rightarrow> (Panic ''nil pointer dereference: groupSnapshot'', s1))
      | GroupSnapshotStageSnapshot \<Rightarrow>
          (case handleSnap env groupSnapshot s of
             (Panic p, s1) \<Rightarrow> (Panic p, s1)
           | (Done ((upd, err), groupSnapshot'), s1) \<Rightarrow>
               (case terminateBackground m groupSnapshot' s1 of
                  (m1, s2) \<Rightarrow> finishEvent env m1 groupSnapshot' upd err s2))
      | GroupSnapshotStagePostSnapshot \<Rightarrow>
          (case handlePostSnap env groupSnapshot s of
             ((updatedGroupSnapshot, upd, Some e), s1) \<Rightarrow>
               finishEvent env m groupSnapshot upd (Some e) s1
           | ((Some updatedGroupSnapshot, upd, None), s1) \<Rightarrow>
               finishEvent env m updatedGroupSnapshot upd None s1
           | ((None, upd, None), s1) \<Rightarrow> (Panic ''nil pointer dereference: groupSnapshot'', s1))
      | GroupSnapshotStageFinal \<Rightarrow>
          (case handleFinal env groupSnapshot s of
             (err, s1) \<Rightarrow> (Done (err, m, groupSnapshot), s1))
      | GroupSnapshotStageOther st \<Rightarrow>
          finishEvent env m groupSnapshot False
            (Some (Errorf (''invalid stage for group snapshot: '' @ st))) s)"

text \<open>
  \<open>handle\<close> (lines 123-230): the deletion branch, the version-floor gate, and then the
  stage dispatch. The result is the returned error, the controller's maps and the group
  snapshot as \<open>handle\<close> leaves it in memory.
\<close>

definition handleDeletion ::
  "('w, 'v) Env \<Rightarrow> Controller \<Rightarrow> GroupVolumeSnapshot \<Rightarrow> 'w st
     \<Rightarrow> (error option \<times> Controller \<times> GroupVolumeSnapshot) run \<times> 'w st" where
  "handleDeletion env m groupSnapshot s =
     (case (if ContainsFinalizer (gs_Meta groupSnapshot) FinalizerCleanup
            then handleDelete env m groupSnapshot s else ((None, m), s)) of
        ((Some err, m1), s1) \<Rightarrow>
          (Done (Some (Errorf (''cleanup: '' @ Error err)), m1, groupSnapshot), s1)
      | ((None, m1), s1) \<Rightarrow>
          if Finalizers (gs_Meta groupSnapshot) \<noteq> None
          then (let groupSnapshot1 =
                      groupSnapshot\<lparr>gs_Meta := RemoveFinalizer (gs_Meta groupSnapshot) FinalizerCleanup\<rparr>
                in case call (ClientUpdate_c groupSnapshot1) (ClientUpdate env groupSnapshot1) s1 of
                     (Inl err, s2) \<Rightarrow> (Done (Some err, m1, groupSnapshot1), s2)
                   | (Inr groupSnapshot2, s2) \<Rightarrow> (Done (None, m1, groupSnapshot2), s2))
          else (Done (None, m1, groupSnapshot), s1))"

definition handle ::
  "('w, 'v) Env \<Rightarrow> Controller \<Rightarrow> GroupVolumeSnapshot \<Rightarrow> 'w st
     \<Rightarrow> (error option \<times> Controller \<times> GroupVolumeSnapshot) run \<times> 'w st" where
  "handle env m groupSnapshot s =
     (if DeletionTimestamp (gs_Meta groupSnapshot) \<noteq> None
      then handleDeletion env m groupSnapshot s
      else
        (case minResourceVersions m (UID (gs_Meta groupSnapshot)) of
           None \<Rightarrow> processStage env m groupSnapshot s
         | Some minVer \<Rightarrow>
             (case NewVersion env minVer of
                Inl err \<Rightarrow>
                  (Done (Some err, m, groupSnapshot),
                   Event EventTypeWarning (statusString GroupSnapshotFailed) (Error err) s)
              | Inr minVersion \<Rightarrow>
                  (case NewVersion env (ResourceVersion (gs_Meta groupSnapshot)) of
                     Inl err \<Rightarrow>
                       (Done (Some err, m, groupSnapshot),
                        Event EventTypeWarning (statusString GroupSnapshotFailed) (Error err) s)
                   | Inr snapVersion \<Rightarrow>
                       if LessThan env snapVersion minVersion
                       then (Done (None, m, groupSnapshot), s)
                       else processStage env m groupSnapshot s))))"

text \<open>
  \<open>Reconcile\<close> (lines 93-121). The two requeue delays are constants of the shared
  controllers package; they are kept symbolic.
\<close>

datatype RequeueDelay = NoDelay | DefaultRequeue | DefaultRequeueError

record Result =
  Requeue :: bool
  RequeueAfter :: RequeueDelay

definition Reconcile ::
  "('w, 'v) Env \<Rightarrow> Controller \<Rightarrow> string \<Rightarrow> string \<Rightarrow> 'w st
     \<Rightarrow> ((Result \<times> error option) \<times> Controller) run \<times> 'w st" where
  "Reconcile env m ns name s =
     (case call (ClientGet_c ns name) (ClientGet env ns name) s of
        (Inl err, s1) \<Rightarrow>
          if IsNotFound err
          then (Done ((\<lparr>Requeue = False, RequeueAfter = NoDelay\<rparr>, None), m), s1)
          else (Done ((\<lparr>Requeue = False, RequeueAfter = DefaultRequeueError\<rparr>, Some err), m), s1)
      | (Inr groupSnapshot, s1) \<Rightarrow>
          if \<not> ContainsFinalizer (gs_Meta groupSnapshot) FinalizerCleanup
          then (let groupSnapshot1 =
                      groupSnapshot\<lparr>gs_Meta := SetFinalizer (gs_Meta groupSnapshot) FinalizerCleanup\<rparr>
                in case call (ClientUpdate_c groupSnapshot1) (ClientUpdate env groupSnapshot1) s1 of
                     (Inl err, s2) \<Rightarrow>
                       (Done ((\<lparr>Requeue = True, RequeueAfter = NoDelay\<rparr>, Some err), m), s2)
                   | (Inr _, s2) \<Rightarrow>
                       (Done ((\<lparr>Requeue = True, RequeueAfter = NoDelay\<rparr>, None), m), s2))
          else
            (case handle env m groupSnapshot s1 of
               (Panic p, s2) \<Rightarrow> (Panic p, s2)
             | (Done (Some err, m1, _), s2) \<Rightarrow>
                 (Done ((\<lparr>Requeue = False, RequeueAfter = DefaultRequeueError\<rparr>, Some err), m1), s2)
             | (Done (None, m1, _), s2) \<Rightarrow>
                 (Done ((\<lparr>Requeue = False, RequeueAfter = DefaultRequeue\<rparr>, None), m1), s2)))"

section \<open>Data model of the application-restore controller\<close>

text \<open>
  As for the group snapshot, the stage, status and replace-policy types are strings in
  the source: the constants are the constructors, the empty string is the initial stage,
  the initial status and the unset policy, and any other string is the last constructor.
  Sizes are \<open>uint64\<close>; times are numbers read from the clock.
\<close>

datatype ApplicationRestoreStageType =
    ApplicationRestoreStageInitial
  | ApplicationRestoreStageVolumes
  | ApplicationRestoreStageApplications
  | ApplicationRestoreStageFinal
  | ApplicationRestoreStageOther string

datatype ApplicationRestoreStatusType =
    ApplicationRestoreStatusInitial
  | ApplicationRestoreStatusPending
  | ApplicationRestoreStatusInProgress
  | ApplicationRestoreStatusFailed
  | ApplicationRestoreStatusPartialSuccess
  | ApplicationRestoreStatusRetained
  | ApplicationRestoreStatusSuccessful

datatype ApplicationRestoreReplacePolicyType =
    ApplicationRestoreReplacePolicyUnset
  | ApplicationRestoreReplacePolicyDelete
  | ApplicationRestoreReplacePolicyRetain
  | ApplicationRestoreReplacePolicyOther string

record ObjectInfo =
  oi_Name :: string
  oi_Namespace :: string
  oi_Group :: string
  oi_Version :: string
  oi_Kind :: string

record ApplicationRestoreResourceInfo = ObjectInfo +
  ri_Status :: ApplicationRestoreStatusType
  ri_Reason :: string

record ApplicationRestoreVolumeInfo =
  vi_PersistentVolumeClaim :: string
  vi_SourceNamespace :: string
  vi_SourceVolume :: string
  vi_RestoreVolume :: string
  vi_DriverName :: string
  vi_Status :: ApplicationRestoreStatusType
  vi_Reason :: string
  vi_TotalSize :: "64 word"

record ApplicationRestoreSpec =
  BackupName :: string
  BackupLocation :: string
  NamespaceMapping :: "(string \<times> string) list"
  ReplacePolicy :: ApplicationRestoreReplacePolicyType
  IncludeResources :: "ObjectInfo list"
  IncludeOptionalResourceTypes :: "string list"

record ApplicationRestoreStatus =
  rStage :: ApplicationRestoreStageType
  rStatus :: ApplicationRestoreStatusType
  rReason :: string
  rVolumes :: "ApplicationRestoreVolumeInfo list"
  rResources :: "ApplicationRestoreResourceInfo list"
  rTotalSize :: "64 word"
  rFinishTimestamp :: nat
  rLastUpdateTimestamp :: nat

record ApplicationRestore =
  ar_Meta :: ObjectMeta
  ar_Spec :: ApplicationRestoreSpec
  ar_Status :: ApplicationRestoreStatus

record ApplicationBackupVolumeInfo =
  bv_PersistentVolumeClaim :: string
  bv_Namespace :: string
  bv_Volume :: string
  bv_DriverName :: string

record ApplicationBackup =
  ab_Namespaces :: "string list"
  ab_BackupLocation :: string
  ab_BackupPath :: string
  ab_Volumes :: "ApplicationBackupVolumeInfo list"

text \<open>
  A \<open>runtime.Unstructured\<close> object: its group, version and kind, its namespace and name,
  and the rest of its content, which the controller never reads.
\<close>

record Object =
  o_Group :: string
  o_Version :: string
  o_Kind :: string
  o_Namespace :: string
  o_Name :: string
  o_Content :: string

record PersistentVolumeClaim =
  pvc_Name :: string
  pvc_Namespace :: string
  pvc_VolumeName :: string

record PersistentVolume =
  pv_Name :: string
  pv_Content :: string

section \<open>Collaborators of the application-restore controller\<close>

text \<open>
  The stork and core API clients, the volume drivers (addressed by name), the resource
  collector, the object converters and the clock are outside the repository; like those
  of the group snapshot they are functions over an arbitrary state \<open>'w\<close>.
  \<open>PrepareResourceForApply\<close> rewrites the object it is given, so it answers with the
  object as it leaves it. Two functions of applicationrestore.go only move data between
  the object store and the API server and decide no statement made here; they are taken
  as operations of the environment: \<open>downloadResources\<close> (lines 592-615, with
  \<open>downloadCRD\<close> and \<open>downloadObject\<close>) and \<open>createNamespaces\<close> (lines 117-186).
  \<open>rangeOrder\<close> is the order in which a \<open>range\<close> over a Go map visits its keys, given
  the keys in the order of their insertion; the language leaves it unspecified.
\<close>

datatype RCall =
    GetApplicationBackup_r string string
  | CreateNamespaces_r
  | DownloadResources_r
  | VolumeGet_r string
  | GetPreRestoreResources_r string
  | StartRestore_r string
  | GetRestoreStatus_r string
  | CancelRestore_r string
  | PrepareResourceForApply_r Object
  | DeleteResources_r "Object list"
  | ApplyResource_r Object
  | GetPVDriver_r string
  | CoreGetPersistentVolume_r string
  | CoreGetPersistentVolumeClaim_r string string
  | RestoreGet_r string string
  | RestoreUpdate_r ApplicationRestore
  | Now_r
  | Event_r EventType string string

type_synonym 'w rst = "'w \<times> RCall list"

record 'w REnv =
  restoreAdminNamespace :: string
  rangeOrder :: "string list \<Rightarrow> string list"
  GetDefaultDriverName :: string
  GetApplicationBackup :: "string \<Rightarrow> string \<Rightarrow> 'w \<Rightarrow> (error + ApplicationBackup) \<times> 'w"
  createNamespaces :: "ApplicationBackup \<Rightarrow> string \<Rightarrow> ApplicationRestore \<Rightarrow> 'w \<Rightarrow> error option \<times> 'w"
  downloadResources :: "ApplicationBackup \<Rightarrow> string \<Rightarrow> string \<Rightarrow> 'w \<Rightarrow> (error + Object list) \<times> 'w"
  VolumeGet :: "string \<Rightarrow> 'w \<Rightarrow> error option \<times> 'w"
  GetPreRestoreResources :: "string \<Rightarrow> ApplicationBackup \<Rightarrow> Object list \<Rightarrow> 'w
                              \<Rightarrow> (error + Object list) \<times> 'w"
  StartRestore :: "string \<Rightarrow> ApplicationRestore \<Rightarrow> ApplicationBackupVolumeInfo list \<Rightarrow> 'w
                    \<Rightarrow> (error + ApplicationRestoreVolumeInfo list) \<times> 'w"
  GetRestoreStatus :: "string \<Rightarrow> ApplicationRestore \<Rightarrow> 'w
                        \<Rightarrow> (error + ApplicationRestoreVolumeInfo list) \<times> 'w"
  CancelRestore :: "string \<Rightarrow> ApplicationRestore \<Rightarrow> 'w \<Rightarrow> error option \<times> 'w"
  PrepareResourceForApply :: "Object \<Rightarrow> Object list \<Rightarrow> ObjectInfo list \<Rightarrow> (string \<times> string) list
                               \<Rightarrow> (string \<times> string) list option \<Rightarrow> string list \<Rightarrow> 'w
                               \<Rightarrow> (error + bool \<times> Object) \<times> 'w"
  DeleteResources :: "Object list \<Rightarrow> 'w \<Rightarrow> error option \<times> 'w"
  ApplyResource :: "Object \<Rightarrow> 'w \<Rightarrow> error option \<times> 'w"
  Accessor :: "Object \<Rightarrow> error option"
  TypeAccessor :: "Object \<Rightarrow> error option"
  AsPersistentVolumeClaim :: "Object \<Rightarrow> error + PersistentVolumeClaim"
  AsPersistentVolume :: "Object \<Rightarrow> error + PersistentVolume"
  GetPVDriver :: "PersistentVolume \<Rightarrow> 'w \<Rightarrow> (error + string) \<times> 'w"
  CoreGetPersistentVolume :: "string \<Rightarrow> 'w \<Rightarrow> (error + PersistentVolume) \<times> 'w"
  CoreGetPersistentVolumeClaim :: "string \<Rightarrow> string \<Rightarrow> 'w \<Rightarrow> (error + PersistentVolumeClaim) \<times> 'w"
  PersistentVolumeToUnstructured :: "PersistentVolume \<Rightarrow> error + Object"
  PersistentVolumeClaimToUnstructured :: "PersistentVolumeClaim \<Rightarrow> error + Object"
  RestoreGet :: "string \<Rightarrow> string \<Rightarrow> 'w \<Rightarrow> (error + ApplicationRestore) \<times> 'w"
  RestoreUpdate :: "ApplicationRestore \<Rightarrow> 'w \<Rightarrow> (error + ApplicationRestore) \<times> 'w"
  Now :: "'w \<Rightarrow> nat \<times> 'w"

definition rcall :: "RCall \<Rightarrow> ('w \<Rightarrow> 'r \<times> 'w) \<Rightarrow> 'w rst \<Rightarrow> 'r \<times> 'w rst" where
  \<comment> \<open>One call of a collaborator, appended to the log.\<close>
  "rcall c f s = (case f (fst s) of (r, w') \<Rightarrow> (r, (w', snd s @ [c])))"

definition REvent :: "EventType \<Rightarrow> string \<Rightarrow> string \<Rightarrow> 'w rst \<Rightarrow> 'w rst" where
  \<comment> \<open>\<open>a.recorder.Event(restore, eventtype, reason, message)\<close>.\<close>
  "REvent ty reason msg s = (fst s, snd s @ [Event_r ty reason msg])"

definition restoreStatusString :: "ApplicationRestoreStatusType \<Rightarrow> string" where
  "restoreStatusString x = (case x of
       ApplicationRestoreStatusInitial \<Rightarrow> []
     | ApplicationRestoreStatusPending \<Rightarrow> ''Pending''
     | ApplicationRestoreStatusInProgress \<Rightarrow> ''InProgress''
     | ApplicationRestoreStatusFailed \<Rightarrow> ''Failed''
     | ApplicationRestoreStatusPartialSuccess \<Rightarrow> ''PartialSuccess''
     | ApplicationRestoreStatusRetained \<Rightarrow> ''Retained''
     | ApplicationRestoreStatusSuccessful \<Rightarrow> ''Successful'')"


section \<open>The resource-status table (applicationrestore.go, lines 704-755)\<close>

definition setRStatus :: "ApplicationRestoreStatusType \<Rightarrow> ApplicationRestore \<Rightarrow> ApplicationRestore" where
  \<comment> \<open>The assignment \<open>restore.Status.Status = x\<close>.\<close>
  "setRStatus x restore = restore\<lparr>ar_Status := (ar_Status restore)\<lparr>rStatus := x\<rparr>\<rparr>"

definition setRStage :: "ApplicationRestoreStageType \<Rightarrow> ApplicationRestore \<Rightarrow> ApplicationRestore" where
  \<comment> \<open>The assignment \<open>restore.Status.Stage = x\<close>.\<close>
  "setRStage x restore = restore\<lparr>ar_Status := (ar_Status restore)\<lparr>rStage := x\<rparr>\<rparr>"

definition setRReason :: "string \<Rightarrow> ApplicationRestore \<Rightarrow> ApplicationRestore" where
  \<comment> \<open>The assignment \<open>restore.Status.Reason = x\<close>.\<close>
  "setRReason x restore = restore\<lparr>ar_Status := (ar_Status restore)\<lparr>rReason := x\<rparr>\<rparr>"

definition setRVolumes :: "ApplicationRestoreVolumeInfo list \<Rightarrow> ApplicationRestore \<Rightarrow> ApplicationRestore" where
  \<comment> \<open>The assignment \<open>restore.Status.Volumes = x\<close>.\<close>
  "setRVolumes x restore = restore\<lparr>ar_Status := (ar_Status restore)\<lparr>rVolumes := x\<rparr>\<rparr>"

definition setRResources :: "ApplicationRestoreResourceInfo list \<Rightarrow> ApplicationRestore \<Rightarrow> ApplicationRestore" where
  \<comment> \<open>The assignment \<open>restore.Status.Resources = x\<close>.\<close>
  "setRResources x restore = restore\<lparr>ar_Status := (ar_Status restore)\<lparr>rResources := x\<rparr>\<rparr>"

definition setLastUpdate :: "nat \<Rightarrow> ApplicationRestore \<Rightarrow> ApplicationRestore" where
  \<comment> \<open>The assignment \<open>restore.Status.LastUpdateTimestamp = x\<close>.\<close>
  "setLastUpdate x restore = restore\<lparr>ar_Status := (ar_Status restore)\<lparr>rLastUpdateTimestamp := x\<rparr>\<rparr>"

definition setFinish :: "nat \<Rightarrow> ApplicationRestore \<Rightarrow> ApplicationRestore" where
  \<comment> \<open>The assignment \<open>restore.Status.FinishTimestamp = x\<close>.\<close>
  "setFinish x restore = restore\<lparr>ar_Status := (ar_Status restore)\<lparr>rFinishTimestamp := x\<rparr>\<rparr>"

definition matchesResource :: "ApplicationRestoreResourceInfo \<Rightarrow> Object \<Rightarrow> bool" where
  \<comment> \<open>The condition of lines 718-722.\<close>
  "matchesResource resource object =
     (oi_Name resource = o_Name object
      \<and> oi_Namespace resource = o_Namespace object
      \<and> (oi_Group resource = o_Group object
          \<or> (oi_Group resource = ''core'' \<and> o_Group object = []))
      \<and> oi_Version resource = o_Version object
      \<and> oi_Kind resource = o_Kind object)"

fun findResource :: "ApplicationRestoreResourceInfo list \<Rightarrow> Object \<Rightarrow> nat option" where
  \<comment> \<open>The loop of lines 717-726: the position of the first record that matches.\<close>
  "findResource [] object = None"
| "findResource (resource # rest) object =
     (if matchesResource resource object then Some 0
      else map_option Suc (findResource rest object))"

definition newResource :: "Object \<Rightarrow> ApplicationRestoreResourceInfo" where
  \<comment> \<open>The record of lines 728-738; status and reason are the zero values.\<close>
  "newResource object =
     \<lparr>oi_Name = o_Name object, oi_Namespace = o_Namespace object, oi_Group = o_Group object,
      oi_Version = o_Version object, oi_Kind = o_Kind object,
      ri_Status = ApplicationRestoreStatusInitial, ri_Reason = []\<rparr>"

definition recordStatus ::
  "ApplicationRestoreResourceInfo list \<Rightarrow> Object \<Rightarrow> ApplicationRestoreStatusType \<Rightarrow> string
     \<Rightarrow> ApplicationRestoreResourceInfo list" where
  \<comment> \<open>Lines 717-743 on the list: \<open>updatedResource\<close> points at the first matching record,
      or at a new record appended to the list, and its status and reason are assigned.\<close>
  "recordStatus resources object status reason =
     (case findResource resources object of
        Some i \<Rightarrow> resources[i := (resources ! i)\<lparr>ri_Status := status, ri_Reason := reason\<rparr>]
      | None \<Rightarrow> resources @ [(newResource object)\<lparr>ri_Status := status, ri_Reason := reason\<rparr>])"

definition gvkString :: "Object \<Rightarrow> string" where
  \<comment> \<open>A \<open>schema.GroupVersionKind\<close> under the verb \<open>%v\<close>.\<close>
  "gvkString object = o_Group object @ ''/'' @ o_Version object @ '', Kind='' @ o_Kind object"

definition updateResourceStatus ::
  "'w REnv \<Rightarrow> ApplicationRestore \<Rightarrow> Object \<Rightarrow> ApplicationRestoreStatusType \<Rightarrow> string \<Rightarrow> 'w rst
     \<Rightarrow> (error option \<times> ApplicationRestore) \<times> 'w rst" where
  "updateResourceStatus env restore object status reason s =
     (case Accessor env object of
        Some err \<Rightarrow> ((Some err, restore), s)
      | None \<Rightarrow>
          (let eventType = (if status = ApplicationRestoreStatusFailed then EventTypeWarning
                            else EventTypeNormal);
               eventMessage = gvkString object @ '' '' @ o_Namespace object @ ''/'' @ o_Name object
                              @ '': '' @ reason
           in ((None,
                setRResources (recordStatus (rResources (ar_Status restore)) object status reason)
                  restore),
               REvent eventType (restoreStatusString status) eventMessage s)))"


section \<open>Applying resources (applicationrestore.go, lines 757-1011)\<close>

text \<open>
  \<open>getPVNameMappings\<close> (lines 757-772): the map from source volume to restored volume.
\<close>

fun getPVNameMappings_loop ::
  "ApplicationRestoreVolumeInfo list \<Rightarrow> (string \<times> string) list \<Rightarrow> error + (string \<times> string) list" where
  "getPVNameMappings_loop [] pvNameMappings = Inr pvNameMappings"
| "getPVNameMappings_loop (vInfo # rest) pvNameMappings =
     (if vi_SourceVolume vInfo = [] then Inl (Errorf ''SourceVolume missing for restore'')
      else if vi_RestoreVolume vInfo = [] then Inl (Errorf ''RestoreVolume missing for restore'')
      else getPVNameMappings_loop rest
             (AList.update (vi_SourceVolume vInfo) (vi_RestoreVolume vInfo) pvNameMappings))"

definition getPVNameMappings :: "ApplicationRestore \<Rightarrow> error + (string \<times> string) list" where
  "getPVNameMappings restore = getPVNameMappings_loop (rVolumes (ar_Status restore)) []"

text \<open>
  \<open>getPVCToPVMapping\<close> (lines 779-823), \<open>isGenericCSIPersistentVolume\<close> (lines 825-835)
  and \<open>removeCSIVolumesBeforeApply\<close> (lines 837-911). Where a message prints a whole
  object, the model prints its name.
\<close>

definition getNamespacedPVCLocation :: "PersistentVolumeClaim \<Rightarrow> string" where
  "getNamespacedPVCLocation pvc = pvc_Namespace pvc @ ''/'' @ pvc_Name pvc"

fun pvNameToPVCName_loop ::
  "'w REnv \<Rightarrow> Object list \<Rightarrow> (string \<times> string) list \<Rightarrow> error + (string \<times> string) list" where
  "pvNameToPVCName_loop env [] m = Inr m"
| "pvNameToPVCName_loop env (o1 # rest) m =
     (case TypeAccessor env o1 of
        Some err \<Rightarrow> Inl err
      | None \<Rightarrow>
          if o_Kind o1 = ''PersistentVolumeClaim''
          then (case AsPersistentVolumeClaim env o1 of
                  Inl err \<Rightarrow> Inl (Errorf (''error converting to persistent volume: '' @ Error err))
                | Inr pvc \<Rightarrow>
                    pvNameToPVCName_loop env rest
                      (AList.update (pvc_VolumeName pvc) (getNamespacedPVCLocation pvc) m))
          else pvNameToPVCName_loop env rest m)"

fun pvcNameToPV_loop ::
  "'w REnv \<Rightarrow> Object list \<Rightarrow> (string \<times> string) list \<Rightarrow> (string \<times> PersistentVolume) list
     \<Rightarrow> error + (string \<times> PersistentVolume) list" where
  "pvcNameToPV_loop env [] pvNameToPVCName m = Inr m"
| "pvcNameToPV_loop env (o1 # rest) pvNameToPVCName m =
     (case TypeAccessor env o1 of
        Some err \<Rightarrow> Inl err
      | None \<Rightarrow>
          if o_Kind o1 = ''PersistentVolume''
          then (case AsPersistentVolume env o1 of
                  Inl err \<Rightarrow> Inl (Errorf (''error converting to persistent volume: '' @ Error err))
                | Inr pv \<Rightarrow>
                    pvcNameToPV_loop env rest pvNameToPVCName
                      (AList.update (lookupAnnotation pvNameToPVCName (pv_Name pv)) pv m))
          else pvcNameToPV_loop env rest pvNameToPVCName m)"

definition getPVCToPVMapping :: "'w REnv \<Rightarrow> Object list \<Rightarrow> error + (string \<times> PersistentVolume) list" where
  "getPVCToPVMapping env allObjects =
     (case pvNameToPVCName_loop env allObjects [] of
        Inl err \<Rightarrow> Inl err
      | Inr pvNameToPVCName \<Rightarrow> pvcNameToPV_loop env allObjects pvNameToPVCName [])"

definition isGenericCSIPersistentVolume ::
  "'w REnv \<Rightarrow> PersistentVolume \<Rightarrow> 'w rst \<Rightarrow> (error + bool) \<times> 'w rst" where
  "isGenericCSIPersistentVolume env pv s =
     (case rcall (GetPVDriver_r (pv_Name pv)) (GetPVDriver env pv) s of
        (Inl err, s1) \<Rightarrow> (Inl err, s1)
      | (Inr driverName, s1) \<Rightarrow> (Inr (driverName = ''csi''), s1))"

fun removeCSIVolumesBeforeApply_loop ::
  "'w REnv \<Rightarrow> (string \<times> PersistentVolume) list \<Rightarrow> Object list \<Rightarrow> Object list \<Rightarrow> 'w rst
     \<Rightarrow> (error + Object list) \<times> 'w rst" where
  "removeCSIVolumesBeforeApply_loop env pvcToPVMapping [] tempObjects s = (Inr tempObjects, s)"
| "removeCSIVolumesBeforeApply_loop env pvcToPVMapping (o1 # rest) tempObjects s =
     (case TypeAccessor env o1 of
        Some err \<Rightarrow> (Inl err, s)
      | None \<Rightarrow>
          if o_Kind o1 = ''PersistentVolume''
          then (case AsPersistentVolume env o1 of
                  Inl err \<Rightarrow> (Inl (Errorf (''error converting to persistent volume: '' @ Error err)), s)
                | Inr pv \<Rightarrow>
                    (case isGenericCSIPersistentVolume env pv s of
                       (Inl err, s1) \<Rightarrow>
                         (Inl (Errorf (''failed to check if PV was provisioned by a CSI driver: ''
                                 @ Error err)), s1)
                     | (Inr isGenericCSIPVC, s1) \<Rightarrow>
                         removeCSIVolumesBeforeApply_loop env pvcToPVMapping rest
                           (if \<not> isGenericCSIPVC then tempObjects @ [o1] else tempObjects) s1))
          else if o_Kind o1 = ''PersistentVolumeClaim''
          then (case AsPersistentVolumeClaim env o1 of
                  Inl err \<Rightarrow>
                    (Inl (Errorf (''error converting PVC object: '' @ o_Name o1 @ '': '' @ Error err)), s)
                | Inr pvc \<Rightarrow>
                    (case map_of pvcToPVMapping (getNamespacedPVCLocation pvc) of
                       None \<Rightarrow>
                         removeCSIVolumesBeforeApply_loop env pvcToPVMapping rest (tempObjects @ [o1]) s
                     | Some pv \<Rightarrow>
                         (case isGenericCSIPersistentVolume env pv s of
                            (Inl err, s1) \<Rightarrow> (Inl err, s1)
                          | (Inr isGenericCSIPVC, s1) \<Rightarrow>
                              removeCSIVolumesBeforeApply_loop env pvcToPVMapping rest
                                (if \<not> isGenericCSIPVC then tempObjects @ [o1] else tempObjects) s1)))
          else removeCSIVolumesBeforeApply_loop env pvcToPVMapping rest (tempObjects @ [o1]) s)"

definition removeCSIVolumesBeforeApply ::
  "'w REnv \<Rightarrow> Object list \<Rightarrow> 'w rst \<Rightarrow> (error + Object list) \<times> 'w rst" where
  "removeCSIVolumesBeforeApply env objects s =
     (case getPVCToPVMapping env objects of
        Inl err \<Rightarrow> (Inl (Errorf (''failed to get PVC to PV mapping: '' @ Error err)), s)
      | Inr pvcToPVMapping \<Rightarrow> removeCSIVolumesBeforeApply_loop env pvcToPVMapping objects [] s)"

text \<open>
  The first loop of \<open>applyResources\<close> (lines 924-938), which is also the loop of lines
  403-421 in \<open>restoreVolumes\<close>. The objects are pointers: what
  \<open>PrepareResourceForApply\<close> writes into one object is seen in the list handed to the
  later calls, so the list is threaded with the objects already prepared.
\<close>

definition CreateObjectsMap :: "ObjectInfo list \<Rightarrow> ObjectInfo list" where
  \<comment> \<open>Modelled from the spec: the helper of the stork API package is not among the sources.
      The include filter maps every listed object to true; the map is kept as the list of
      its keys.\<close>
  "CreateObjectsMap includeObjects = remdups includeObjects"

fun prepareResources_loop ::
  "'w REnv \<Rightarrow> ApplicationRestore \<Rightarrow> ObjectInfo list \<Rightarrow> (string \<times> string) list option
     \<Rightarrow> Object list \<Rightarrow> Object list \<Rightarrow> Object list \<Rightarrow> 'w rst
     \<Rightarrow> (error + Object list) \<times> 'w rst" where
  "prepareResources_loop env restore objectMap pvNameMappings prepared [] tempObjects s =
     (Inr tempObjects, s)"
| "prepareResources_loop env restore objectMap pvNameMappings prepared (o1 # rest) tempObjects s =
     (case rcall (PrepareResourceForApply_r o1)
             (PrepareResourceForApply env o1 (prepared @ o1 # rest) objectMap
                (NamespaceMapping (ar_Spec restore)) pvNameMappings
                (IncludeOptionalResourceTypes (ar_Spec restore))) s of
        (Inl err, s1) \<Rightarrow> (Inl err, s1)
      | (Inr (skip, o2), s1) \<Rightarrow>
          prepareResources_loop env restore objectMap pvNameMappings (prepared @ [o2]) rest
            (if \<not> skip then tempObjects @ [o2] else tempObjects) s1)"

text \<open>
  The apply loop (lines 957-1009). \<open>applyOutcome\<close> is the decision of lines 968-982: the
  error that remains after the replace policy was consulted, and the \<open>retained\<close> flag.
\<close>

definition retainedReason :: string where
  "retainedReason =
     ''Resource restore skipped as it was already present and ReplacePolicy is set to Retain''"

definition applyOutcome ::
  "ApplicationRestoreReplacePolicyType \<Rightarrow> error option \<Rightarrow> error option \<times> bool" where
  "applyOutcome policy err =
     (case err of
        None \<Rightarrow> (None, False)
      | Some e \<Rightarrow>
          if IsAlreadyExists e
          then (case policy of
                  ApplicationRestoreReplacePolicyDelete \<Rightarrow> (Some e, False)
                | ApplicationRestoreReplacePolicyRetain \<Rightarrow> (None, True)
                | _ \<Rightarrow> (Some e, False))
          else (Some e, False))"

definition applyOne ::
  "'w REnv \<Rightarrow> ApplicationRestore \<Rightarrow> Object \<Rightarrow> 'w rst \<Rightarrow> (error option \<times> ApplicationRestore) \<times> 'w rst" where
  \<comment> \<open>One iteration of the loop of lines 957-1009; an error ends \<open>applyResources\<close>.\<close>
  "applyOne env restore o1 s =
     (case Accessor env o1 of
        Some err \<Rightarrow> ((Some err, restore), s)
      | None \<Rightarrow>
          (case TypeAccessor env o1 of
             Some err \<Rightarrow> ((Some err, restore), s)
           | None \<Rightarrow>
               (case rcall (ApplyResource_r o1) (ApplyResource env o1) s of
                  (applyErr, s1) \<Rightarrow>
                    (case applyOutcome (ReplacePolicy (ar_Spec restore)) applyErr of
                       (Some err, retained) \<Rightarrow>
                         updateResourceStatus env restore o1 ApplicationRestoreStatusFailed
                           (''Error applying resource: '' @ Error err) s1
                     | (None, True) \<Rightarrow>
                         updateResourceStatus env restore o1 ApplicationRestoreStatusRetained
                           retainedReason s1
                     | (None, False) \<Rightarrow>
                         updateResourceStatus env restore o1 ApplicationRestoreStatusSuccessful
                           ''Resource restored successfully'' s1))))"

fun applyResources_loop ::
  "'w REnv \<Rightarrow> ApplicationRestore \<Rightarrow> Object list \<Rightarrow> 'w rst
     \<Rightarrow> (error option \<times> ApplicationRestore) \<times> 'w rst" where
  "applyResources_loop env restore [] s = ((None, restore), s)"
| "applyResources_loop env restore (o1 # rest) s =
     (case applyOne env restore o1 s of
        ((Some err, restore1), s1) \<Rightarrow> ((Some err, restore1), s1)
      | ((None, restore1), s1) \<Rightarrow> applyResources_loop env restore1 rest s1)"

definition applyResources ::
  "'w REnv \<Rightarrow> ApplicationRestore \<Rightarrow> Object list \<Rightarrow> 'w rst
     \<Rightarrow> (error option \<times> ApplicationRestore) \<times> 'w rst" where
  "applyResources env restore objects s =
     (case getPVNameMappings restore of
        Inl err \<Rightarrow> ((Some err, restore), s)
      | Inr pvNameMappings \<Rightarrow>
          (case prepareResources_loop env restore
                  (CreateObjectsMap (IncludeResources (ar_Spec restore)))
                  (Some pvNameMappings) [] objects [] s of
             (Inl err, s1) \<Rightarrow> ((Some err, restore), s1)
           | (Inr objects1, s1) \<Rightarrow>
               (case (if ReplacePolicy (ar_Spec restore) = ApplicationRestoreReplacePolicyDelete
                      then rcall (DeleteResources_r objects1) (DeleteResources env objects1) s1
                      else (None, s1)) of
                  (Some err, s2) \<Rightarrow> ((Some err, restore), s2)
                | (None, s2) \<Rightarrow>
                    (case removeCSIVolumesBeforeApply env objects1 s2 of
                       (Inl err, s3) \<Rightarrow> ((Some err, restore), s3)
                     | (Inr objects2, s3) \<Rightarrow> applyResources_loop env restore objects2 s3))))"


section \<open>Restoring resources (applicationrestore.go, lines 1013-1125)\<close>

definition persist ::
  "'w REnv \<Rightarrow> ApplicationRestore \<Rightarrow> 'w rst \<Rightarrow> (error option \<times> ApplicationRestore) \<times> 'w rst" where
  \<comment> \<open>\<open>a.client.Update(context.TODO(), restore)\<close>: on success the object holds the
      server's answer.\<close>
  "persist env restore s =
     (case rcall (RestoreUpdate_r restore) (RestoreUpdate env restore) s of
        (Inl err, s1) \<Rightarrow> ((Some err, restore), s1)
      | (Inr restore1, s1) \<Rightarrow> ((None, restore1), s1))"

definition csiObject :: "Object \<Rightarrow> string \<Rightarrow> Object" where
  \<comment> \<open>\<open>SetGroupVersionKind\<close> with version v1 and group core (lines 1082-1086, 1110-1114).\<close>
  "csiObject obj kind = obj\<lparr>o_Group := ''core'', o_Version := ''v1'', o_Kind := kind\<rparr>"

fun addCSIVolumeResources_loop ::
  "'w REnv \<Rightarrow> ApplicationRestore \<Rightarrow> ApplicationRestoreVolumeInfo list \<Rightarrow> 'w rst
     \<Rightarrow> (error option \<times> ApplicationRestore) \<times> 'w rst" where
  "addCSIVolumeResources_loop env restore [] s = ((None, restore), s)"
| "addCSIVolumeResources_loop env restore (vrInfo # rest) s =
     (if vi_DriverName vrInfo \<noteq> ''csi'' then addCSIVolumeResources_loop env restore rest s
      else
        (case rcall (CoreGetPersistentVolume_r (vi_RestoreVolume vrInfo))
                (CoreGetPersistentVolume env (vi_RestoreVolume vrInfo)) s of
           (Inl err, s1) \<Rightarrow>
             ((Some (Errorf (''failed to get PV '' @ vi_RestoreVolume vrInfo @ '': '' @ Error err)),
               restore), s1)
         | (Inr pv, s1) \<Rightarrow>
             (case PersistentVolumeToUnstructured env pv of
                Inl err \<Rightarrow>
                  ((Some (Errorf (''failed to convert PV '' @ vi_RestoreVolume vrInfo
                            @ '' to unstructured: '' @ Error err)), restore), s1)
              | Inr pvContent \<Rightarrow>
                  (case updateResourceStatus env restore (csiObject pvContent ''PersistentVolume'')
                          ApplicationRestoreStatusSuccessful ''Resource restored successfully'' s1 of
                     ((Some err, restore1), s2) \<Rightarrow> ((Some err, restore1), s2)
                   | ((None, restore1), s2) \<Rightarrow>
                       (let ns = (case map_of (NamespaceMapping (ar_Spec restore1))
                                         (vi_SourceNamespace vrInfo) of
                                    Some mapped \<Rightarrow> mapped
                                  | None \<Rightarrow> vi_SourceNamespace vrInfo)
                        in case rcall (CoreGetPersistentVolumeClaim_r (vi_PersistentVolumeClaim vrInfo) ns)
                                  (CoreGetPersistentVolumeClaim env (vi_PersistentVolumeClaim vrInfo) ns) s2 of
                             (Inl err, s3) \<Rightarrow>
                               ((Some (Errorf (''failed to get PVC '' @ ns @ ''/''
                                         @ vi_PersistentVolumeClaim vrInfo @ '': '' @ Error err)),
                                 restore1), s3)
                           | (Inr pvc, s3) \<Rightarrow>
                               (case PersistentVolumeClaimToUnstructured env pvc of
                                  Inl err \<Rightarrow>
                                    ((Some (Errorf (''failed to convert PVC '' @ vi_RestoreVolume vrInfo
                                              @ '' to unstructured: '' @ Error err)), restore1), s3)
                                | Inr pvcContent \<Rightarrow>
                                    (case updateResourceStatus env restore1
                                            (csiObject pvcContent ''PersistentVolumeClaim'')
                                            ApplicationRestoreStatusSuccessful
                                            ''Resource restored successfully'' s3 of
                                       ((Some err, restore2), s4) \<Rightarrow> ((Some err, restore2), s4)
                                     | ((None, restore2), s4) \<Rightarrow>
                                         addCSIVolumeResources_loop env restore2 rest s4)))))))"

definition addCSIVolumeResources ::
  "'w REnv \<Rightarrow> ApplicationRestore \<Rightarrow> 'w rst \<Rightarrow> (error option \<times> ApplicationRestore) \<times> 'w rst" where
  "addCSIVolumeResources env restore s =
     addCSIVolumeResources_loop env restore (rVolumes (ar_Status restore)) s"

definition overallStatus :: "ApplicationRestore \<Rightarrow> ApplicationRestore" where
  \<comment> \<open>Lines 1040-1048: Successful, or PartialSuccess when some record is not Successful.\<close>
  "overallStatus restore =
     (if list_ex (\<lambda>resource. ri_Status resource \<noteq> ApplicationRestoreStatusSuccessful)
           (rResources (ar_Status restore))
      then setRReason ''Volumes were restored successfully. Some existing resources were not replaced''
             (setRStatus ApplicationRestoreStatusPartialSuccess restore)
      else setRReason ''Volumes and resources were restored up successfully''
             (setRStatus ApplicationRestoreStatusSuccessful restore))"

definition finishRestore ::
  "'w REnv \<Rightarrow> ApplicationRestore \<Rightarrow> 'w rst \<Rightarrow> (error option \<times> ApplicationRestore) \<times> 'w rst" where
  \<comment> \<open>Lines 1038-1062: what \<open>restoreResources\<close> does once the resources were applied.\<close>
  "finishRestore env restore s =
     (case rcall Now_r (Now env) s of
        (now1, s1) \<Rightarrow>
          (case addCSIVolumeResources env
                  (overallStatus (setFinish now1 (setRStage ApplicationRestoreStageFinal restore))) s1 of
             ((Some err, restore1), s2) \<Rightarrow> ((Some err, restore1), s2)
           | ((None, restore1), s2) \<Rightarrow>
               (case rcall Now_r (Now env) s2 of
                  (now2, s3) \<Rightarrow> persist env (setLastUpdate now2 restore1) s3)))"

definition restoreResources ::
  "'w REnv \<Rightarrow> ApplicationRestore \<Rightarrow> 'w rst \<Rightarrow> (error option \<times> ApplicationRestore) \<times> 'w rst" where
  "restoreResources env restore s =
     (case rcall (GetApplicationBackup_r (BackupName (ar_Spec restore)) (Namespace (ar_Meta restore)))
             (GetApplicationBackup env (BackupName (ar_Spec restore)) (Namespace (ar_Meta restore))) s of
        (Inl err, s1) \<Rightarrow> ((Some err, restore), s1)
      | (Inr backup, s1) \<Rightarrow>
          (case rcall DownloadResources_r
                  (downloadResources env backup (BackupLocation (ar_Spec restore))
                     (Namespace (ar_Meta restore))) s1 of
             (Inl err, s2) \<Rightarrow> ((Some err, restore), s2)
           | (Inr objects, s2) \<Rightarrow>
               (case removeCSIVolumesBeforeApply env objects s2 of
                  (Inl err, s3) \<Rightarrow> ((Some err, restore), s3)
                | (Inr objects1, s3) \<Rightarrow>
                    (case applyResources env restore objects1 s3 of
                       ((Some err, restore1), s4) \<Rightarrow> ((Some err, restore1), s4)
                     | ((None, restore1), s4) \<Rightarrow> finishRestore env restore1 s4))))"


section \<open>Restoring volumes (applicationrestore.go, lines 306-553)\<close>

text \<open>
  The grouping of the backed-up volumes by driver (lines 338-374). The Go map from a
  driver name to its volumes is an association list in the order of insertion.
\<close>

definition addVolume ::
  "string \<Rightarrow> ApplicationBackupVolumeInfo \<Rightarrow> (string \<times> ApplicationBackupVolumeInfo list) list
     \<Rightarrow> (string \<times> ApplicationBackupVolumeInfo list) list" where
  "addVolume driverName volumeBackup m =
     (case map_of m driverName of
        None \<Rightarrow> m @ [(driverName, [volumeBackup])]
      | Some vInfos \<Rightarrow> AList.update driverName (vInfos @ [volumeBackup]) m)"

fun groupVolumes_inner ::
  "'w REnv \<Rightarrow> ObjectInfo list \<Rightarrow> string \<Rightarrow> ApplicationBackupVolumeInfo list
     \<Rightarrow> (string \<times> ApplicationBackupVolumeInfo list) list
     \<Rightarrow> (string \<times> ApplicationBackupVolumeInfo list) list" where
  "groupVolumes_inner env objectMap namespace [] m = m"
| "groupVolumes_inner env objectMap namespace (volumeBackup # rest) m =
     (if bv_Namespace volumeBackup \<noteq> namespace
      then groupVolumes_inner env objectMap namespace rest m
      else if length objectMap \<noteq> 0
              \<and> \<lparr>oi_Name = bv_PersistentVolumeClaim volumeBackup,
                  oi_Namespace = bv_Namespace volumeBackup, oi_Group = ''core'',
                  oi_Version = ''v1'', oi_Kind = ''PersistentVolumeClaim''\<rparr> \<notin> set objectMap
      then groupVolumes_inner env objectMap namespace rest m
      else (let volumeBackup1 = (if bv_DriverName volumeBackup = []
                                 then volumeBackup\<lparr>bv_DriverName := GetDefaultDriverName env\<rparr>
                                 else volumeBackup)
            in groupVolumes_inner env objectMap namespace rest
                 (addVolume (bv_DriverName volumeBackup1) volumeBackup1 m)))"

fun groupVolumes ::
  "'w REnv \<Rightarrow> ApplicationRestore \<Rightarrow> ApplicationBackup \<Rightarrow> ObjectInfo list \<Rightarrow> string list
     \<Rightarrow> (string \<times> ApplicationBackupVolumeInfo list) list
     \<Rightarrow> (string \<times> ApplicationBackupVolumeInfo list) list" where
  "groupVolumes env restore backup objectMap [] m = m"
| "groupVolumes env restore backup objectMap (namespace # rest) m =
     (if map_of (NamespaceMapping (ar_Spec restore)) namespace = None
      then groupVolumes env restore backup objectMap rest m
      else groupVolumes env restore backup objectMap rest
             (groupVolumes_inner env objectMap namespace (ab_Volumes backup) m))"

definition inRangeOrder :: "'w REnv \<Rightarrow> (string \<times> 'a) list \<Rightarrow> (string \<times> 'a) list" where
  \<comment> \<open>The entries of a map in the order in which \<open>range\<close> visits them.\<close>
  "inRangeOrder env m =
     concat (map (\<lambda>k. case map_of m k of None \<Rightarrow> [] | Some v \<Rightarrow> [(k, v)])
               (rangeOrder env (map fst m)))"

fun getNamespacedObjectsToDelete_loop ::
  "'w REnv \<Rightarrow> Object list \<Rightarrow> Object list \<Rightarrow> error + Object list" where
  "getNamespacedObjectsToDelete_loop env [] tempObjects = Inr tempObjects"
| "getNamespacedObjectsToDelete_loop env (o1 # rest) tempObjects =
     (case TypeAccessor env o1 of
        Some err \<Rightarrow> Inl err
      | None \<Rightarrow>
          getNamespacedObjectsToDelete_loop env rest
            (if o_Kind o1 \<noteq> ''PersistentVolume'' then tempObjects @ [o1] else tempObjects))"

definition getNamespacedObjectsToDelete :: "'w REnv \<Rightarrow> Object list \<Rightarrow> error + Object list" where
  "getNamespacedObjectsToDelete env objects = getNamespacedObjectsToDelete_loop env objects []"

text \<open>
  \<open>prepareDriver\<close> is lines 377-435: everything the loop over the drivers does for one
  driver before it starts the restore. \<open>preDeleteCSI\<close> is the block of lines 400-435.
\<close>

definition preDeleteCSI ::
  "'w REnv \<Rightarrow> ApplicationRestore \<Rightarrow> Object list \<Rightarrow> 'w rst \<Rightarrow> error option \<times> 'w rst" where
  "preDeleteCSI env restore objects s =
     (case prepareResources_loop env restore
             (CreateObjectsMap (IncludeResources (ar_Spec restore))) None [] objects [] s of
        (Inl err, s1) \<Rightarrow> (Some err, s1)
      | (Inr objectBasedOnIncludeResources, s1) \<Rightarrow>
          (case getNamespacedObjectsToDelete env objectBasedOnIncludeResources of
             Inl err \<Rightarrow> (Some err, s1)
           | Inr tempObjects \<Rightarrow>
               rcall (DeleteResources_r tempObjects) (DeleteResources env tempObjects) s1))"

definition prepareDriver ::
  "'w REnv \<Rightarrow> ApplicationBackup \<Rightarrow> ApplicationRestore \<Rightarrow> string \<Rightarrow> 'w rst
     \<Rightarrow> (error option \<times> ApplicationRestore) \<times> 'w rst" where
  "prepareDriver env backup restore driverName s =
     (case rcall (VolumeGet_r driverName) (VolumeGet env driverName) s of
        (Some err, s1) \<Rightarrow> ((Some err, restore), s1)
      | (None, s1) \<Rightarrow>
          (case rcall DownloadResources_r
                  (downloadResources env backup (BackupLocation (ar_Spec restore))
                     (Namespace (ar_Meta restore))) s1 of
             (Inl err, s2) \<Rightarrow> ((Some err, restore), s2)
           | (Inr objects, s2) \<Rightarrow>
               (case rcall (GetPreRestoreResources_r driverName)
                       (GetPreRestoreResources env driverName backup objects) s2 of
                  (Inl err, s3) \<Rightarrow> ((Some err, restore), s3)
                | (Inr preRestoreObjects, s3) \<Rightarrow>
                    (case applyResources env restore preRestoreObjects s3 of
                       ((Some err, restore1), s4) \<Rightarrow> ((Some err, restore1), s4)
                     | ((None, restore1), s4) \<Rightarrow>
                         if driverName = ''csi''
                            \<and> ReplacePolicy (ar_Spec restore1) = ApplicationRestoreReplacePolicyDelete
                         then (case preDeleteCSI env restore1 objects s4 of
                                 (err, s5) \<Rightarrow> ((err, restore1), s5))
                         else ((None, restore1), s4)))))"

text \<open>
  The loop over the drivers (lines 376-456). It ends in one of three ways: every driver
  started its restore (\<open>Started\<close>); a step before a start returned an error, which
  \<open>restoreVolumes\<close> returns (\<open>Aborted\<close>); or \<open>StartRestore\<close> returned an error
  (\<open>StartFailed\<close>), and \<open>restoreVolumes\<close> returns what the update of lines 448-453 gave.
\<close>

datatype StartOutcome = Started | Aborted error | StartFailed "error option"

definition startFailure ::
  "'w REnv \<Rightarrow> ApplicationRestore \<Rightarrow> error \<Rightarrow> 'w rst \<Rightarrow> (StartOutcome \<times> ApplicationRestore) \<times> 'w rst" where
  \<comment> \<open>Lines 439-453.\<close>
  "startFailure env restore err s =
     (let message = ''Error starting Application Restore for volumes: '' @ Error err
      in case persist env
                (setRReason message
                   (setRStage ApplicationRestoreStageFinal
                      (setRStatus ApplicationRestoreStatusFailed restore)))
                (REvent EventTypeWarning (restoreStatusString ApplicationRestoreStatusFailed)
                   message s) of
           ((updateErr, restore1), s1) \<Rightarrow> ((StartFailed updateErr, restore1), s1))"

fun startRestores ::
  "'w REnv \<Rightarrow> ApplicationBackup \<Rightarrow> ApplicationRestore
     \<Rightarrow> (string \<times> ApplicationBackupVolumeInfo list) list \<Rightarrow> 'w rst
     \<Rightarrow> (StartOutcome \<times> ApplicationRestore) \<times> 'w rst" where
  "startRestores env backup restore [] s = ((Started, restore), s)"
| "startRestores env backup restore ((driverName, vInfos) # rest) s =
     (case prepareDriver env backup restore driverName s of
        ((Some err, restore1), s1) \<Rightarrow> ((Aborted err, restore1), s1)
      | ((None, restore1), s1) \<Rightarrow>
          (case rcall (StartRestore_r driverName) (StartRestore env driverName restore1 vInfos) s1 of
             (Inl err, s2) \<Rightarrow> startFailure env restore1 err s2
           | (Inr restoreVolumeInfos, s2) \<Rightarrow>
               startRestores env backup
                 (setRVolumes (rVolumes (ar_Status restore1) @ restoreVolumeInfos) restore1) rest s2))"

definition startVolumes ::
  "'w REnv \<Rightarrow> ApplicationRestore \<Rightarrow> 'w rst \<Rightarrow> (StartOutcome \<times> ApplicationRestore) \<times> 'w rst" where
  \<comment> \<open>Lines 334-462, entered when no volume is recorded yet.\<close>
  "startVolumes env restore s =
     (case rcall (GetApplicationBackup_r (BackupName (ar_Spec restore)) (Namespace (ar_Meta restore)))
             (GetApplicationBackup env (BackupName (ar_Spec restore)) (Namespace (ar_Meta restore))) s of
        (Inl err, s1) \<Rightarrow>
          ((Aborted (Errorf (''error getting backup spec for restore: '' @ Error err)), restore), s1)
      | (Inr backup, s1) \<Rightarrow>
          (case startRestores env backup restore
                  (inRangeOrder env
                     (groupVolumes env restore backup
                        (CreateObjectsMap (IncludeResources (ar_Spec restore)))
                        (ab_Namespaces backup) [])) s1 of
             ((Started, restore1), s2) \<Rightarrow>
               (case rcall Now_r (Now env) s2 of
                  (now1, s3) \<Rightarrow>
                    (case persist env
                            (setLastUpdate now1
                               (setRStatus ApplicationRestoreStatusInProgress restore1)) s3 of
                       ((Some err, restore2), s4) \<Rightarrow> ((Aborted err, restore2), s4)
                     | ((None, restore2), s4) \<Rightarrow> ((Started, restore2), s4)))
           | (r, s2) \<Rightarrow> (r, s2)))"


text \<open>
  The status poll (lines 465-517). \<open>getDriversForRestore\<close> (lines 306-312) builds a map
  whose keys are the driver names of the recorded volumes.
\<close>

definition getDriversForRestore :: "ApplicationRestore \<Rightarrow> string list" where
  "getDriversForRestore restore = remdups (map vi_DriverName (rVolumes (ar_Status restore)))"

fun pollDrivers ::
  "'w REnv \<Rightarrow> ApplicationRestore \<Rightarrow> string list \<Rightarrow> ApplicationRestoreVolumeInfo list \<Rightarrow> 'w rst
     \<Rightarrow> (error + ApplicationRestoreVolumeInfo list) \<times> 'w rst" where
  "pollDrivers env restore [] volumeInfos s = (Inr volumeInfos, s)"
| "pollDrivers env restore (driverName # rest) volumeInfos s =
     (case rcall (VolumeGet_r driverName) (VolumeGet env driverName) s of
        (Some err, s1) \<Rightarrow> (Inl err, s1)
      | (None, s1) \<Rightarrow>
          (case rcall (GetRestoreStatus_r driverName) (GetRestoreStatus env driverName restore) s1 of
             (Inl err, s2) \<Rightarrow>
               (Inl (Errorf (''error getting restore status for driver '' @ driverName @ '': ''
                       @ Error err)), s2)
           | (Inr status, s2) \<Rightarrow> pollDrivers env restore rest (volumeInfos @ status) s2))"

fun checkVolumes ::
  "'w REnv \<Rightarrow> ApplicationRestore \<Rightarrow> ApplicationRestoreVolumeInfo list \<Rightarrow> bool \<Rightarrow> 'w rst
     \<Rightarrow> (bool \<times> ApplicationRestore) \<times> 'w rst" where
  \<comment> \<open>The loop of lines 495-516; the boolean is \<open>inProgress\<close>.\<close>
  "checkVolumes env restore [] inProgress s = ((inProgress, restore), s)"
| "checkVolumes env restore (vInfo # rest) inProgress s =
     (if vi_Status vInfo = ApplicationRestoreStatusInProgress
         \<or> vi_Status vInfo = ApplicationRestoreStatusInitial
         \<or> vi_Status vInfo = ApplicationRestoreStatusPending
      then checkVolumes env restore rest True s
      else if vi_Status vInfo = ApplicationRestoreStatusFailed
      then (case rcall Now_r (Now env)
                   (REvent EventTypeWarning (restoreStatusString (vi_Status vInfo))
                      (''Error restoring volume '' @ vi_SourceVolume vInfo @ ''->''
                         @ vi_RestoreVolume vInfo @ '': '' @ vi_Reason vInfo) s) of
              (now1, s1) \<Rightarrow>
                ((inProgress,
                  setRReason (vi_Reason vInfo)
                    (setRStatus ApplicationRestoreStatusFailed
                       (setFinish now1 (setRStage ApplicationRestoreStageFinal restore)))), s1))
      else if vi_Status vInfo = ApplicationRestoreStatusSuccessful
      then checkVolumes env restore rest inProgress
             (REvent EventTypeNormal (restoreStatusString (vi_Status vInfo))
                (''Volume '' @ vi_SourceVolume vInfo @ ''->'' @ vi_RestoreVolume vInfo
                   @ '' restored successfully'') s)
      else checkVolumes env restore rest inProgress s)"

definition pollVolumes ::
  "'w REnv \<Rightarrow> ApplicationRestore \<Rightarrow> 'w rst
     \<Rightarrow> ((error + bool) \<times> ApplicationRestore) \<times> 'w rst" where
  \<comment> \<open>Lines 465-517: an error to return, or \<open>inProgress\<close>.\<close>
  "pollVolumes env restore s =
     (if length (rVolumes (ar_Status restore)) \<noteq> 0
      then (case pollDrivers env restore (rangeOrder env (getDriversForRestore restore)) [] s of
              (Inl err, s1) \<Rightarrow> ((Inl err, restore), s1)
            | (Inr volumeInfos, s1) \<Rightarrow>
                (case rcall Now_r (Now env) s1 of
                   (now1, s2) \<Rightarrow>
                     (case persist env (setLastUpdate now1 (setRVolumes volumeInfos restore)) s2 of
                        ((Some err, restore1), s3) \<Rightarrow> ((Inl err, restore1), s3)
                      | ((None, restore1), s3) \<Rightarrow>
                          (case checkVolumes env restore1 volumeInfos False s3 of
                             ((inProgress, restore2), s4) \<Rightarrow> ((Inr inProgress, restore2), s4)))))
      else ((Inr False, restore), s))"

definition addTotalSize :: "ApplicationRestore \<Rightarrow> ApplicationRestore" where
  \<comment> \<open>Lines 544-546; the sum wraps at 64 bits.\<close>
  "addTotalSize restore =
     restore\<lparr>ar_Status := (ar_Status restore)
       \<lparr>rTotalSize := foldl (\<lambda>total vInfo. total + vi_TotalSize vInfo)
                         (rTotalSize (ar_Status restore)) (rVolumes (ar_Status restore))\<rparr>\<rparr>"

definition afterVolumes ::
  "'w REnv \<Rightarrow> ApplicationRestore \<Rightarrow> 'w rst \<Rightarrow> (error option \<times> ApplicationRestore) \<times> 'w rst" where
  \<comment> \<open>Lines 524-552.\<close>
  "afterVolumes env restore s =
     (case (if rStatus (ar_Status restore) \<noteq> ApplicationRestoreStatusFailed
            then (case rcall Now_r (Now env) s of
                    (now1, s1) \<Rightarrow>
                      (case persist env
                              (setLastUpdate now1
                                 (setRReason ''Application resources restore is in progress''
                                    (setRStatus ApplicationRestoreStatusInProgress
                                       (setRStage ApplicationRestoreStageApplications restore)))) s1 of
                         ((Some err, restore1), s2) \<Rightarrow> ((Some err, restore1), s2)
                       | ((None, restore1), s2) \<Rightarrow> restoreResources env restore1 s2))
            else ((None, restore), s)) of
        ((Some err, restore2), s3) \<Rightarrow> ((Some err, restore2), s3)
      | ((None, restore2), s3) \<Rightarrow>
          (case rcall Now_r (Now env) s3 of
             (now2, s4) \<Rightarrow> persist env (addTotalSize (setLastUpdate now2 restore2)) s4))"

definition restoreVolumes ::
  "'w REnv \<Rightarrow> ApplicationRestore \<Rightarrow> 'w rst \<Rightarrow> (error option \<times> ApplicationRestore) \<times> 'w rst" where
  "restoreVolumes env restore0 s =
     (let restore = setRStage ApplicationRestoreStageVolumes restore0
      in case (if length (rVolumes (ar_Status restore)) = 0 then startVolumes env restore s
               else ((Started, restore), s)) of
           ((Aborted err, restore1), s1) \<Rightarrow> ((Some err, restore1), s1)
         | ((StartFailed updateErr, restore1), s1) \<Rightarrow> ((updateErr, restore1), s1)
         | ((Started, restore1), s1) \<Rightarrow>
             (case pollVolumes env restore1 s1 of
                ((Inl err, restore2), s2) \<Rightarrow> ((Some err, restore2), s2)
              | ((Inr inProgress, restore2), s2) \<Rightarrow>
                  if inProgress then ((None, restore2), s2)
                  else afterVolumes env restore2 s2))"

section \<open>Reconciliation of an application restore (applicationrestore.go, lines 82-304)\<close>

fun setDefaults_loop :: "string list \<Rightarrow> (string \<times> string) list \<Rightarrow> (string \<times> string) list" where
  "setDefaults_loop [] m = m"
| "setDefaults_loop (ns # rest) m = setDefaults_loop rest (AList.update ns ns m)"

definition setDefaults ::
  "'w REnv \<Rightarrow> ApplicationRestore \<Rightarrow> 'w rst \<Rightarrow> (error option \<times> ApplicationRestore) \<times> 'w rst" where
  "setDefaults env restore0 s =
     (let restore =
            (if ReplacePolicy (ar_Spec restore0) = ApplicationRestoreReplacePolicyUnset
             then restore0\<lparr>ar_Spec := (ar_Spec restore0)
                    \<lparr>ReplacePolicy := ApplicationRestoreReplacePolicyRetain\<rparr>\<rparr>
             else restore0)
      in if length (NamespaceMapping (ar_Spec restore)) = 0
         then (case rcall (GetApplicationBackup_r (BackupName (ar_Spec restore)) (Namespace (ar_Meta restore)))
                       (GetApplicationBackup env (BackupName (ar_Spec restore))
                          (Namespace (ar_Meta restore))) s of
                 (Inl err, s1) \<Rightarrow>
                   ((Some (Errorf (''error getting backup: '' @ Error err)), restore), s1)
               | (Inr backup, s1) \<Rightarrow>
                   ((None, restore\<lparr>ar_Spec := (ar_Spec restore)
                             \<lparr>NamespaceMapping := setDefaults_loop (ab_Namespaces backup) []\<rparr>\<rparr>), s1))
         else ((None, restore), s))"

definition namespaceRestoreAllowed :: "'w REnv \<Rightarrow> ApplicationRestore \<Rightarrow> bool" where
  "namespaceRestoreAllowed env restore =
     (if Namespace (ar_Meta restore) \<noteq> restoreAdminNamespace env
      then list_all (\<lambda>ns. ns = Namespace (ar_Meta restore))
             (map snd (NamespaceMapping (ar_Spec restore)))
      else True)"

definition verifyNamespaces :: "'w REnv \<Rightarrow> ApplicationRestore \<Rightarrow> 'w rst \<Rightarrow> error option \<times> 'w rst" where
  "verifyNamespaces env restore s =
     (if \<not> namespaceRestoreAllowed env restore
      then (Some (Errorf ''Spec.Namespaces should only contain the current namespace''), s)
      else (case rcall (GetApplicationBackup_r (BackupName (ar_Spec restore)) (Namespace (ar_Meta restore)))
                    (GetApplicationBackup env (BackupName (ar_Spec restore))
                       (Namespace (ar_Meta restore))) s of
              (Inl err, s1) \<Rightarrow> (Some err, s1)
            | (Inr backup, s1) \<Rightarrow>
                rcall CreateNamespaces_r
                  (createNamespaces env backup (BackupLocation (ar_Spec restore)) restore) s1))"

fun cleanupRestore_loop ::
  "'w REnv \<Rightarrow> ApplicationRestore \<Rightarrow> string list \<Rightarrow> 'w rst \<Rightarrow> error option \<times> 'w rst" where
  "cleanupRestore_loop env restore [] s = (None, s)"
| "cleanupRestore_loop env restore (driverName # rest) s =
     (case rcall (VolumeGet_r driverName) (VolumeGet env driverName) s of
        (Some err, s1) \<Rightarrow> (Some (Errorf (''get '' @ driverName @ '' driver: '' @ Error err)), s1)
      | (None, s1) \<Rightarrow>
          (case rcall (CancelRestore_r driverName) (CancelRestore env driverName restore) s1 of
             (Some err, s2) \<Rightarrow> (Some (Errorf (''cancel restore: '' @ Error err)), s2)
           | (None, s2) \<Rightarrow> cleanupRestore_loop env restore rest s2))"

definition cleanupRestore :: "'w REnv \<Rightarrow> ApplicationRestore \<Rightarrow> 'w rst \<Rightarrow> error option \<times> 'w rst" where
  "cleanupRestore env restore s =
     cleanupRestore_loop env restore (rangeOrder env (getDriversForRestore restore)) s"


text \<open>
  \<open>handle\<close> of the restore controller (lines 220-291) and its \<open>Reconcile\<close> (lines
  189-217). \<open>restoreDeletion\<close> is the deletion branch (lines 221-234), \<open>restoreStage\<close> the
  stage switch (lines 256-290). The result of \<open>restoreHandle\<close> is the error that \<open>handle\<close>
  returns and the restore as it leaves it in memory.
\<close>

definition restoreDeletion ::
  "'w REnv \<Rightarrow> ApplicationRestore \<Rightarrow> 'w rst \<Rightarrow> (error option \<times> ApplicationRestore) \<times> 'w rst" where
  "restoreDeletion env restore s =
     (case (if ContainsFinalizer (ar_Meta restore) FinalizerCleanup
            then cleanupRestore env restore s else (None, s)) of
        (cleanupErr, s1) \<Rightarrow>
          if Finalizers (ar_Meta restore) \<noteq> None
          then persist env (restore\<lparr>ar_Meta := RemoveFinalizer (ar_Meta restore) FinalizerCleanup\<rparr>) s1
          else ((None, restore), s1))"

definition restoreStage ::
  "'w REnv \<Rightarrow> ApplicationRestore \<Rightarrow> 'w rst \<Rightarrow> (error option \<times> ApplicationRestore) \<times> 'w rst" where
  "restoreStage env restore s =
     (case rStage (ar_Status restore) of
        ApplicationRestoreStageInitial \<Rightarrow>
          (case restoreVolumes env restore s of
             ((Some err, restore1), s1) \<Rightarrow>
               ((None, restore1),
                REvent EventTypeWarning (restoreStatusString ApplicationRestoreStatusFailed)
                  (''Error restoring volumes: '' @ Error err) s1)
           | ((None, restore1), s1) \<Rightarrow> ((None, restore1), s1))
      | ApplicationRestoreStageVolumes \<Rightarrow>
          (case restoreVolumes env restore s of
             ((Some err, restore1), s1) \<Rightarrow>
               ((None, restore1),
                REvent EventTypeWarning (restoreStatusString ApplicationRestoreStatusFailed)
                  (''Error restoring volumes: '' @ Error err) s1)
           | ((None, restore1), s1) \<Rightarrow> ((None, restore1), s1))
      | ApplicationRestoreStageApplications \<Rightarrow>
          (case restoreResources env restore s of
             ((Some err, restore1), s1) \<Rightarrow>
               ((None, restore1),
                REvent EventTypeWarning (restoreStatusString ApplicationRestoreStatusFailed)
                  (''Error restoring resources: '' @ Error err) s1)
           | ((None, restore1), s1) \<Rightarrow> ((None, restore1), s1))
      | ApplicationRestoreStageFinal \<Rightarrow> ((None, restore), s)
      | ApplicationRestoreStageOther st \<Rightarrow> ((None, restore), s))"

definition restoreHandle ::
  "'w REnv \<Rightarrow> ApplicationRestore \<Rightarrow> 'w rst \<Rightarrow> (error option \<times> ApplicationRestore) \<times> 'w rst" where
  "restoreHandle env restore s =
     (if DeletionTimestamp (ar_Meta restore) \<noteq> None
      then restoreDeletion env restore s
      else
        (case setDefaults env restore s of
           ((Some err, restore1), s1) \<Rightarrow>
             ((None, restore1),
              REvent EventTypeWarning (restoreStatusString ApplicationRestoreStatusFailed)
                (Error err) s1)
         | ((None, restore1), s1) \<Rightarrow>
             (case verifyNamespaces env restore1 s1 of
                (Some err, s2) \<Rightarrow>
                  ((None, restore1),
                   REvent EventTypeWarning (restoreStatusString ApplicationRestoreStatusFailed)
                     (Error err) s2)
              | (None, s2) \<Rightarrow> restoreStage env restore1 s2)))"

definition restoreReconcile ::
  "'w REnv \<Rightarrow> string \<Rightarrow> string \<Rightarrow> 'w rst \<Rightarrow> (Result \<times> error option) \<times> 'w rst" where
  "restoreReconcile env ns name s =
     (case rcall (RestoreGet_r ns name) (RestoreGet env ns name) s of
        (Inl err, s1) \<Rightarrow>
          if IsNotFound err
          then ((\<lparr>Requeue = False, RequeueAfter = NoDelay\<rparr>, None), s1)
          else ((\<lparr>Requeue = False, RequeueAfter = DefaultRequeueError\<rparr>, Some err), s1)
      | (Inr restore, s1) \<Rightarrow>
          if \<not> ContainsFinalizer (ar_Meta restore) FinalizerCleanup
          then (case persist env (restore\<lparr>ar_Meta := SetFinalizer (ar_Meta restore) FinalizerCleanup\<rparr>) s1 of
                  ((err, _), s2) \<Rightarrow> ((\<lparr>Requeue = True, RequeueAfter = NoDelay\<rparr>, err), s2))
          else
            (case restoreHandle env restore s1 of
               ((Some err, _), s2) \<Rightarrow>
                 ((\<lparr>Requeue = False, RequeueAfter = DefaultRequeueError\<rparr>, Some err), s2)
             | ((None, _), s2) \<Rightarrow>
                 ((\<lparr>Requeue = False, RequeueAfter = DefaultRequeue\<rparr>, None), s2)))"


section \<open>Concrete inputs\<close>

text \<open>
  Inputs on which the statements below are instantiated. \<open>volA\<close> has a failed first
  condition followed by a ready one; \<open>volB\<close> has no condition; \<open>volC\<close> is ready.
\<close>

definition condError :: VolumeSnapshotCondition where
  "condError = \<lparr>Cond_Type = VolumeSnapshotConditionError, Cond_Status = ConditionTrue,
                 Cond_Message = ''snapshot failed''\<rparr>"

definition condReady :: VolumeSnapshotCondition where
  "condReady = \<lparr>Cond_Type = VolumeSnapshotConditionReady, Cond_Status = ConditionTrue,
                 Cond_Message = ''snapshot ready''\<rparr>"

definition volA :: VolumeSnapshotStatus where
  "volA = \<lparr>VolumeSnapshotName = [], TaskID = ''task-a'', ParentVolumeID = ''vol-a'',
            DataSource = Some ''source-a'', Conditions = [condError, condReady]\<rparr>"

definition volB :: VolumeSnapshotStatus where
  "volB = \<lparr>VolumeSnapshotName = [], TaskID = ''task-b'', ParentVolumeID = ''vol-b'',
            DataSource = Some ''source-b'', Conditions = []\<rparr>"

definition volC :: VolumeSnapshotStatus where
  "volC = \<lparr>VolumeSnapshotName = [], TaskID = ''task-c'', ParentVolumeID = ''vol-c'',
            DataSource = Some ''source-c'', Conditions = [condReady]\<rparr>"

text \<open>
  A small API server and driver, used to run the controller on concrete inputs. Snapshot
  data objects are kept by name and snapshot objects by namespace and name; creating an
  object that exists fails with AlreadyExists, reading or deleting one that does not
  exist fails with NotFound. The flag says what \<open>CreateSnapshot\<close> returns beside an error:
  a nil pointer (the convention of Go clients) or the object it was given. The driver
  answers with the records stored in \<open>driverSnapshots\<close>; no volume, rule or group snapshot
  is found. \<open>parseDecimal\<close> stands for the version library on resource versions written as
  plain decimal numbers, ordered as numbers.
\<close>

record Cluster =
  driverSnapshots :: "VolumeSnapshotStatus list"
  snapshotDataObjects :: "(string \<times> VolumeSnapshotData) list"
  snapshotObjects :: "((string \<times> string) \<times> VolumeSnapshot) list"

definition parseDecimal :: "string \<Rightarrow> error + nat" where
  "parseDecimal str =
     (if str \<noteq> [] \<and> list_all (\<lambda>c. 48 \<le> (of_char c :: nat) \<and> (of_char c :: nat) \<le> 57) str
      then Inr (foldl (\<lambda>n c. 10 * n + (of_char c - 48)) 0 str)
      else Inl (Errorf (''Malformed version: '' @ str)))"

definition clusterEnv :: "bool \<Rightarrow> (Cluster, nat) Env" where
  "clusterEnv nilOnError =
     \<lparr>GetGroupSnapshotStatus = (\<lambda>g w. (Inr (driverSnapshots w), w)),
      CreateGroupSnapshot = (\<lambda>g w. (Inr (driverSnapshots w), w)),
      DeleteGroupSnapshot = (\<lambda>g w. (None, w)),
      InspectVolume = (\<lambda>volID w. (Inl (Err NotFound ''volume not found''), w)),
      GetPersistentVolume = (\<lambda>n w. (Inl (Err NotFound ''persistent volume not found''), w)),
      GetPersistentVolumeClaim = (\<lambda>n ns w. (Inl (Err NotFound ''claim not found''), w)),
      GetPVCsForGroupSnapshot = (\<lambda>ns labels w. (None, w)),
      GetRule = (\<lambda>n ns w. (Inr n, w)),
      ExecuteRule = (\<lambda>r t g ns w. ((None, None), w)),
      GetGroupSnapshot = (\<lambda>n ns w. (Inl (Err NotFound ''group snapshot not found''), w)),
      CreateSnapshotData = (\<lambda>d w.
        if map_of (snapshotDataObjects w) (Name (vsd_Meta d)) \<noteq> None
        then (Some (Err AlreadyExists ''snapshot data already exists''), w)
        else (None, w\<lparr>snapshotDataObjects := snapshotDataObjects w @ [(Name (vsd_Meta d), d)]\<rparr>)),
      GetSnapshotData = (\<lambda>n w.
        case map_of (snapshotDataObjects w) n of
          None \<Rightarrow> (Inl (Err NotFound ''snapshot data not found''), w)
        | Some d \<Rightarrow> (Inr d, w)),
      DeleteSnapshotData = (\<lambda>n w.
        if map_of (snapshotDataObjects w) n = None
        then (Some (Err NotFound ''snapshot data not found''), w)
        else (None, w\<lparr>snapshotDataObjects := filter (\<lambda>p. fst p \<noteq> n) (snapshotDataObjects w)\<rparr>)),
      CreateSnapshot = (\<lambda>v w.
        if map_of (snapshotObjects w) (Namespace (vs_Meta v), Name (vs_Meta v)) \<noteq> None
        then (Inl (if nilOnError then None else Some v, Err AlreadyExists ''snapshot already exists''), w)
        else (Inr v, w\<lparr>snapshotObjects := snapshotObjects w
                          @ [((Namespace (vs_Meta v), Name (vs_Meta v)), v)]\<rparr>)),
      DeleteSnapshot = (\<lambda>n ns w.
        if map_of (snapshotObjects w) (ns, n) = None
        then (Some (Err NotFound ''snapshot not found''), w)
        else (None, w\<lparr>snapshotObjects := filter (\<lambda>p. fst p \<noteq> (ns, n)) (snapshotObjects w)\<rparr>)),
      GetSnapshot = (\<lambda>n ns w.
        case map_of (snapshotObjects w) (ns, n) of
          None \<Rightarrow> (Inl (Err NotFound ''snapshot not found''), w)
        | Some v \<Rightarrow> (Inr v, w)),
      UpdateSnapshot = (\<lambda>v w. (None, w)),
      ClientGet = (\<lambda>ns n w. (Inl (Err NotFound ''group snapshot not found''), w)),
      ClientUpdate = (\<lambda>g w. (Inr g, w)),
      NewVersion = parseDecimal,
      LessThan = (\<lambda>a b. a < b)\<rparr>"

definition groupSnap0 :: GroupVolumeSnapshot where
  "groupSnap0 =
     \<lparr>gs_Kind = [], gs_APIVersion = [],
      gs_Meta = emptyMeta\<lparr>Name := ''gs'', Namespace := ''ns1'', UID := ''uid-1'',
                           ResourceVersion := ''7'',
                           Finalizers := Some [FinalizerCleanup]\<rparr>,
      gs_Spec = \<lparr>PVCSelector = \<lparr>MatchLabels = [(''app'', ''db'')], MatchExpressions = []\<rparr>,
                 PreExecRule = [], PostExecRule = [], MaxRetries = 2, RestoreNamespaces = []\<rparr>,
      gs_Status = \<lparr>Stage = GroupSnapshotStageSnapshot, Status = GroupSnapshotInProgress,
                   NumRetries = 0, VolumeSnapshots = []\<rparr>\<rparr>"

definition cluster0 :: Cluster where
  "cluster0 = \<lparr>driverSnapshots = [volA], snapshotDataObjects = [], snapshotObjects = []\<rparr>"

definition failingEnv :: "(Cluster, nat) Env" where
  "failingEnv = (clusterEnv True)
     \<lparr>GetGroupSnapshotStatus := (\<lambda>g w. (Inr [volA], w)),
      CreateGroupSnapshot := (\<lambda>g w. (Inr [volA], w))\<rparr>"


definition floor5 :: Controller where
  "floor5 = \<lparr>bgChannelsForRules = Map.empty, minResourceVersions = [''uid-1'' \<mapsto> ''5'']\<rparr>"

definition groupSnapInitial :: "string \<Rightarrow> GroupVolumeSnapshot" where
  "groupSnapInitial rv =
     groupSnap0\<lparr>gs_Meta := (gs_Meta groupSnap0)\<lparr>ResourceVersion := rv\<rparr>,
                gs_Status := (gs_Status groupSnap0)\<lparr>Stage := GroupSnapshotStageInitial,
                                                   Status := GroupSnapshotInitial\<rparr>\<rparr>"


text \<open>
  The selector check of \<open>handleInitial\<close> (lines 253-259): the selector is refused when
  it has a \<open>matchExpressions\<close> clause or no \<open>matchLabels\<close>.
\<close>

definition invalidSelector :: "GroupVolumeSnapshot \<Rightarrow> bool" where
  "invalidSelector groupSnap =
     (length (MatchExpressions (PVCSelector (gs_Spec groupSnap))) > 0
      \<or> length (MatchLabels (PVCSelector (gs_Spec groupSnap))) = 0)"

definition noFloors :: Controller where
  "noFloors = \<lparr>bgChannelsForRules = Map.empty, minResourceVersions = Map.empty\<rparr>"

definition groupSnapNoLabels :: GroupVolumeSnapshot where
  "groupSnapNoLabels =
     (groupSnapInitial ''7'')\<lparr>gs_Spec := (gs_Spec groupSnap0)
        \<lparr>PVCSelector := \<lparr>MatchLabels = [], MatchExpressions = []\<rparr>\<rparr>\<rparr>"

definition servingEnv :: "GroupVolumeSnapshot \<Rightarrow> (Cluster, nat) Env" where
  "servingEnv stored = (clusterEnv True)\<lparr>ClientGet := (\<lambda>ns n w. (Inr stored, w))\<rparr>"


text \<open>
  The objects that materializing \<open>volC\<close> under \<open>groupSnap0\<close> creates, and the cluster
  that holds them.
\<close>

definition clusterReady :: Cluster where
  "clusterReady = \<lparr>driverSnapshots = [volC], snapshotDataObjects = [], snapshotObjects = []\<rparr>"

definition nameC :: string where
  "nameC = ''gs-vol-c-uid-1''"

definition snapDataC :: VolumeSnapshotData where
  "snapDataC = snapshotDataFor groupSnap0 ''ns1'' [] nameC volC ''source-c''"

definition snapC :: VolumeSnapshot where
  "snapC = snapshotFor groupSnap0 ''ns1'' [] nameC ''vol-c'' volC snapDataC"

definition clusterMaterialized :: Cluster where
  "clusterMaterialized =
     \<lparr>driverSnapshots = [volC], snapshotDataObjects = [(nameC, snapDataC)],
      snapshotObjects = [((''ns1'', nameC), snapC)]\<rparr>"


section \<open>Vocabulary for the rollback of a batch\<close>












section \<open>Vocabulary for the resource-status table\<close>

text \<open>
  The key of a record is its group, version, kind, namespace and name; the normalized key
  reads the group \<open>core\<close> as the empty group. \<open>updateResourceStatuses\<close> is a sequence of
  calls of \<open>updateResourceStatus\<close> on the same restore.
\<close>

definition resourceKey :: "ApplicationRestoreResourceInfo \<Rightarrow> string \<times> string \<times> string \<times> string \<times> string" where
  "resourceKey r = (oi_Group r, oi_Version r, oi_Kind r, oi_Namespace r, oi_Name r)"

definition normalizedKey :: "ApplicationRestoreResourceInfo \<Rightarrow> string \<times> string \<times> string \<times> string \<times> string" where
  "normalizedKey r =
     ((if oi_Group r = ''core'' then [] else oi_Group r), oi_Version r, oi_Kind r,
      oi_Namespace r, oi_Name r)"

fun updateResourceStatuses ::
  "'w REnv \<Rightarrow> ApplicationRestore \<Rightarrow> (Object \<times> ApplicationRestoreStatusType \<times> string) list
     \<Rightarrow> 'w rst \<Rightarrow> ApplicationRestore \<times> 'w rst" where
  "updateResourceStatuses env restore [] s = (restore, s)"
| "updateResourceStatuses env restore ((object, status, reason) # rest) s =
     (case updateResourceStatus env restore object status reason s of
        ((err, restore1), s1) \<Rightarrow> updateResourceStatuses env restore1 rest s1)"

text \<open>
  A restore, its backup, and a small cluster for the restore controller: applying an
  object that exists fails with AlreadyExists, every driver starts a restore unless
  \<open>startError\<close> is set, and nothing else fails.
\<close>

record RCluster =
  existingObjects :: "Object list"
  backupObjects :: "Object list"
  startError :: "error option"
  clock :: nat

definition sameObject :: "Object \<Rightarrow> Object \<Rightarrow> bool" where
  "sameObject a b =
     (o_Group a = o_Group b \<and> o_Version a = o_Version b \<and> o_Kind a = o_Kind b
      \<and> o_Namespace a = o_Namespace b \<and> o_Name a = o_Name b)"

definition backup0 :: ApplicationBackup where
  "backup0 = \<lparr>ab_Namespaces = [''ns1''], ab_BackupLocation = ''loc'', ab_BackupPath = ''path'',
               ab_Volumes = [\<lparr>bv_PersistentVolumeClaim = ''data'', bv_Namespace = ''ns1'',
                               bv_Volume = ''vol-1'', bv_DriverName = ''pxd''\<rparr>]\<rparr>"

definition restoredVolume :: ApplicationRestoreVolumeInfo where
  "restoredVolume =
     \<lparr>vi_PersistentVolumeClaim = ''data'', vi_SourceNamespace = ''ns1'', vi_SourceVolume = ''vol-1'',
      vi_RestoreVolume = ''vol-1-restored'', vi_DriverName = ''pxd'',
      vi_Status = ApplicationRestoreStatusSuccessful, vi_Reason = [], vi_TotalSize = 10\<rparr>"

definition restoreEnv :: "RCluster REnv" where
  "restoreEnv =
     \<lparr>restoreAdminNamespace = ''kube-system'',
      rangeOrder = (\<lambda>keys. keys),
      GetDefaultDriverName = ''pxd'',
      GetApplicationBackup = (\<lambda>n ns w. (Inr backup0, w)),
      createNamespaces = (\<lambda>b l r w. (None, w)),
      downloadResources = (\<lambda>b l ns w. (Inr (backupObjects w), w)),
      VolumeGet = (\<lambda>d w. (None, w)),
      GetPreRestoreResources = (\<lambda>d b objs w. (Inr [], w)),
      StartRestore = (\<lambda>d r vs w.
        case startError w of Some err \<Rightarrow> (Inl err, w) | None \<Rightarrow> (Inr [restoredVolume], w)),
      GetRestoreStatus = (\<lambda>d r w. (Inr [restoredVolume], w)),
      CancelRestore = (\<lambda>d r w. (None, w)),
      PrepareResourceForApply = (\<lambda>obj objs m nsm pvm opt w. (Inr (False, obj), w)),
      DeleteResources = (\<lambda>objs w. (None, w)),
      ApplyResource = (\<lambda>obj w.
        if list_ex (sameObject obj) (existingObjects w)
        then (Some (Err AlreadyExists ''object already exists''), w)
        else (None, w\<lparr>existingObjects := existingObjects w @ [obj]\<rparr>)),
      Accessor = (\<lambda>obj. None),
      TypeAccessor = (\<lambda>obj. None),
      AsPersistentVolumeClaim = (\<lambda>obj. Inl (Err Unknown ''not a claim'')),
      AsPersistentVolume = (\<lambda>obj. Inl (Err Unknown ''not a volume'')),
      GetPVDriver = (\<lambda>pv w. (Inr ''pxd'', w)),
      CoreGetPersistentVolume = (\<lambda>n w. (Inl (Err NotFound ''persistent volume not found''), w)),
      CoreGetPersistentVolumeClaim = (\<lambda>n ns w. (Inl (Err NotFound ''claim not found''), w)),
      PersistentVolumeToUnstructured = (\<lambda>pv. Inl (Err Unknown ''cannot convert'')),
      PersistentVolumeClaimToUnstructured = (\<lambda>pvc. Inl (Err Unknown ''cannot convert'')),
      RestoreGet = (\<lambda>ns n w. (Inl (Err NotFound ''restore not found''), w)),
      RestoreUpdate = (\<lambda>r w. (Inr r, w)),
      Now = (\<lambda>w. (clock w, w))\<rparr>"

definition restore0 :: ApplicationRestore where
  "restore0 =
     \<lparr>ar_Meta = emptyMeta\<lparr>Name := ''restore'', Namespace := ''ns1'', UID := ''uid-r'',
                           Finalizers := Some [FinalizerCleanup]\<rparr>,
      ar_Spec = \<lparr>BackupName = ''backup'', BackupLocation = ''loc'',
                 NamespaceMapping = [(''ns1'', ''ns1'')],
                 ReplacePolicy = ApplicationRestoreReplacePolicyRetain,
                 IncludeResources = [], IncludeOptionalResourceTypes = []\<rparr>,
      ar_Status = \<lparr>rStage = ApplicationRestoreStageInitial, rStatus = ApplicationRestoreStatusInitial,
                   rReason = [], rVolumes = [], rResources = [], rTotalSize = 0,
                   rFinishTimestamp = 0, rLastUpdateTimestamp = 0\<rparr>\<rparr>"

definition cfg :: Object where
  "cfg = \<lparr>o_Group = [], o_Version = ''v1'', o_Kind = ''ConfigMap'', o_Namespace = ''ns1'',
           o_Name = ''cfg'', o_Content = []\<rparr>"

definition rcluster0 :: RCluster where
  "rcluster0 = \<lparr>existingObjects = [], backupObjects = [cfg], startError = None, clock = 100\<rparr>"


text \<open>
  A cluster in which the ConfigMap of the backup already exists, and the restore after
  that object was applied under the Retain policy and after it was finished at time 100.
\<close>

definition rclusterExisting :: RCluster where
  "rclusterExisting = rcluster0\<lparr>existingObjects := [cfg]\<rparr>"

definition cfgRetained :: ApplicationRestoreResourceInfo where
  "cfgRetained = (newResource cfg)\<lparr>ri_Status := ApplicationRestoreStatusRetained,
                                    ri_Reason := retainedReason\<rparr>"

definition restoreApplied :: ApplicationRestore where
  "restoreApplied = setRResources [cfgRetained] restore0"

definition logApplied :: "RCall list" where
  "logApplied =
     [GetApplicationBackup_r ''backup'' ''ns1'', DownloadResources_r,
      PrepareResourceForApply_r cfg, ApplyResource_r cfg,
      Event_r EventTypeNormal ''Retained''
        (gvkString cfg @ '' '' @ o_Namespace cfg @ ''/'' @ o_Name cfg @ '': '' @ retainedReason)]"

definition restoreFinished :: ApplicationRestore where
  "restoreFinished =
     setLastUpdate 100 (overallStatus (setFinish 100 (setRStage ApplicationRestoreStageFinal restoreApplied)))"


section \<open>Vocabulary for a failed start of the volume restore\<close>


text \<open>
  The restore \<open>restore0\<close> as \<open>restoreVolumes\<close> enters its loop, and the log of the
  start part of \<open>restoreVolumes\<close> when the driver of the one volume refuses to start.
\<close>

definition restoreInVolumes :: ApplicationRestore where
  "restoreInVolumes = setRStage ApplicationRestoreStageVolumes restore0"















section \<open>Vocabulary for the propagation of handler errors\<close>

text \<open>
  \<open>passesGate\<close> is the resource-version check of \<open>handle\<close> (lines 130-153) read as a
  condition: it holds when no floor is recorded for the UID, or when both versions parse
  and the version of the resource is not below the floor. \<open>handlerError\<close> is the error
  that the handler of the current stage returns, for the stages whose handler is followed
  by the common error check of \<open>handle\<close> (lines 206-212); \<open>restoreHandlerError\<close> is
  the error of the handler that the stage switch of the restore controller calls, and
  \<open>restoreErrorPrefix\<close> the text that the switch puts before it.
\<close>

definition passesGate :: "('w, 'v) Env \<Rightarrow> Controller \<Rightarrow> GroupVolumeSnapshot \<Rightarrow> bool" where
  "passesGate env m groupSnapshot =
     (case minResourceVersions m (UID (gs_Meta groupSnapshot)) of
        None \<Rightarrow> True
      | Some minVer \<Rightarrow>
          (case NewVersion env minVer of
             Inl err \<Rightarrow> False
           | Inr minVersion \<Rightarrow>
               (case NewVersion env (ResourceVersion (gs_Meta groupSnapshot)) of
                  Inl err \<Rightarrow> False
                | Inr snapVersion \<Rightarrow> \<not> LessThan env snapVersion minVersion)))"

definition handlerError ::
  "('w, 'v) Env \<Rightarrow> Controller \<Rightarrow> GroupVolumeSnapshot \<Rightarrow> 'w st \<Rightarrow> error option" where
  "handlerError env m groupSnapshot s =
     (case Stage (gs_Status groupSnapshot) of
        GroupSnapshotStageInitial \<Rightarrow> snd (fst (fst (handleInitial env groupSnapshot s)))
      | GroupSnapshotStagePreChecks \<Rightarrow> snd (fst (fst (handleInitial env groupSnapshot s)))
      | GroupSnapshotStagePreSnapshot \<Rightarrow>
          snd (snd (fst (fst (handlePreSnap env m groupSnapshot s))))
      | GroupSnapshotStageSnapshot \<Rightarrow>
          (case fst (handleSnap env groupSnapshot s) of
             Done ((upd, err), g) \<Rightarrow> err
           | Panic p \<Rightarrow> None)
      | GroupSnapshotStagePostSnapshot \<Rightarrow> snd (snd (fst (handlePostSnap env groupSnapshot s)))
      | GroupSnapshotStageFinal \<Rightarrow> None
      | GroupSnapshotStageOther st \<Rightarrow> None)"

definition restoreHandlerError ::
  "'w REnv \<Rightarrow> ApplicationRestore \<Rightarrow> 'w rst \<Rightarrow> error option" where
  "restoreHandlerError env restore s =
     (case rStage (ar_Status restore) of
        ApplicationRestoreStageInitial \<Rightarrow> fst (fst (restoreVolumes env restore s))
      | ApplicationRestoreStageVolumes \<Rightarrow> fst (fst (restoreVolumes env restore s))
      | ApplicationRestoreStageApplications \<Rightarrow> fst (fst (restoreResources env restore s))
      | ApplicationRestoreStageFinal \<Rightarrow> None
      | ApplicationRestoreStageOther st \<Rightarrow> None)"

definition restoreErrorPrefix :: "ApplicationRestoreStageType \<Rightarrow> string" where
  "restoreErrorPrefix stage =
     (if stage = ApplicationRestoreStageApplications then ''Error restoring resources: ''
      else ''Error restoring volumes: '')"

text \<open>
  A group snapshot at stage Final whose only volume snapshot does not exist in the
  cluster, and a restore environment whose driver lookup fails and whose API server holds
  \<open>restore0\<close>, with the log of one reconcile in it.
\<close>

definition groupSnapFinal :: GroupVolumeSnapshot where
  "groupSnapFinal =
     groupSnap0\<lparr>gs_Status := \<lparr>Stage = GroupSnapshotStageFinal, Status = GroupSnapshotSuccessful,
                                NumRetries = 0,
                                VolumeSnapshots = [volC\<lparr>VolumeSnapshotName := nameC\<rparr>]\<rparr>\<rparr>"

definition noDriverEnv :: "RCluster REnv" where
  "noDriverEnv =
     restoreEnv\<lparr>VolumeGet := (\<lambda>d w. (Some (Err Unknown ''driver not registered''), w)),
                RestoreGet := (\<lambda>ns n w. (Inr restore0, w))\<rparr>"

definition logNoDriver :: "RCall list" where
  "logNoDriver =
     [RestoreGet_r ''ns1'' ''restore'', GetApplicationBackup_r ''backup'' ''ns1'', CreateNamespaces_r,
      GetApplicationBackup_r ''backup'' ''ns1'', VolumeGet_r ''pxd'',
      Event_r EventTypeWarning ''Failed'' ''Error restoring volumes: driver not registered'']"



section \<open>Properties of the condition predicates\<close>

lemma isAnySnapshotFailed_loop_filter:
  "isAnySnapshotFailed_loop snapshots acc =
     acc @ map TaskID (filter (firstConditionIs VolumeSnapshotConditionError) snapshots)"
  by (induction snapshots arbitrary: acc)
     (auto simp: firstConditionIs_def split: list.splits)

lemma areAllSnapshotsDone_loop_count:
  "areAllSnapshotsDone_loop snapshots n =
     n + length (filter (firstConditionIs VolumeSnapshotConditionReady) snapshots)"
  by (induction snapshots arbitrary: n)
     (auto simp: firstConditionIs_def split: list.splits)

lemma firstConditionIs_onlyFirst:
  "firstConditionIs ty (onlyFirstCondition s) = firstConditionIs ty s"
  by (cases "Conditions s") (simp_all add: firstConditionIs_def onlyFirstCondition_def)

lemma filter_onlyFirst:
  "filter (firstConditionIs ty) (map onlyFirstCondition snapshots) =
     map onlyFirstCondition (filter (firstConditionIs ty) snapshots)"
  by (induction snapshots) (simp_all add: firstConditionIs_onlyFirst)

lemma TaskID_onlyFirst: "TaskID (onlyFirstCondition s) = TaskID s"
  by (simp add: onlyFirstCondition_def)

lemma firstConditionIs_fun:
  "firstConditionIs ty =
     (\<lambda>s. Conditions s \<noteq> [] \<and> Cond_Type (hd (Conditions s)) = ty
        \<and> Cond_Status (hd (Conditions s)) = ConditionTrue)"
  by (rule ext) (simp add: firstConditionIs_def)

lemma isAnySnapshotFailed_char:
  "isAnySnapshotFailed snapshots =
     (\<exists>s \<in> set snapshots. firstConditionIs VolumeSnapshotConditionError s,
      map TaskID (filter (firstConditionIs VolumeSnapshotConditionError) snapshots))"
  by (auto simp: isAnySnapshotFailed_def isAnySnapshotFailed_loop_filter Let_def filter_empty_conv)

lemma areAllSnapshotsDone_char:
  "areAllSnapshotsDone snapshots =
     (snapshots \<noteq> [] \<and> (\<forall>s \<in> set snapshots. firstConditionIs VolumeSnapshotConditionReady s))"
proof (cases "snapshots = []")
  case True
  then show ?thesis by (simp add: areAllSnapshotsDone_def)
next
  case False
  have "(length (filter (firstConditionIs VolumeSnapshotConditionReady) snapshots) = length snapshots)
        = (\<forall>s \<in> set snapshots. firstConditionIs VolumeSnapshotConditionReady s)"
    by (metis filter_id_conv length_filter_less less_irrefl_nat)
  with False show ?thesis
    by (simp add: areAllSnapshotsDone_def areAllSnapshotsDone_loop_count)
qed

text \<open>
  Claim C10. \<open>isAnySnapshotFailed\<close> returns true exactly when some record has a non-empty
  condition list whose first element has type Error and status True, and the task-ID list
  it returns holds exactly the task IDs of those records, in order. Conditions at any
  position other than the first are ignored by \<open>isAnySnapshotFailed\<close> and by
  \<open>areAllSnapshotsDone\<close>: both give the same result on the records cut down to their first
  condition. \<open>areAllSnapshotsDone\<close> is false on the empty record list and whenever a record
  has no condition.
\<close>

theorem C10_condition_predicates:
  "fst (isAnySnapshotFailed snapshots) =
     (\<exists>s \<in> set snapshots. Conditions s \<noteq> []
         \<and> Cond_Type (hd (Conditions s)) = VolumeSnapshotConditionError
         \<and> Cond_Status (hd (Conditions s)) = ConditionTrue)
   \<and> snd (isAnySnapshotFailed snapshots) =
       map TaskID (filter (\<lambda>s. Conditions s \<noteq> []
         \<and> Cond_Type (hd (Conditions s)) = VolumeSnapshotConditionError
         \<and> Cond_Status (hd (Conditions s)) = ConditionTrue) snapshots)
   \<and> isAnySnapshotFailed (map onlyFirstCondition snapshots) = isAnySnapshotFailed snapshots
   \<and> areAllSnapshotsDone (map onlyFirstCondition snapshots) = areAllSnapshotsDone snapshots
   \<and> \<not> areAllSnapshotsDone []
   \<and> ((\<exists>s \<in> set snapshots. Conditions s = []) \<longrightarrow> \<not> areAllSnapshotsDone snapshots)"
proof -
  have p1: "fst (isAnySnapshotFailed snapshots) =
     (\<exists>s \<in> set snapshots. Conditions s \<noteq> []
         \<and> Cond_Type (hd (Conditions s)) = VolumeSnapshotConditionError
         \<and> Cond_Status (hd (Conditions s)) = ConditionTrue)"
    by (simp add: isAnySnapshotFailed_char firstConditionIs_def)
  have p2: "snd (isAnySnapshotFailed snapshots) =
       map TaskID (filter (\<lambda>s. Conditions s \<noteq> []
         \<and> Cond_Type (hd (Conditions s)) = VolumeSnapshotConditionError
         \<and> Cond_Status (hd (Conditions s)) = ConditionTrue) snapshots)"
    by (simp add: isAnySnapshotFailed_char firstConditionIs_fun)
  have p3: "isAnySnapshotFailed (map onlyFirstCondition snapshots) = isAnySnapshotFailed snapshots"
    by (simp add: isAnySnapshotFailed_char filter_onlyFirst firstConditionIs_onlyFirst
        TaskID_onlyFirst comp_def)
  have p4: "areAllSnapshotsDone (map onlyFirstCondition snapshots) = areAllSnapshotsDone snapshots"
    by (simp add: areAllSnapshotsDone_char firstConditionIs_onlyFirst)
  have p5: "\<not> areAllSnapshotsDone []"
    by (simp add: areAllSnapshotsDone_def)
  have p6: "(\<exists>s \<in> set snapshots. Conditions s = []) \<longrightarrow> \<not> areAllSnapshotsDone snapshots"
    by (auto simp: areAllSnapshotsDone_char firstConditionIs_def)
  from p1 p2 p3 p4 p5 p6 show ?thesis by blast
qed

theorem C10_condition_predicates_witness:
  "fst (isAnySnapshotFailed [volA, volB, volC])
   \<and> snd (isAnySnapshotFailed [volA, volB, volC]) = [''task-a'']
   \<and> \<not> areAllSnapshotsDone [volA, volB, volC]"
  using C10_condition_predicates [of "[volA, volB, volC]"]
  by (simp add: volA_def volB_def volC_def condError_def condReady_def)

section \<open>The retry budget of the snapshot stage\<close>

lemma handleSnap_failed:
  assumes "driverResponse env groupSnap s = (Inr snapshots, s1)"
      and "fst (isAnySnapshotFailed snapshots)"
  shows "\<exists>msg. handleSnap env groupSnap s =
     (Done ((True, None),
        (if NumRetries (gs_Status groupSnap) < MaxRetries (gs_Spec groupSnap)
         then groupSnap\<lparr>gs_Status := (gs_Status groupSnap)
                \<lparr>Stage := GroupSnapshotStageSnapshot, Status := GroupSnapshotPending,
                 NumRetries := NumRetries (gs_Status groupSnap) + 1, VolumeSnapshots := []\<rparr>\<rparr>
         else groupSnap\<lparr>gs_Status := (gs_Status groupSnap)
                \<lparr>Stage := GroupSnapshotStagePostSnapshot, Status := GroupSnapshotFailed,
                 VolumeSnapshots := snapshots\<rparr>\<rparr>)),
      Event EventTypeWarning ''Failed'' msg s1)"
proof -
  from assms(2) have ne: "snapshots \<noteq> []"
    by (auto simp: isAnySnapshotFailed_def)
  obtain failedTasks where f: "isAnySnapshotFailed snapshots = (True, failedTasks)"
    using assms(2) by (cases "isAnySnapshotFailed snapshots") auto
  show ?thesis
    using assms(1) ne f
    by (auto simp: handleSnap_def Let_def updateCRD_def setStage_def setStatus_def
        setVolumeSnapshots_def incNumRetries_def statusString_def)
qed


lemma retry_scenario:
  assumes drv: "\<forall>g t. \<exists>snaps t'. driverResponse env g t = (Inr snaps, t') \<and> fst (isAnySnapshotFailed snaps)"
      and mx: "MaxRetries (gs_Spec groupSnap) = 2"
      and n0: "NumRetries (gs_Status groupSnap) = 0"
  shows "\<exists>g1 t1 g2 t2 g3 t3.
           handleSnap env groupSnap s = (Done ((True, None), g1), t1)
         \<and> Status (gs_Status g1) = GroupSnapshotPending
         \<and> Stage (gs_Status g1) = GroupSnapshotStageSnapshot
         \<and> NumRetries (gs_Status g1) = 1
         \<and> handleSnap env g1 t1 = (Done ((True, None), g2), t2)
         \<and> Status (gs_Status g2) = GroupSnapshotPending
         \<and> Stage (gs_Status g2) = GroupSnapshotStageSnapshot
         \<and> NumRetries (gs_Status g2) = 2
         \<and> handleSnap env g2 t2 = (Done ((True, None), g3), t3)
         \<and> Status (gs_Status g3) = GroupSnapshotFailed
         \<and> Stage (gs_Status g3) = GroupSnapshotStagePostSnapshot
         \<and> NumRetries (gs_Status g3) = 2"
proof -
  obtain r1 u1 where d1: "driverResponse env groupSnap s = (Inr r1, u1)" "fst (isAnySnapshotFailed r1)"
    using drv by blast
  obtain m1 where h1: "handleSnap env groupSnap s =
     (Done ((True, None), groupSnap\<lparr>gs_Status := (gs_Status groupSnap)
                \<lparr>Stage := GroupSnapshotStageSnapshot, Status := GroupSnapshotPending,
                 NumRetries := NumRetries (gs_Status groupSnap) + 1, VolumeSnapshots := []\<rparr>\<rparr>),
      Event EventTypeWarning ''Failed'' m1 u1)"
    using handleSnap_failed [OF d1] mx n0 by auto
  define g1 where "g1 = groupSnap\<lparr>gs_Status := (gs_Status groupSnap)
                \<lparr>Stage := GroupSnapshotStageSnapshot, Status := GroupSnapshotPending,
                 NumRetries := NumRetries (gs_Status groupSnap) + 1, VolumeSnapshots := []\<rparr>\<rparr>"
  define t1 where "t1 = Event EventTypeWarning ''Failed'' m1 u1"
  have g1p: "MaxRetries (gs_Spec g1) = 2" "NumRetries (gs_Status g1) = 1"
    "Status (gs_Status g1) = GroupSnapshotPending" "Stage (gs_Status g1) = GroupSnapshotStageSnapshot"
    using mx n0 by (simp_all add: g1_def)
  obtain r2 u2 where d2: "driverResponse env g1 t1 = (Inr r2, u2)" "fst (isAnySnapshotFailed r2)"
    using drv by blast
  obtain m2 where h2: "handleSnap env g1 t1 =
     (Done ((True, None), g1\<lparr>gs_Status := (gs_Status g1)
                \<lparr>Stage := GroupSnapshotStageSnapshot, Status := GroupSnapshotPending,
                 NumRetries := NumRetries (gs_Status g1) + 1, VolumeSnapshots := []\<rparr>\<rparr>),
      Event EventTypeWarning ''Failed'' m2 u2)"
    using handleSnap_failed [OF d2] g1p by auto
  define g2 where "g2 = g1\<lparr>gs_Status := (gs_Status g1)
                \<lparr>Stage := GroupSnapshotStageSnapshot, Status := GroupSnapshotPending,
                 NumRetries := NumRetries (gs_Status g1) + 1, VolumeSnapshots := []\<rparr>\<rparr>"
  define t2 where "t2 = Event EventTypeWarning ''Failed'' m2 u2"
  have g2p: "MaxRetries (gs_Spec g2) = 2" "NumRetries (gs_Status g2) = 2"
    "Status (gs_Status g2) = GroupSnapshotPending" "Stage (gs_Status g2) = GroupSnapshotStageSnapshot"
    using g1p by (simp_all add: g2_def)
  obtain r3 u3 where d3: "driverResponse env g2 t2 = (Inr r3, u3)" "fst (isAnySnapshotFailed r3)"
    using drv by blast
  obtain m3 where h3: "handleSnap env g2 t2 =
     (Done ((True, None), g2\<lparr>gs_Status := (gs_Status g2)
                \<lparr>Stage := GroupSnapshotStagePostSnapshot, Status := GroupSnapshotFailed,
                 VolumeSnapshots := r3\<rparr>\<rparr>),
      Event EventTypeWarning ''Failed'' m3 u3)"
    using handleSnap_failed [OF d3] g2p by auto
  define g3 where "g3 = g2\<lparr>gs_Status := (gs_Status g2)
                \<lparr>Stage := GroupSnapshotStagePostSnapshot, Status := GroupSnapshotFailed,
                 VolumeSnapshots := r3\<rparr>\<rparr>"
  have g3p: "NumRetries (gs_Status g3) = 2"
    "Status (gs_Status g3) = GroupSnapshotFailed" "Stage (gs_Status g3) = GroupSnapshotStagePostSnapshot"
    using g2p by (simp_all add: g3_def)
  from h1 h2 h3 g1p g2p g3p show ?thesis
    unfolding g1_def [symmetric] t1_def [symmetric] g2_def [symmetric] t2_def [symmetric]
      g3_def [symmetric]
    by blast
qed

text \<open>
  Claim C1. When the driver's response holds at least one failed per-volume snapshot,
  \<open>handleSnap\<close> asks for an update and returns no error; if \<open>NumRetries < MaxRetries\<close> it
  adds one to \<open>NumRetries\<close>, clears the per-volume records, and leaves stage Snapshot with
  status Pending; otherwise (also when \<open>MaxRetries\<close> is 0) it sets stage PostSnapshot and
  status Failed. With \<open>MaxRetries = 2\<close>, no retry used yet and a driver that reports a
  failure at every call, three calls in a row give Pending, Pending and then Failed at
  stage PostSnapshot, with \<open>NumRetries\<close> equal to 2 before and after the last call.
\<close>

theorem C1_retry_budget:
  "(\<forall>snapshots s1.
      driverResponse env groupSnap s = (Inr snapshots, s1) \<and> fst (isAnySnapshotFailed snapshots)
      \<longrightarrow> (\<exists>msg. handleSnap env groupSnap s =
             (Done ((True, None),
                (if NumRetries (gs_Status groupSnap) < MaxRetries (gs_Spec groupSnap)
                 then groupSnap\<lparr>gs_Status := (gs_Status groupSnap)
                        \<lparr>Stage := GroupSnapshotStageSnapshot, Status := GroupSnapshotPending,
                         NumRetries := NumRetries (gs_Status groupSnap) + 1, VolumeSnapshots := []\<rparr>\<rparr>
                 else groupSnap\<lparr>gs_Status := (gs_Status groupSnap)
                        \<lparr>Stage := GroupSnapshotStagePostSnapshot, Status := GroupSnapshotFailed,
                         VolumeSnapshots := snapshots\<rparr>\<rparr>)),
              Event EventTypeWarning ''Failed'' msg s1)))
   \<and> ((\<forall>g t. \<exists>snaps t'. driverResponse env g t = (Inr snaps, t') \<and> fst (isAnySnapshotFailed snaps))
        \<and> MaxRetries (gs_Spec groupSnap) = 2 \<and> NumRetries (gs_Status groupSnap) = 0
      \<longrightarrow> (\<exists>g1 t1 g2 t2 g3 t3.
           handleSnap env groupSnap s = (Done ((True, None), g1), t1)
         \<and> Status (gs_Status g1) = GroupSnapshotPending
         \<and> Stage (gs_Status g1) = GroupSnapshotStageSnapshot
         \<and> NumRetries (gs_Status g1) = 1
         \<and> handleSnap env g1 t1 = (Done ((True, None), g2), t2)
         \<and> Status (gs_Status g2) = GroupSnapshotPending
         \<and> Stage (gs_Status g2) = GroupSnapshotStageSnapshot
         \<and> NumRetries (gs_Status g2) = 2
         \<and> handleSnap env g2 t2 = (Done ((True, None), g3), t3)
         \<and> Status (gs_Status g3) = GroupSnapshotFailed
         \<and> Stage (gs_Status g3) = GroupSnapshotStagePostSnapshot
         \<and> NumRetries (gs_Status g3) = 2))"
  using handleSnap_failed [of env groupSnap s] retry_scenario [of env groupSnap s]
  by blast

lemma clusterEnv_driver_fails:
  "driverSnapshots (fst t) = [volA] \<Longrightarrow>
     driverResponse (clusterEnv b) g t = (Inr [volA], (fst t, snd t @ [if length (VolumeSnapshots (gs_Status g)) > 0 then GetGroupSnapshotStatus_c else CreateGroupSnapshot_c]))"
  by (simp add: driverResponse_def call_def clusterEnv_def)

lemma failingEnv_always_fails:
  "\<forall>g t. \<exists>snaps t'. driverResponse failingEnv g t = (Inr snaps, t') \<and> fst (isAnySnapshotFailed snaps)"
  by (simp add: driverResponse_def call_def failingEnv_def isAnySnapshotFailed_def
      volA_def condError_def)

theorem C1_retry_budget_witness:
  "\<exists>g1 t1 g2 t2 g3 t3.
           handleSnap failingEnv groupSnap0 (cluster0, []) = (Done ((True, None), g1), t1)
         \<and> Status (gs_Status g1) = GroupSnapshotPending
         \<and> NumRetries (gs_Status g1) = 1
         \<and> handleSnap failingEnv g1 t1 = (Done ((True, None), g2), t2)
         \<and> Status (gs_Status g2) = GroupSnapshotPending
         \<and> NumRetries (gs_Status g2) = 2
         \<and> handleSnap failingEnv g2 t2 = (Done ((True, None), g3), t3)
         \<and> Status (gs_Status g3) = GroupSnapshotFailed
         \<and> Stage (gs_Status g3) = GroupSnapshotStagePostSnapshot
         \<and> NumRetries (gs_Status g3) = 2"
proof -
  have mx: "MaxRetries (gs_Spec groupSnap0) = 2" and n0: "NumRetries (gs_Status groupSnap0) = 0"
    by (simp_all add: groupSnap0_def)
  from C1_retry_budget [of failingEnv groupSnap0 "(cluster0, [])"] failingEnv_always_fails mx n0
  show ?thesis by blast
qed


section \<open>The version-floor gate\<close>

text \<open>
  Claim C2. For an event that is not a deletion, on a group snapshot whose UID has a
  recorded floor, when both the floor and the incoming resource version parse: if the
  incoming version is less than the floor, \<open>handle\<close> returns nil and leaves the
  controller's maps, the resource, the collaborators and the log of calls as they were
  (no stage handler runs, no event is sent, nothing is written); otherwise \<open>handle\<close> is
  the stage dispatch. On the concrete inputs below the floor is 5: version 3 is skipped,
  version 7 is processed (the resource moves on and the floor becomes 7).
\<close>

theorem C2_version_floor:
  "DeletionTimestamp (gs_Meta groupSnapshot) = None
   \<and> minResourceVersions m (UID (gs_Meta groupSnapshot)) = Some minVer
   \<and> NewVersion env minVer = Inr minVersion
   \<and> NewVersion env (ResourceVersion (gs_Meta groupSnapshot)) = Inr snapVersion
   \<longrightarrow> (if LessThan env snapVersion minVersion
        then handle env m groupSnapshot s = (Done (None, m, groupSnapshot), s)
        else handle env m groupSnapshot s = processStage env m groupSnapshot s)"
  by (simp add: handle_def)

lemma parse3: "parseDecimal ''3'' = Inr 3" "parseDecimal ''5'' = Inr 5" "parseDecimal ''7'' = Inr 7"
  by (simp_all add: parseDecimal_def)

theorem C2_version_floor_witness:
  "handle (clusterEnv True) floor5 (groupSnapInitial ''3'') (cluster0, [])
     = (Done (None, floor5, groupSnapInitial ''3''), (cluster0, []))
   \<and> handle (clusterEnv True) floor5 (groupSnapInitial ''7'') (cluster0, [])
     = processStage (clusterEnv True) floor5 (groupSnapInitial ''7'') (cluster0, [])
   \<and> fst (handle (clusterEnv True) floor5 (groupSnapInitial ''7'') (cluster0, []))
     = Done (None, floor5\<lparr>minResourceVersions := [''uid-1'' \<mapsto> ''7'']\<rparr>,
         SetKind (setStage GroupSnapshotStageSnapshot
           (setStatus GroupSnapshotInProgress (groupSnapInitial ''7''))))"
proof -
  have a: "DeletionTimestamp (gs_Meta (groupSnapInitial rv)) = None" for rv
    by (simp add: groupSnapInitial_def groupSnap0_def emptyMeta_def)
  have b: "minResourceVersions floor5 (UID (gs_Meta (groupSnapInitial rv))) = Some ''5''" for rv
    by (simp add: groupSnapInitial_def groupSnap0_def emptyMeta_def floor5_def)
  have c: "NewVersion (clusterEnv True) = parseDecimal" "LessThan (clusterEnv True) = (\<lambda>a b. a < b)"
    by (simp_all add: clusterEnv_def)
  have d: "ResourceVersion (gs_Meta (groupSnapInitial rv)) = rv" for rv
    by (simp add: groupSnapInitial_def)
  have 1: "handle (clusterEnv True) floor5 (groupSnapInitial ''3'') (cluster0, [])
     = (Done (None, floor5, groupSnapInitial ''3''), (cluster0, []))"
    using C2_version_floor [of "groupSnapInitial ''3''" floor5 "''5''" "clusterEnv True" 5 3 "(cluster0, [])"]
    by (simp add: a b c d parse3)
  have 2: "handle (clusterEnv True) floor5 (groupSnapInitial ''7'') (cluster0, [])
     = processStage (clusterEnv True) floor5 (groupSnapInitial ''7'') (cluster0, [])"
    using C2_version_floor [of "groupSnapInitial ''7''" floor5 "''5''" "clusterEnv True" 5 7 "(cluster0, [])"]
    by (simp add: a b c d parse3)
  have 3: "fst (processStage (clusterEnv True) floor5 (groupSnapInitial ''7'') (cluster0, []))
     = Done (None, floor5\<lparr>minResourceVersions := [''uid-1'' \<mapsto> ''7'']\<rparr>,
         SetKind (setStage GroupSnapshotStageSnapshot (setStatus GroupSnapshotInProgress (groupSnapInitial ''7''))))"
    by (simp add: processStage_def handleInitial_def finishEvent_def validateRule_def call_def
        clusterEnv_def groupSnapInitial_def groupSnap0_def emptyMeta_def Let_def updateCRD_def
        setStage_def setStatus_def SetKind_def floor5_def)
  show ?thesis using 1 2 3 by simp
qed


section \<open>Selector validation in the initial stage\<close>

lemma handleInitial_invalid:
  assumes "invalidSelector groupSnap"
  shows "\<exists>err. handleInitial env groupSnap s =
           (((True, Some err), setStage GroupSnapshotStageFinal (setStatus GroupSnapshotFailed groupSnap)), s)"
  using assms by (auto simp: handleInitial_def invalidSelector_def Let_def updateCRD_def)

lemma handle_invalid:
  assumes "invalidSelector groupSnap"
      and "DeletionTimestamp (gs_Meta groupSnap) = None"
      and "minResourceVersions m (UID (gs_Meta groupSnap)) = None"
      and "Stage (gs_Status groupSnap) = GroupSnapshotStageInitial
           \<or> Stage (gs_Status groupSnap) = GroupSnapshotStagePreChecks"
  shows "\<exists>err. handleInitial env groupSnap s =
           (((True, Some err), setStage GroupSnapshotStageFinal (setStatus GroupSnapshotFailed groupSnap)), s)
         \<and> handle env m groupSnap s =
           (Done (Some err, m, setStage GroupSnapshotStageFinal (setStatus GroupSnapshotFailed groupSnap)),
            (fst s, snd s @ [RecorderEvent_c EventTypeWarning ''Failed'' (Error err)]))"
proof -
  obtain err where h: "handleInitial env groupSnap s =
           (((True, Some err), setStage GroupSnapshotStageFinal (setStatus GroupSnapshotFailed groupSnap)), s)"
    using handleInitial_invalid [OF assms(1)] by blast
  have "handle env m groupSnap s =
           (Done (Some err, m, setStage GroupSnapshotStageFinal (setStatus GroupSnapshotFailed groupSnap)),
            (fst s, snd s @ [RecorderEvent_c EventTypeWarning ''Failed'' (Error err)]))"
    using assms(2,3,4) h
    by (auto simp: handle_def processStage_def finishEvent_def Event_def statusString_def)
  with h show ?thesis by blast
qed

text \<open>
  Claim C8. For a group snapshot with an invalid selector at stage Initial or PreChecks
  (not being deleted, no floor recorded, finalizer present): \<open>handleInitial\<close> sets status
  Failed and stage Final on the object in memory and returns an error together with the
  update flag, calling no collaborator at all (so no volume driver either). \<open>handle\<close> then
  sends the warning event and returns the error before the update of lines 214-227: the
  log gains the event only, and the collaborators' state is the one left by the read. So
  the state Failed and Final is never written to the API server, and \<open>Reconcile\<close> reports
  the error with the error requeue delay: the next delivery reads the same resource and
  runs the same validation again, as the second reconcile of the witness shows.
\<close>

theorem C8_invalid_selector_not_persisted:
  "invalidSelector groupSnap
   \<and> DeletionTimestamp (gs_Meta groupSnap) = None
   \<and> minResourceVersions m (UID (gs_Meta groupSnap)) = None
   \<and> (Stage (gs_Status groupSnap) = GroupSnapshotStageInitial
        \<or> Stage (gs_Status groupSnap) = GroupSnapshotStagePreChecks)
   \<and> ContainsFinalizer (gs_Meta groupSnap) FinalizerCleanup
   \<and> ClientGet env ns name w = (Inr groupSnap, w')
   \<longrightarrow> (\<exists>err.
          handleInitial env groupSnap (w', log) =
            (((True, Some err),
              setStage GroupSnapshotStageFinal (setStatus GroupSnapshotFailed groupSnap)), (w', log))
        \<and> handle env m groupSnap (w', log) =
            (Done (Some err, m,
               setStage GroupSnapshotStageFinal (setStatus GroupSnapshotFailed groupSnap)),
             (w', log @ [RecorderEvent_c EventTypeWarning ''Failed'' (Error err)]))
        \<and> Reconcile env m ns name (w, log) =
            (Done ((\<lparr>Requeue = False, RequeueAfter = DefaultRequeueError\<rparr>, Some err), m),
             (w', log @ [ClientGet_c ns name,
                         RecorderEvent_c EventTypeWarning ''Failed'' (Error err)])))"
proof (intro impI)
  assume a: "invalidSelector groupSnap
   \<and> DeletionTimestamp (gs_Meta groupSnap) = None
   \<and> minResourceVersions m (UID (gs_Meta groupSnap)) = None
   \<and> (Stage (gs_Status groupSnap) = GroupSnapshotStageInitial
        \<or> Stage (gs_Status groupSnap) = GroupSnapshotStagePreChecks)
   \<and> ContainsFinalizer (gs_Meta groupSnap) FinalizerCleanup
   \<and> ClientGet env ns name w = (Inr groupSnap, w')"
  then obtain err where
    h: "handleInitial env groupSnap (w', log @ [ClientGet_c ns name]) =
            (((True, Some err),
              setStage GroupSnapshotStageFinal (setStatus GroupSnapshotFailed groupSnap)),
             (w', log @ [ClientGet_c ns name]))"
    and k: "handle env m groupSnap (w', log @ [ClientGet_c ns name]) =
            (Done (Some err, m,
               setStage GroupSnapshotStageFinal (setStatus GroupSnapshotFailed groupSnap)),
             (w', log @ [ClientGet_c ns name] @ [RecorderEvent_c EventTypeWarning ''Failed'' (Error err)]))"
    using handle_invalid [of groupSnap m env "(w', log @ [ClientGet_c ns name])"] by auto
  have e: "handleInitial env groupSnap t = (((True, Some err),
              setStage GroupSnapshotStageFinal (setStatus GroupSnapshotFailed groupSnap)), t)" for t
    using h a by (auto simp: handleInitial_def invalidSelector_def Let_def updateCRD_def split: if_splits)
  have k': "handle env m groupSnap (w', log) =
            (Done (Some err, m,
               setStage GroupSnapshotStageFinal (setStatus GroupSnapshotFailed groupSnap)),
             (w', log @ [RecorderEvent_c EventTypeWarning ''Failed'' (Error err)]))"
    using a e [of "(w', log)"]
    by (auto simp: handle_def processStage_def finishEvent_def Event_def statusString_def)
  have r: "Reconcile env m ns name (w, log) =
            (Done ((\<lparr>Requeue = False, RequeueAfter = DefaultRequeueError\<rparr>, Some err), m),
             (w', log @ [ClientGet_c ns name,
                         RecorderEvent_c EventTypeWarning ''Failed'' (Error err)]))"
    using a k by (simp add: Reconcile_def call_def)
  from e [of "(w', log)"] k' r show "\<exists>err.
          handleInitial env groupSnap (w', log) =
            (((True, Some err),
              setStage GroupSnapshotStageFinal (setStatus GroupSnapshotFailed groupSnap)), (w', log))
        \<and> handle env m groupSnap (w', log) =
            (Done (Some err, m,
               setStage GroupSnapshotStageFinal (setStatus GroupSnapshotFailed groupSnap)),
             (w', log @ [RecorderEvent_c EventTypeWarning ''Failed'' (Error err)]))
        \<and> Reconcile env m ns name (w, log) =
            (Done ((\<lparr>Requeue = False, RequeueAfter = DefaultRequeueError\<rparr>, Some err), m),
             (w', log @ [ClientGet_c ns name,
                         RecorderEvent_c EventTypeWarning ''Failed'' (Error err)]))"
    by blast
qed


theorem C8_invalid_selector_not_persisted_witness:
  "Reconcile (servingEnv groupSnapNoLabels) noFloors ''ns1'' ''gs'' (cluster0, []) =
     (Done ((\<lparr>Requeue = False, RequeueAfter = DefaultRequeueError\<rparr>,
             Some (Errorf ''matchLabels are required for group snapshots. Refer to spec examples'')),
            noFloors),
      (cluster0,
       [ClientGet_c ''ns1'' ''gs'',
        RecorderEvent_c EventTypeWarning ''Failed''
          ''matchLabels are required for group snapshots. Refer to spec examples'']))
   \<and> Reconcile (servingEnv groupSnapNoLabels) noFloors ''ns1'' ''gs''
       (cluster0,
        [ClientGet_c ''ns1'' ''gs'',
         RecorderEvent_c EventTypeWarning ''Failed''
           ''matchLabels are required for group snapshots. Refer to spec examples'']) =
     (Done ((\<lparr>Requeue = False, RequeueAfter = DefaultRequeueError\<rparr>,
             Some (Errorf ''matchLabels are required for group snapshots. Refer to spec examples'')),
            noFloors),
      (cluster0,
       [ClientGet_c ''ns1'' ''gs'',
        RecorderEvent_c EventTypeWarning ''Failed''
          ''matchLabels are required for group snapshots. Refer to spec examples'',
        ClientGet_c ''ns1'' ''gs'',
        RecorderEvent_c EventTypeWarning ''Failed''
          ''matchLabels are required for group snapshots. Refer to spec examples'']))"
proof -
  have pre: "invalidSelector groupSnapNoLabels
   \<and> DeletionTimestamp (gs_Meta groupSnapNoLabels) = None
   \<and> minResourceVersions noFloors (UID (gs_Meta groupSnapNoLabels)) = None
   \<and> (Stage (gs_Status groupSnapNoLabels) = GroupSnapshotStageInitial
        \<or> Stage (gs_Status groupSnapNoLabels) = GroupSnapshotStagePreChecks)
   \<and> ContainsFinalizer (gs_Meta groupSnapNoLabels) FinalizerCleanup
   \<and> ClientGet (servingEnv groupSnapNoLabels) ''ns1'' ''gs'' cluster0 = (Inr groupSnapNoLabels, cluster0)"
    by (simp add: invalidSelector_def groupSnapNoLabels_def groupSnapInitial_def groupSnap0_def
        emptyMeta_def noFloors_def ContainsFinalizer_def servingEnv_def)
  have hi: "handleInitial (servingEnv groupSnapNoLabels) groupSnapNoLabels t =
     (((True, Some (Errorf ''matchLabels are required for group snapshots. Refer to spec examples'')),
       setStage GroupSnapshotStageFinal (setStatus GroupSnapshotFailed groupSnapNoLabels)), t)" for t
    by (simp add: handleInitial_def groupSnapNoLabels_def Let_def updateCRD_def)
  have msg: "Error (Errorf ''matchLabels are required for group snapshots. Refer to spec examples'')
     = ''matchLabels are required for group snapshots. Refer to spec examples''"
    by (simp add: Errorf_def)
  from C8_invalid_selector_not_persisted
         [of groupSnapNoLabels noFloors "servingEnv groupSnapNoLabels" "''ns1''" "''gs''" cluster0 cluster0 "[]"]
       C8_invalid_selector_not_persisted
         [of groupSnapNoLabels noFloors "servingEnv groupSnapNoLabels" "''ns1''" "''gs''" cluster0 cluster0
             "[ClientGet_c ''ns1'' ''gs'',
               RecorderEvent_c EventTypeWarning ''Failed''
                ''matchLabels are required for group snapshots. Refer to spec examples'']"]
       pre
  show ?thesis
    by (simp add: hi msg del: One_nat_def)
qed


section \<open>Materializing the derived objects twice\<close>

lemmas evalDefs = createSnapAndDataObjects_def createSnapAndDataObjects_body_def
  getPVCNameFromVolumeID_def createSnapshotDataOrReplace_def createSnapshotOrReplace_def
  replaceSnapshotData_def replaceSnapshot_def rollback_def revertSnapObjs_def call_def
  clusterEnv_def snapshotOf_def errorOf_def volumeSnapshotNameOf_def
  DeepEqual_DataSpec_SnapshotSpec_def NamespaceDefault_def Let_def

lemma gs0: "Name (gs_Meta groupSnap0) = ''gs''" "Namespace (gs_Meta groupSnap0) = ''ns1''"
  "UID (gs_Meta groupSnap0) = ''uid-1''" "Annotations (gs_Meta groupSnap0) = []"
  "RestoreNamespaces (gs_Spec groupSnap0) = []"
  by (simp_all add: groupSnap0_def emptyMeta_def)

lemma volCf: "ParentVolumeID volC = ''vol-c''" "DataSource volC = Some ''source-c''"
  by (simp_all add: volC_def)

lemma namesC: "Name (vsd_Meta snapDataC) = nameC" "Name (vs_Meta snapC) = nameC"
  "Namespace (vs_Meta snapC) = ''ns1''"
  by (simp_all add: snapDataC_def snapC_def snapshotDataFor_def snapshotFor_def)

lemma first_call:
  "createSnapAndDataObjects (clusterEnv b) groupSnap0 [volC] (clusterReady, []) =
     ((Done (Inr [volC\<lparr>VolumeSnapshotName := nameC\<rparr>]), groupSnap0),
      (clusterMaterialized,
       [InspectVolume_c ''vol-c'', CreateSnapshotData_c snapDataC, CreateSnapshot_c snapC]))"
  by (simp add: evalDefs gs0 volCf namesC nameC_def [symmetric] snapDataC_def [symmetric]
      snapC_def [symmetric] clusterReady_def clusterMaterialized_def)


lemma second_call_nil:
  "createSnapAndDataObjects (clusterEnv True) groupSnap0 [volC] (clusterMaterialized, []) =
     ((Panic ''nil pointer dereference: snap.Metadata'', groupSnap0),
      (clusterMaterialized,
       [InspectVolume_c ''vol-c'', CreateSnapshotData_c snapDataC, GetSnapshotData_c nameC,
        CreateSnapshot_c snapC]))"
  by (simp add: evalDefs gs0 volCf namesC nameC_def [symmetric] snapDataC_def [symmetric]
      snapC_def [symmetric] clusterMaterialized_def)

lemma second_call_echo:
  "createSnapAndDataObjects (clusterEnv False) groupSnap0 [volC] (clusterMaterialized, []) =
     ((Done (Inl (Err AlreadyExists ''snapshot already exists'')), groupSnap0),
      (clusterMaterialized\<lparr>snapshotDataObjects := []\<rparr>,
       [InspectVolume_c ''vol-c'', CreateSnapshotData_c snapDataC, GetSnapshotData_c nameC,
        CreateSnapshot_c snapC, GetSnapshotData_c nameC, DeleteSnapshotData_c nameC,
        CreateSnapshot_c snapC, DeleteSnapshotData_c nameC]))"
  by (simp add: evalDefs gs0 volCf namesC nameC_def [symmetric] snapDataC_def [symmetric]
      snapC_def [symmetric] clusterMaterialized_def)

text \<open>
  The compare-and-skip branch of \<open>replaceSnapshot\<close> is dead for every collaborator: the
  function panics, or returns the error of the read, or deletes the snapshot data and
  creates the snapshot.
\<close>

lemma replaceSnapshot_always_replaces:
  "replaceSnapshot env snapPtr s =
     (case snapPtr of
        None \<Rightarrow> (Panic ''nil pointer dereference: snap.Metadata'', s)
      | Some snap \<Rightarrow>
          (case call (GetSnapshotData_c (Name (vs_Meta snap)))
                  (GetSnapshotData env (Name (vs_Meta snap))) s of
             (Inl err, s1) \<Rightarrow> (Done (Some err), s1)
           | (Inr d, s1) \<Rightarrow>
               (case call (DeleteSnapshotData_c (Name (vs_Meta snap)))
                       (DeleteSnapshotData env (Name (vs_Meta snap))) s1 of
                  (Some err, s2) \<Rightarrow> (Done (Some err), s2)
                | (None, s2) \<Rightarrow>
                    (case call (CreateSnapshot_c snap) (CreateSnapshot env snap) s2 of
                       (r, s3) \<Rightarrow> (Done (errorOf r), s3)))))"
  by (simp add: replaceSnapshot_def DeepEqual_DataSpec_SnapshotSpec_def
      split: option.splits prod.splits sum.splits)


text \<open>
  Claim C3. Materializing one ready volume on a cluster without derived objects creates
  one snapshot-data object and one snapshot object. A second call with the same input does
  not leave them as they are. The snapshot data is compared and kept, but when
  \<open>CreateSnapshot\<close> answers AlreadyExists the source overwrites \<open>snap\<close> with the pointer that
  came back with the error and hands it to \<open>replaceSnapshot\<close>, which reads the
  snapshot-data object of that name and compares specs of two different types. If the
  pointer is nil the call panics; if it is the object, the comparison is never equal, the
  snapshot data is deleted, the snapshot is created again (AlreadyExists once more), and
  the call returns that error, leaving a snapshot without its snapshot data.
\<close>

theorem C3_second_materialization:
  "createSnapAndDataObjects (clusterEnv nilOnError) groupSnap0 [volC] (clusterReady, []) =
     ((Done (Inr [volC\<lparr>VolumeSnapshotName := nameC\<rparr>]), groupSnap0),
      (clusterMaterialized,
       [InspectVolume_c ''vol-c'', CreateSnapshotData_c snapDataC, CreateSnapshot_c snapC]))
   \<and> createSnapAndDataObjects (clusterEnv True) groupSnap0 [volC] (clusterMaterialized, []) =
     ((Panic ''nil pointer dereference: snap.Metadata'', groupSnap0),
      (clusterMaterialized,
       [InspectVolume_c ''vol-c'', CreateSnapshotData_c snapDataC, GetSnapshotData_c nameC,
        CreateSnapshot_c snapC]))
   \<and> createSnapAndDataObjects (clusterEnv False) groupSnap0 [volC] (clusterMaterialized, []) =
     ((Done (Inl (Err AlreadyExists ''snapshot already exists'')), groupSnap0),
      (clusterMaterialized\<lparr>snapshotDataObjects := []\<rparr>,
       [InspectVolume_c ''vol-c'', CreateSnapshotData_c snapDataC, GetSnapshotData_c nameC,
        CreateSnapshot_c snapC, GetSnapshotData_c nameC, DeleteSnapshotData_c nameC,
        CreateSnapshot_c snapC, DeleteSnapshotData_c nameC]))"
  using first_call [of nilOnError] second_call_nil second_call_echo by simp

section \<open>Rollback of a failed batch\<close>




















section \<open>The resource-status table holds one record per tuple\<close>

lemma findResource_Some:
  "findResource rs obj = Some i \<Longrightarrow>
     i < length rs \<and> matchesResource (rs ! i) obj \<and> (\<forall>j < i. \<not> matchesResource (rs ! j) obj)"
proof (induction rs arbitrary: i)
  case Nil
  then show ?case by simp
next
  case (Cons r rs)
  show ?case
  proof (cases "matchesResource r obj")
    case True
    with Cons.prems show ?thesis by simp
  next
    case False
    with Cons.prems obtain k where k: "findResource rs obj = Some k" "i = Suc k"
      by auto
    from Cons.IH [OF k(1)] False k(2) show ?thesis
      by (auto simp: less_Suc_eq_0_disj)
  qed
qed

lemma findResource_None:
  "findResource rs obj = None \<Longrightarrow> \<forall>r \<in> set rs. \<not> matchesResource r obj"
  by (induction rs) (auto split: if_splits)

lemma key_matches:
  "resourceKey r = (o_Group obj, o_Version obj, o_Kind obj, o_Namespace obj, o_Name obj)
     \<Longrightarrow> matchesResource r obj"
  by (simp add: resourceKey_def matchesResource_def)

lemma keys_recordStatus:
  "map resourceKey (recordStatus rs obj status reason) =
     (case findResource rs obj of
        Some i \<Rightarrow> map resourceKey rs
      | None \<Rightarrow> map resourceKey rs
                 @ [(o_Group obj, o_Version obj, o_Kind obj, o_Namespace obj, o_Name obj)])"
proof (cases "findResource rs obj")
  case None
  then show ?thesis by (simp add: recordStatus_def resourceKey_def newResource_def)
next
  case (Some i)
  then have "i < length rs" using findResource_Some by blast
  then have "map resourceKey (rs[i := (rs ! i)\<lparr>ri_Status := status, ri_Reason := reason\<rparr>])
             = map resourceKey rs"
    by (simp add: map_update resourceKey_def list_update_same_conv)
  with Some show ?thesis by (simp add: recordStatus_def)
qed

lemma distinct_recordStatus:
  assumes "distinct (map resourceKey rs)"
  shows "distinct (map resourceKey (recordStatus rs obj status reason))"
proof (cases "findResource rs obj")
  case None
  have "(o_Group obj, o_Version obj, o_Kind obj, o_Namespace obj, o_Name obj) \<notin> set (map resourceKey rs)"
    using findResource_None [OF None] key_matches by fastforce
  with assms None show ?thesis by (simp add: keys_recordStatus)
next
  case (Some i)
  with assms show ?thesis by (simp add: keys_recordStatus)
qed

lemma distinct_updateResourceStatus:
  assumes "distinct (map resourceKey (rResources (ar_Status restore)))"
  shows "distinct (map resourceKey
           (rResources (ar_Status (snd (fst (updateResourceStatus env restore obj status reason s))))))"
  using assms distinct_recordStatus
  by (auto simp: updateResourceStatus_def setRResources_def Let_def split: option.splits)

lemma distinct_updateResourceStatuses:
  "distinct (map resourceKey (rResources (ar_Status restore))) \<Longrightarrow>
   distinct (map resourceKey
      (rResources (ar_Status (fst (updateResourceStatuses env restore calls s)))))"
proof (induction calls arbitrary: restore s)
  case Nil
  then show ?case by simp
next
  case (Cons c calls)
  obtain obj status reason where c: "c = (obj, status, reason)" by (cases c) auto
  obtain err restore1 s1 where u: "updateResourceStatus env restore obj status reason s = ((err, restore1), s1)"
    by (cases "updateResourceStatus env restore obj status reason s") auto
  have "distinct (map resourceKey (rResources (ar_Status restore1)))"
    using distinct_updateResourceStatus [OF Cons.prems, of env obj status reason s] u by simp
  from Cons.IH [OF this, of s1] c u show ?case by simp
qed

lemma recordStatus_in_place:
  assumes "findResource rs obj = Some i"
  shows "length (recordStatus rs obj status reason) = length rs
       \<and> recordStatus rs obj status reason ! i = (rs ! i)\<lparr>ri_Status := status, ri_Reason := reason\<rparr>
       \<and> (\<forall>j < length rs. j \<noteq> i \<longrightarrow> recordStatus rs obj status reason ! j = rs ! j)"
  using assms findResource_Some [OF assms] by (simp add: recordStatus_def)


text \<open>
  Claim C6, as amended. Starting from a list without two records of the same (group,
  version, kind, namespace, name), any sequence of \<open>updateResourceStatus\<close> calls leaves a
  list without two records of the same tuple. Recording a status for an object that some
  record matches (same name, namespace, version and kind, and either the same group or a
  record of group \<open>core\<close> for an object of the empty group) keeps the length of the list,
  assigns the status and the reason of one matching record, and leaves every other
  record as it was.
\<close>

theorem C6_resource_status_table:
  "(distinct (map resourceKey (rResources (ar_Status restore)))
      \<longrightarrow> distinct (map resourceKey
            (rResources (ar_Status (fst (updateResourceStatuses env restore calls s))))))
   \<and> (Accessor env object = None
        \<and> (\<exists>r \<in> set (rResources (ar_Status restore)). matchesResource r object)
      \<longrightarrow> (\<exists>i < length (rResources (ar_Status restore)).
             matchesResource (rResources (ar_Status restore) ! i) object
           \<and> length (rResources (ar_Status
                 (snd (fst (updateResourceStatus env restore object status reason s)))))
               = length (rResources (ar_Status restore))
           \<and> rResources (ar_Status
                 (snd (fst (updateResourceStatus env restore object status reason s)))) ! i
               = (rResources (ar_Status restore) ! i)\<lparr>ri_Status := status, ri_Reason := reason\<rparr>
           \<and> (\<forall>j < length (rResources (ar_Status restore)). j \<noteq> i \<longrightarrow>
                 rResources (ar_Status
                   (snd (fst (updateResourceStatus env restore object status reason s)))) ! j
                 = rResources (ar_Status restore) ! j)))"
proof (intro conjI impI)
  assume "distinct (map resourceKey (rResources (ar_Status restore)))"
  then show "distinct (map resourceKey
            (rResources (ar_Status (fst (updateResourceStatuses env restore calls s)))))"
    by (rule distinct_updateResourceStatuses)
next
  assume a: "Accessor env object = None
        \<and> (\<exists>r \<in> set (rResources (ar_Status restore)). matchesResource r object)"
  define rs where "rs = rResources (ar_Status restore)"
  from a have "findResource rs object \<noteq> None"
    using findResource_None [of rs object] by (auto simp: rs_def)
  then obtain i where i: "findResource rs object = Some i" by auto
  have u: "rResources (ar_Status (snd (fst (updateResourceStatus env restore object status reason s))))
           = recordStatus rs object status reason"
    using a by (simp add: updateResourceStatus_def setRResources_def Let_def rs_def)
  from findResource_Some [OF i] recordStatus_in_place [OF i, of status reason] u
  show "\<exists>i < length (rResources (ar_Status restore)).
             matchesResource (rResources (ar_Status restore) ! i) object
           \<and> length (rResources (ar_Status
                 (snd (fst (updateResourceStatus env restore object status reason s)))))
               = length (rResources (ar_Status restore))
           \<and> rResources (ar_Status
                 (snd (fst (updateResourceStatus env restore object status reason s)))) ! i
               = (rResources (ar_Status restore) ! i)\<lparr>ri_Status := status, ri_Reason := reason\<rparr>
           \<and> (\<forall>j < length (rResources (ar_Status restore)). j \<noteq> i \<longrightarrow>
                 rResources (ar_Status
                   (snd (fst (updateResourceStatus env restore object status reason s)))) ! j
                 = rResources (ar_Status restore) ! j)"
    unfolding rs_def [symmetric] by auto
qed

lemmas tableDefs = updateResourceStatus_def recordStatus_def newResource_def matchesResource_def
  setRResources_def REvent_def Let_def

lemma restoreEnv_Accessor: "Accessor restoreEnv obj = None"
  by (simp add: restoreEnv_def)

lemma restore0_resources: "rResources (ar_Status restore0) = []"
  by (simp add: restore0_def)

text \<open>
  The claim as stated reads \<open>core\<close> and the empty group as one group. The source applies
  that only when the record has group \<open>core\<close> and the object the empty group: recording
  the ConfigMap \<open>ns1/cfg\<close> with the empty group and then with group \<open>core\<close> leaves two
  records of one normalized tuple.
\<close>

theorem C6_core_group_counterexample:
  "\<not> distinct (map normalizedKey
        (rResources (ar_Status (fst (updateResourceStatuses restoreEnv restore0
           [(cfg, ApplicationRestoreStatusSuccessful, ''Resource restored successfully''),
            (cfg\<lparr>o_Group := ''core''\<rparr>, ApplicationRestoreStatusSuccessful,
             ''Resource restored successfully'')]
           (rcluster0, []))))))"
  by (simp add: tableDefs restoreEnv_Accessor restore0_resources cfg_def normalizedKey_def)

theorem C6_resource_status_table_witness:
  "distinct (map resourceKey
      (rResources (ar_Status (fst (updateResourceStatuses restoreEnv restore0
         [(cfg, ApplicationRestoreStatusRetained, retainedReason),
          (cfg, ApplicationRestoreStatusSuccessful, ''Resource restored successfully'')]
         (rcluster0, []))))))
   \<and> map ri_Status
      (rResources (ar_Status (fst (updateResourceStatuses restoreEnv restore0
         [(cfg, ApplicationRestoreStatusRetained, retainedReason),
          (cfg, ApplicationRestoreStatusSuccessful, ''Resource restored successfully'')]
         (rcluster0, []))))) = [ApplicationRestoreStatusSuccessful]"
proof -
  have d: "distinct (map resourceKey (rResources (ar_Status restore0)))"
    by (simp add: restore0_resources)
  have l: "map ri_Status
      (rResources (ar_Status (fst (updateResourceStatuses restoreEnv restore0
         [(cfg, ApplicationRestoreStatusRetained, retainedReason),
          (cfg, ApplicationRestoreStatusSuccessful, ''Resource restored successfully'')]
         (rcluster0, []))))) = [ApplicationRestoreStatusSuccessful]"
    by (simp add: tableDefs restoreEnv_Accessor restore0_resources cfg_def)
  from C6_resource_status_table [of restore0 restoreEnv
         "[(cfg, ApplicationRestoreStatusRetained, retainedReason),
           (cfg, ApplicationRestoreStatusSuccessful, ''Resource restored successfully'')]"
         "(rcluster0, [])"] d l
  show ?thesis by blast
qed


section \<open>AlreadyExists under the replace policies\<close>

lemma retainedReason_contains: "sublist ''ReplacePolicy is set to Retain'' retainedReason"
  unfolding retainedReason_def by code_simp

lemma retainedReason_lacks: "\<not> sublist ''ReplacePolicy set to Retain'' retainedReason"
  unfolding retainedReason_def by code_simp

lemma updateResourceStatus_keeps:
  "rStatus (ar_Status (snd (fst (updateResourceStatus env restore obj status reason s))))
     = rStatus (ar_Status restore)
   \<and> rStage (ar_Status (snd (fst (updateResourceStatus env restore obj status reason s))))
     = rStage (ar_Status restore)"
  by (simp add: updateResourceStatus_def setRResources_def Let_def split: option.splits)

lemma urs_status:
  "updateResourceStatus env restore obj status reason s = ((err, restore1), s1)
     \<Longrightarrow> rStatus (ar_Status restore1) = rStatus (ar_Status restore)
       \<and> rStage (ar_Status restore1) = rStage (ar_Status restore)"
  using updateResourceStatus_keeps [of env restore obj status reason s] by simp

lemma addCSI_loop_keeps:
  "addCSIVolumeResources_loop env restore vs s = ((err, restore'), s')
     \<Longrightarrow> rStatus (ar_Status restore') = rStatus (ar_Status restore)
       \<and> rStage (ar_Status restore') = rStage (ar_Status restore)"
proof (induction env restore vs s rule: addCSIVolumeResources_loop.induct)
  case (1 env restore s)
  then show ?case by simp
next
  case (2 env restore vrInfo rest s)
  show ?case
  proof (cases "vi_DriverName vrInfo \<noteq> ''csi''")
    case True
    with 2(1) 2(3) show ?thesis by simp
  next
    case False
    with 2(2) 2(3) show ?thesis
      by (auto split: prod.splits sum.splits option.splits simp: Let_def dest!: urs_status)
  qed
qed


lemma persist_log:
  "persist env restore s = ((err, restore'), s')
     \<Longrightarrow> snd s' = snd s @ [RestoreUpdate_r restore]"
  by (auto simp: persist_def rcall_def split: prod.splits sum.splits)

lemma overallStatus_partial:
  assumes "\<exists>r \<in> set (rResources (ar_Status restore)). ri_Status r \<noteq> ApplicationRestoreStatusSuccessful"
  shows "rStatus (ar_Status (overallStatus restore)) = ApplicationRestoreStatusPartialSuccess"
    and "rStage (ar_Status (overallStatus restore)) = rStage (ar_Status restore)"
  using assms by (auto simp: overallStatus_def list_ex_iff setRReason_def setRStatus_def)

lemma finishRestore_partial:
  assumes some: "\<exists>r \<in> set (rResources (ar_Status restore)). ri_Status r \<noteq> ApplicationRestoreStatusSuccessful"
      and fin: "finishRestore env restore s = ((None, restore'), s')"
  shows "\<exists>x log. snd s' = log @ [RestoreUpdate_r x]
           \<and> rStatus (ar_Status x) = ApplicationRestoreStatusPartialSuccess
           \<and> rStage (ar_Status x) = ApplicationRestoreStageFinal"
proof -
  obtain now1 s1 where n1: "rcall Now_r (Now env) s = (now1, s1)"
    by (cases "rcall Now_r (Now env) s") auto
  define r0 where "r0 = overallStatus (setFinish now1 (setRStage ApplicationRestoreStageFinal restore))"
  have some': "\<exists>r \<in> set (rResources (ar_Status (setFinish now1 (setRStage ApplicationRestoreStageFinal restore)))).
                 ri_Status r \<noteq> ApplicationRestoreStatusSuccessful"
    using some by (simp add: setFinish_def setRStage_def)
  have r0p: "rStatus (ar_Status r0) = ApplicationRestoreStatusPartialSuccess"
            "rStage (ar_Status r0) = ApplicationRestoreStageFinal"
    using overallStatus_partial [OF some'] by (simp_all add: r0_def setFinish_def setRStage_def)
  obtain e1 r1 s2 where a: "addCSIVolumeResources env r0 s1 = ((e1, r1), s2)"
    by (cases "addCSIVolumeResources env r0 s1") auto
  have r1p: "rStatus (ar_Status r1) = ApplicationRestoreStatusPartialSuccess"
            "rStage (ar_Status r1) = ApplicationRestoreStageFinal"
    using addCSI_loop_keeps [of env r0 "rVolumes (ar_Status r0)" s1 e1 r1 s2] a r0p
    by (simp_all add: addCSIVolumeResources_def)
  have e1n: "e1 = None"
    using fin n1 a by (cases e1) (simp_all add: finishRestore_def r0_def)
  obtain now2 s3 where n2: "rcall Now_r (Now env) s2 = (now2, s3)"
    by (cases "rcall Now_r (Now env) s2") auto
  have p: "persist env (setLastUpdate now2 r1) s3 = ((None, restore'), s')"
    using fin n1 a e1n n2 by (simp add: finishRestore_def r0_def)
  have "snd s' = snd s3 @ [RestoreUpdate_r (setLastUpdate now2 r1)]"
    using persist_log [OF p] .
  moreover have "rStatus (ar_Status (setLastUpdate now2 r1)) = ApplicationRestoreStatusPartialSuccess"
    "rStage (ar_Status (setLastUpdate now2 r1)) = ApplicationRestoreStageFinal"
    using r1p by (simp_all add: setLastUpdate_def)
  ultimately show ?thesis by blast
qed

lemma applyOne_exists:
  assumes "Accessor env o1 = None" "TypeAccessor env o1 = None"
      and "rcall (ApplyResource_r o1) (ApplyResource env o1) s = (Some e, s1)"
      and "IsAlreadyExists e"
  shows "ReplacePolicy (ar_Spec restore) = ApplicationRestoreReplacePolicyRetain \<Longrightarrow>
           applyOne env restore o1 s =
             updateResourceStatus env restore o1 ApplicationRestoreStatusRetained retainedReason s1"
    and "ReplacePolicy (ar_Spec restore) = ApplicationRestoreReplacePolicyDelete \<Longrightarrow>
           applyOne env restore o1 s =
             updateResourceStatus env restore o1 ApplicationRestoreStatusFailed
               (''Error applying resource: '' @ Error e) s1"
  using assms by (simp_all add: applyOne_def applyOutcome_def)

lemma recordStatus_has:
  "\<exists>r \<in> set (recordStatus rs obj status reason).
      matchesResource r obj \<and> ri_Status r = status \<and> ri_Reason r = reason"
proof (cases "findResource rs obj")
  case None
  have "matchesResource ((newResource obj)\<lparr>ri_Status := status, ri_Reason := reason\<rparr>) obj"
    by (simp add: matchesResource_def newResource_def)
  with None show ?thesis by (auto simp: recordStatus_def)
next
  case (Some i)
  from findResource_Some [OF Some] have i: "i < length rs" "matchesResource (rs ! i) obj" by auto
  let ?r = "(rs ! i)\<lparr>ri_Status := status, ri_Reason := reason\<rparr>"
  have "?r \<in> set (rs[i := ?r])" using i(1) by (simp add: set_update_memI)
  moreover have "matchesResource ?r obj" using i(2) by (simp add: matchesResource_def)
  ultimately show ?thesis using Some by (auto simp: recordStatus_def)
qed


text \<open>
  Claim C7, as amended. When applying an object fails with AlreadyExists: under the
  Retain policy the object is recorded with status Retained and the reason "Resource
  restore skipped as it was already present and ReplacePolicy is set to Retain" (which
  contains "ReplacePolicy is set to Retain"), no error is returned and the apply loop goes
  on with the next object; under the Delete policy the object is recorded with status
  Failed and the apply error as reason. When the resources applied hold a Retained record
  and the rest of \<open>restoreResources\<close> returns no error, the restore written to the API
  server has status PartialSuccess and stage Final.
\<close>

theorem C7_retain_policy:
  "(Accessor env o1 = None \<and> TypeAccessor env o1 = None
    \<and> rcall (ApplyResource_r o1) (ApplyResource env o1) s = (Some e, s1) \<and> IsAlreadyExists e
    \<longrightarrow> (ReplacePolicy (ar_Spec restore) = ApplicationRestoreReplacePolicyRetain
          \<longrightarrow> applyOne env restore o1 s =
                updateResourceStatus env restore o1 ApplicationRestoreStatusRetained retainedReason s1
              \<and> fst (fst (applyOne env restore o1 s)) = None
              \<and> (\<exists>r \<in> set (rResources (ar_Status (snd (fst (applyOne env restore o1 s))))).
                    matchesResource r o1 \<and> ri_Status r = ApplicationRestoreStatusRetained
                    \<and> ri_Reason r = retainedReason)
              \<and> sublist ''ReplacePolicy is set to Retain'' retainedReason
              \<and> applyResources_loop env restore (o1 # rest) s =
                  applyResources_loop env (snd (fst (applyOne env restore o1 s))) rest
                    (snd (applyOne env restore o1 s)))
        \<and> (ReplacePolicy (ar_Spec restore) = ApplicationRestoreReplacePolicyDelete
          \<longrightarrow> applyOne env restore o1 s =
                updateResourceStatus env restore o1 ApplicationRestoreStatusFailed
                  (''Error applying resource: '' @ Error e) s1
              \<and> (\<exists>r \<in> set (rResources (ar_Status (snd (fst (applyOne env restore o1 s))))).
                    matchesResource r o1 \<and> ri_Status r = ApplicationRestoreStatusFailed
                    \<and> ri_Reason r = ''Error applying resource: '' @ Error e)))
   \<and> ((\<exists>r \<in> set (rResources (ar_Status applied)). ri_Status r = ApplicationRestoreStatusRetained)
       \<and> finishRestore env applied t = ((None, finished), t')
      \<longrightarrow> (\<exists>x log. snd t' = log @ [RestoreUpdate_r x]
             \<and> rStatus (ar_Status x) = ApplicationRestoreStatusPartialSuccess
             \<and> rStage (ar_Status x) = ApplicationRestoreStageFinal))"
proof (intro conjI impI)
  assume a: "Accessor env o1 = None \<and> TypeAccessor env o1 = None
    \<and> rcall (ApplyResource_r o1) (ApplyResource env o1) s = (Some e, s1) \<and> IsAlreadyExists e"
     and p: "ReplacePolicy (ar_Spec restore) = ApplicationRestoreReplacePolicyRetain"
  have eq: "applyOne env restore o1 s =
                updateResourceStatus env restore o1 ApplicationRestoreStatusRetained retainedReason s1"
    using a p applyOne_exists(1) by blast
  show "applyOne env restore o1 s =
          updateResourceStatus env restore o1 ApplicationRestoreStatusRetained retainedReason s1"
    by (rule eq)
  have u: "updateResourceStatus env restore o1 ApplicationRestoreStatusRetained retainedReason s1 =
             ((None, setRResources (recordStatus (rResources (ar_Status restore)) o1
                        ApplicationRestoreStatusRetained retainedReason) restore),
              REvent EventTypeNormal (restoreStatusString ApplicationRestoreStatusRetained)
                (gvkString o1 @ '' '' @ o_Namespace o1 @ ''/'' @ o_Name o1 @ '': '' @ retainedReason) s1)"
    using a by (simp add: updateResourceStatus_def Let_def)
  show "fst (fst (applyOne env restore o1 s)) = None" by (simp add: eq u)
  show "\<exists>r \<in> set (rResources (ar_Status (snd (fst (applyOne env restore o1 s))))).
                    matchesResource r o1 \<and> ri_Status r = ApplicationRestoreStatusRetained
                    \<and> ri_Reason r = retainedReason"
    using recordStatus_has [of "rResources (ar_Status restore)" o1
            ApplicationRestoreStatusRetained retainedReason]
    by (simp add: eq u setRResources_def)
  show "sublist ''ReplacePolicy is set to Retain'' retainedReason" by (rule retainedReason_contains)
  show "applyResources_loop env restore (o1 # rest) s =
                  applyResources_loop env (snd (fst (applyOne env restore o1 s))) rest
                    (snd (applyOne env restore o1 s))"
    by (simp add: eq u)
next
  assume a: "Accessor env o1 = None \<and> TypeAccessor env o1 = None
    \<and> rcall (ApplyResource_r o1) (ApplyResource env o1) s = (Some e, s1) \<and> IsAlreadyExists e"
     and p: "ReplacePolicy (ar_Spec restore) = ApplicationRestoreReplacePolicyDelete"
  have eq: "applyOne env restore o1 s =
                updateResourceStatus env restore o1 ApplicationRestoreStatusFailed
                  (''Error applying resource: '' @ Error e) s1"
    using a p applyOne_exists(2) by blast
  show "applyOne env restore o1 s =
                updateResourceStatus env restore o1 ApplicationRestoreStatusFailed
                  (''Error applying resource: '' @ Error e) s1"
    by (rule eq)
  show "\<exists>r \<in> set (rResources (ar_Status (snd (fst (applyOne env restore o1 s))))).
                    matchesResource r o1 \<and> ri_Status r = ApplicationRestoreStatusFailed
                    \<and> ri_Reason r = ''Error applying resource: '' @ Error e"
    using a recordStatus_has [of "rResources (ar_Status restore)" o1
            ApplicationRestoreStatusFailed "''Error applying resource: '' @ Error e"]
    by (simp add: eq updateResourceStatus_def Let_def setRResources_def)
next
  assume b: "(\<exists>r \<in> set (rResources (ar_Status applied)). ri_Status r = ApplicationRestoreStatusRetained)
       \<and> finishRestore env applied t = ((None, finished), t')"
  then have "\<exists>r \<in> set (rResources (ar_Status applied)). ri_Status r \<noteq> ApplicationRestoreStatusSuccessful"
    by force
  with b show "\<exists>x log. snd t' = log @ [RestoreUpdate_r x]
             \<and> rStatus (ar_Status x) = ApplicationRestoreStatusPartialSuccess
             \<and> rStage (ar_Status x) = ApplicationRestoreStageFinal"
    using finishRestore_partial [of applied env t finished t'] by blast
qed


lemma restoreEnv_simps:
  "Accessor restoreEnv = (\<lambda>obj. None)" "TypeAccessor restoreEnv = (\<lambda>obj. None)"
  "Now restoreEnv = (\<lambda>w. (clock w, w))"
  "RestoreUpdate restoreEnv = (\<lambda>r w. (Inr r, w))"
  "GetApplicationBackup restoreEnv = (\<lambda>n ns w. (Inr backup0, w))"
  "downloadResources restoreEnv = (\<lambda>b l ns w. (Inr (backupObjects w), w))"
  "PrepareResourceForApply restoreEnv = (\<lambda>obj objs m nsm pvm opt w. (Inr (False, obj), w))"
  "ApplyResource restoreEnv = (\<lambda>obj w.
        if list_ex (sameObject obj) (existingObjects w)
        then (Some (Err AlreadyExists ''object already exists''), w)
        else (None, w\<lparr>existingObjects := existingObjects w @ [obj]\<rparr>))"
  by (simp_all add: restoreEnv_def)

lemma restore0_simps:
  "rVolumes (ar_Status restore0) = []" "rResources (ar_Status restore0) = []"
  "ReplacePolicy (ar_Spec restore0) = ApplicationRestoreReplacePolicyRetain"
  "BackupName (ar_Spec restore0) = ''backup''" "Namespace (ar_Meta restore0) = ''ns1''"
  "IncludeResources (ar_Spec restore0) = []"
  by (simp_all add: restore0_def emptyMeta_def)

lemma cfg_kind: "o_Kind cfg = ''ConfigMap''"
  by (simp add: cfg_def)

lemma removeCSI_cfg:
  "removeCSIVolumesBeforeApply restoreEnv [cfg] s = (Inr [cfg], s)"
  by (simp add: removeCSIVolumesBeforeApply_def getPVCToPVMapping_def restoreEnv_simps cfg_kind)

lemma applyOne_cfg:
  "applyOne restoreEnv restore0 cfg (rclusterExisting, log) =
     ((None, restoreApplied),
      (rclusterExisting,
       log @ [ApplyResource_r cfg,
              Event_r EventTypeNormal ''Retained''
                (gvkString cfg @ '' '' @ o_Namespace cfg @ ''/'' @ o_Name cfg @ '': '' @ retainedReason)]))"
  by (simp add: applyOne_def applyOutcome_def restoreEnv_simps restore0_simps rcall_def
      rclusterExisting_def rcluster0_def sameObject_def updateResourceStatus_def Let_def
      recordStatus_def REvent_def restoreStatusString_def restoreApplied_def cfgRetained_def)

lemma applyResources_cfg:
  "applyResources restoreEnv restore0 [cfg]
      (rclusterExisting, [GetApplicationBackup_r ''backup'' ''ns1'', DownloadResources_r]) =
     ((None, restoreApplied), (rclusterExisting, logApplied))"
  by (simp add: applyResources_def getPVNameMappings_def restore0_simps CreateObjectsMap_def
      restoreEnv_simps rcall_def removeCSI_cfg applyOne_cfg logApplied_def
      del: removeCSIVolumesBeforeApply_loop.simps)


lemma restoreApplied_simps:
  "rVolumes (ar_Status restoreApplied) = []" "rResources (ar_Status restoreApplied) = [cfgRetained]"
  by (simp_all add: restoreApplied_def setRResources_def restore0_simps)

lemma finishRestore_cfg:
  "finishRestore restoreEnv restoreApplied (rclusterExisting, logApplied) =
     ((None, restoreFinished),
      (rclusterExisting, logApplied @ [Now_r, Now_r, RestoreUpdate_r restoreFinished]))"
proof -
  have v: "rVolumes (ar_Status (overallStatus (setFinish 100
             (setRStage ApplicationRestoreStageFinal restoreApplied)))) = []"
    by (simp add: overallStatus_def setFinish_def setRStage_def setRReason_def setRStatus_def
        restoreApplied_simps)
  have c: "clock rclusterExisting = 100"
    by (simp add: rclusterExisting_def rcluster0_def)
  show ?thesis
    by (simp add: finishRestore_def rcall_def restoreEnv_simps c addCSIVolumeResources_def v
        persist_def restoreFinished_def)
qed

lemma restoreResources_cfg:
  "restoreResources restoreEnv restore0 (rclusterExisting, []) =
     ((None, restoreFinished),
      (rclusterExisting, logApplied @ [Now_r, Now_r, RestoreUpdate_r restoreFinished]))"
proof -
  have b: "backupObjects rclusterExisting = [cfg]"
    by (simp add: rclusterExisting_def rcluster0_def)
  show ?thesis
    by (simp add: restoreResources_def rcall_def restoreEnv_simps restore0_simps b removeCSI_cfg
        applyResources_cfg finishRestore_cfg)
qed

text \<open>
  The claim as stated quotes the reason as containing "ReplacePolicy set to Retain"; that
  text is in the warning of the log (line 978), not in the recorded reason.
\<close>

theorem C7_reason_counterexample:
  "rResources (ar_Status (snd (fst (applyOne restoreEnv restore0 cfg (rclusterExisting, [])))))
     = [(newResource cfg)\<lparr>ri_Status := ApplicationRestoreStatusRetained, ri_Reason := retainedReason\<rparr>]
   \<and> \<not> sublist ''ReplacePolicy set to Retain'' retainedReason"
  using applyOne_cfg [of "[]"] retainedReason_lacks
  by (simp add: restoreApplied_simps cfgRetained_def)

theorem C7_retain_policy_witness:
  "fst (fst (applyOne restoreEnv restore0 cfg (rclusterExisting, []))) = None
   \<and> (\<exists>x log. snd (snd (restoreResources restoreEnv restore0 (rclusterExisting, []))) = log @ [RestoreUpdate_r x]
         \<and> rStatus (ar_Status x) = ApplicationRestoreStatusPartialSuccess
         \<and> rStage (ar_Status x) = ApplicationRestoreStageFinal)"
proof -
  have h: "Accessor restoreEnv cfg = None \<and> TypeAccessor restoreEnv cfg = None
    \<and> rcall (ApplyResource_r cfg) (ApplyResource restoreEnv cfg) (rclusterExisting, [])
        = (Some (Err AlreadyExists ''object already exists''), (rclusterExisting, [ApplyResource_r cfg]))
    \<and> IsAlreadyExists (Err AlreadyExists ''object already exists'')"
    by (simp add: restoreEnv_simps rcall_def rclusterExisting_def rcluster0_def sameObject_def)
  have k: "(\<exists>r \<in> set (rResources (ar_Status restoreApplied)). ri_Status r = ApplicationRestoreStatusRetained)
       \<and> finishRestore restoreEnv restoreApplied (rclusterExisting, logApplied)
           = ((None, restoreFinished),
              (rclusterExisting, logApplied @ [Now_r, Now_r, RestoreUpdate_r restoreFinished]))"
    by (simp add: restoreApplied_simps cfgRetained_def finishRestore_cfg)
  note th = C7_retain_policy [of restoreEnv cfg "(rclusterExisting, [])"
         "Err AlreadyExists ''object already exists''" "(rclusterExisting, [ApplyResource_r cfg])"
         restore0 "[]" restoreApplied "(rclusterExisting, logApplied)" restoreFinished
         "(rclusterExisting, logApplied @ [Now_r, Now_r, RestoreUpdate_r restoreFinished])"]
  from th h restore0_simps(3) have 1: "fst (fst (applyOne restoreEnv restore0 cfg (rclusterExisting, []))) = None"
    by blast
  from th k have 2: "\<exists>x log. snd (rclusterExisting, logApplied @ [Now_r, Now_r, RestoreUpdate_r restoreFinished])
           = log @ [RestoreUpdate_r x]
         \<and> rStatus (ar_Status x) = ApplicationRestoreStatusPartialSuccess
         \<and> rStage (ar_Status x) = ApplicationRestoreStageFinal"
    by blast
  from 1 2 show ?thesis by (simp add: restoreResources_cfg)
qed


section \<open>A failed start of the volume restore\<close>






lemma restoreInVolumes_simps:
  "rVolumes (ar_Status restoreInVolumes) = []" "rResources (ar_Status restoreInVolumes) = []"
  "ReplacePolicy (ar_Spec restoreInVolumes) = ApplicationRestoreReplacePolicyRetain"
  "BackupName (ar_Spec restoreInVolumes) = ''backup''" "Namespace (ar_Meta restoreInVolumes) = ''ns1''"
  "IncludeResources (ar_Spec restoreInVolumes) = []"
  "NamespaceMapping (ar_Spec restoreInVolumes) = [(''ns1'', ''ns1'')]"
  "BackupLocation (ar_Spec restoreInVolumes) = ''loc''"
  by (simp_all add: restoreInVolumes_def setRStage_def restore0_def emptyMeta_def)

lemma restore0_more:
  "DeletionTimestamp (ar_Meta restore0) = None"
  "ContainsFinalizer (ar_Meta restore0) FinalizerCleanup"
  "NamespaceMapping (ar_Spec restore0) = [(''ns1'', ''ns1'')]"
  "BackupLocation (ar_Spec restore0) = ''loc''"
  "rStage (ar_Status restore0) = ApplicationRestoreStageInitial"
  by (simp_all add: restore0_def emptyMeta_def ContainsFinalizer_def)








































section \<open>Errors of the stage handlers\<close>

lemma handle_processStage:
  "DeletionTimestamp (gs_Meta g) = None \<Longrightarrow> passesGate env m g
     \<Longrightarrow> handle env m g s = processStage env m g s"
  by (auto simp: handle_def passesGate_def split: option.splits sum.splits)

lemma finishEvent_error:
  "finishEvent env m g upd (Some e) s =
     (Done (Some e, m, g), Event EventTypeWarning ''Failed'' (Error e) s)"
  by (simp add: finishEvent_def statusString_def)

lemma processStage_error:
  assumes "handlerError env m g s = Some e"
  shows "\<exists>m' g' t. processStage env m g s =
           (Done (Some e, m', g'), Event EventTypeWarning ''Failed'' (Error e) t)"
proof (cases "Stage (gs_Status g)")
  case GroupSnapshotStageInitial
  obtain upd err g' s1 where h: "handleInitial env g s = (((upd, err), g'), s1)"
    by (metis surj_pair)
  with assms GroupSnapshotStageInitial have "err = Some e" by (simp add: handlerError_def)
  with h GroupSnapshotStageInitial have "processStage env m g s =
      (Done (Some e, m, g'), Event EventTypeWarning ''Failed'' (Error e) s1)"
    by (simp add: processStage_def finishEvent_error)
  thus ?thesis by blast
next
  case GroupSnapshotStagePreChecks
  obtain upd err g' s1 where h: "handleInitial env g s = (((upd, err), g'), s1)"
    by (metis surj_pair)
  with assms GroupSnapshotStagePreChecks have "err = Some e" by (simp add: handlerError_def)
  with h GroupSnapshotStagePreChecks have "processStage env m g s =
      (Done (Some e, m, g'), Event EventTypeWarning ''Failed'' (Error e) s1)"
    by (simp add: processStage_def finishEvent_error)
  thus ?thesis by blast
next
  case GroupSnapshotStagePreSnapshot
  obtain g' upd err m1 s1 where h: "handlePreSnap env m g s = (((g', upd, err), m1), s1)"
    by (metis surj_pair)
  with assms GroupSnapshotStagePreSnapshot have "err = Some e" by (simp add: handlerError_def)
  with h GroupSnapshotStagePreSnapshot have "processStage env m g s =
      (Done (Some e, m1, g), Event EventTypeWarning ''Failed'' (Error e) s1)"
    by (simp add: processStage_def finishEvent_error split: option.splits)
  thus ?thesis by blast
next
  case GroupSnapshotStageSnapshot
  obtain r s1 where h: "handleSnap env g s = (r, s1)" by (metis surj_pair)
  with assms GroupSnapshotStageSnapshot obtain upd g' where r: "r = Done ((upd, Some e), g')"
    by (cases r) (auto simp: handlerError_def)
  obtain m1 s2 where t: "terminateBackground m g' s1 = (m1, s2)" by (metis surj_pair)
  from GroupSnapshotStageSnapshot h r t have "processStage env m g s =
      (Done (Some e, m1, g'), Event EventTypeWarning ''Failed'' (Error e) s2)"
    by (simp add: processStage_def finishEvent_error)
  thus ?thesis by blast
next
  case GroupSnapshotStagePostSnapshot
  obtain upd err g' s1 where h: "handlePostSnap env g s = ((g', upd, err), s1)"
    by (metis surj_pair)
  with assms GroupSnapshotStagePostSnapshot have "err = Some e" by (simp add: handlerError_def)
  with h GroupSnapshotStagePostSnapshot have "processStage env m g s =
      (Done (Some e, m, g), Event EventTypeWarning ''Failed'' (Error e) s1)"
    by (simp add: processStage_def finishEvent_error split: option.splits)
  thus ?thesis by blast
next
  case GroupSnapshotStageFinal
  with assms show ?thesis by (simp add: handlerError_def)
next
  case (GroupSnapshotStageOther x)
  with assms show ?thesis by (simp add: handlerError_def)
qed

lemma processStage_final:
  assumes "Stage (gs_Status g) = GroupSnapshotStageFinal"
  shows "fst (processStage env m g s) = Done (fst (handleFinal env g s), m, g)"
  using assms by (cases "handleFinal env g s") (simp add: processStage_def)

lemma restoreStage_error:
  assumes "restoreHandlerError env restore s = Some e"
  shows "\<exists>r' t. restoreStage env restore s =
           ((None, r'), REvent EventTypeWarning ''Failed''
              (restoreErrorPrefix (rStage (ar_Status restore)) @ Error e) t)"
proof (cases "rStage (ar_Status restore)")
  case ApplicationRestoreStageInitial
  obtain err r1 s1 where h: "restoreVolumes env restore s = ((err, r1), s1)"
    by (metis surj_pair)
  with assms ApplicationRestoreStageInitial have "err = Some e"
    by (simp add: restoreHandlerError_def)
  with h ApplicationRestoreStageInitial have "restoreStage env restore s =
      ((None, r1), REvent EventTypeWarning ''Failed''
         (restoreErrorPrefix (rStage (ar_Status restore)) @ Error e) s1)"
    by (simp add: restoreStage_def restoreStatusString_def restoreErrorPrefix_def)
  thus ?thesis by blast
next
  case ApplicationRestoreStageVolumes
  obtain err r1 s1 where h: "restoreVolumes env restore s = ((err, r1), s1)"
    by (metis surj_pair)
  with assms ApplicationRestoreStageVolumes have "err = Some e"
    by (simp add: restoreHandlerError_def)
  with h ApplicationRestoreStageVolumes have "restoreStage env restore s =
      ((None, r1), REvent EventTypeWarning ''Failed''
         (restoreErrorPrefix (rStage (ar_Status restore)) @ Error e) s1)"
    by (simp add: restoreStage_def restoreStatusString_def restoreErrorPrefix_def)
  thus ?thesis by blast
next
  case ApplicationRestoreStageApplications
  obtain err r1 s1 where h: "restoreResources env restore s = ((err, r1), s1)"
    by (metis surj_pair)
  with assms ApplicationRestoreStageApplications have "err = Some e"
    by (simp add: restoreHandlerError_def)
  with h ApplicationRestoreStageApplications have "restoreStage env restore s =
      ((None, r1), REvent EventTypeWarning ''Failed''
         (restoreErrorPrefix (rStage (ar_Status restore)) @ Error e) s1)"
    by (simp add: restoreStage_def restoreStatusString_def restoreErrorPrefix_def)
  thus ?thesis by blast
next
  case ApplicationRestoreStageFinal
  with assms show ?thesis by (simp add: restoreHandlerError_def)
next
  case (ApplicationRestoreStageOther x)
  with assms show ?thesis by (simp add: restoreHandlerError_def)
qed

lemma restoreHandle_never_fails:
  "DeletionTimestamp (ar_Meta restore) = None \<Longrightarrow> fst (fst (restoreHandle env restore s)) = None"
  by (auto simp: restoreHandle_def restoreStage_def
      split: prod.splits option.splits ApplicationRestoreStageType.splits)


text \<open>
  Claim C4. In the group-snapshot controller, when the resource is not being deleted and
  passes the version gate, an error returned by the handler of stage Initial, PreChecks,
  PreSnapshot, Snapshot or PostSnapshot makes \<open>handle\<close> send a warning event with reason
  Failed and the text of the error as its last action and return that error, and
  \<open>Reconcile\<close> reports the error with the error requeue delay; at stage Final,
  \<open>handle\<close> returns what \<open>handleFinal\<close> returns. In the application-restore controller,
  when the defaults and the namespace check succeed, an error returned by
  \<open>restoreVolumes\<close> (stage Initial or Volumes) or \<open>restoreResources\<close> (stage
  Applications) makes \<open>handle\<close> send a warning event with reason Failed and the prefixed
  text of the error as its last action and return nil; whenever the restore is not being
  deleted \<open>handle\<close> returns nil, and \<open>Reconcile\<close> reports success with the default requeue
  delay. So the restore controller signals a handler error by the event only.
\<close>

theorem C4_error_propagation:
  "(DeletionTimestamp (gs_Meta g) = None \<and> passesGate env m g \<and> handlerError env m g s = Some e
      \<longrightarrow> (\<exists>m' g' t. handle env m g s =
             (Done (Some e, m', g'), Event EventTypeWarning ''Failed'' (Error e) t)))
   \<and> (call (ClientGet_c ns name) (ClientGet env ns name) s0 = (Inr g, s)
        \<and> ContainsFinalizer (gs_Meta g) FinalizerCleanup
        \<and> DeletionTimestamp (gs_Meta g) = None \<and> passesGate env m g
        \<and> handlerError env m g s = Some e
      \<longrightarrow> (\<exists>m'. fst (Reconcile env m ns name s0) =
             Done ((\<lparr>Requeue = False, RequeueAfter = DefaultRequeueError\<rparr>, Some e), m')))
   \<and> (DeletionTimestamp (gs_Meta f) = None \<and> passesGate env m f
        \<and> Stage (gs_Status f) = GroupSnapshotStageFinal
      \<longrightarrow> fst (handle env m f sf) = Done (fst (handleFinal env f sf), m, f))
   \<and> (DeletionTimestamp (ar_Meta r) = None \<and> setDefaults renv r rs = ((None, r1), rs1)
        \<and> verifyNamespaces renv r1 rs1 = (None, rs2)
        \<and> restoreHandlerError renv r1 rs2 = Some e2
      \<longrightarrow> (\<exists>r' t. restoreHandle renv r rs =
             ((None, r'),
              REvent EventTypeWarning ''Failed''
                (restoreErrorPrefix (rStage (ar_Status r1)) @ Error e2) t)))
   \<and> (rcall (RestoreGet_r rns rname) (RestoreGet renv rns rname) rs0 = (Inr r, rs)
        \<and> ContainsFinalizer (ar_Meta r) FinalizerCleanup
        \<and> DeletionTimestamp (ar_Meta r) = None
      \<longrightarrow> fst (restoreReconcile renv rns rname rs0) =
            (\<lparr>Requeue = False, RequeueAfter = DefaultRequeue\<rparr>, None))"
proof (intro conjI impI)
  assume a: "DeletionTimestamp (gs_Meta g) = None \<and> passesGate env m g
               \<and> handlerError env m g s = Some e"
  hence "handle env m g s = processStage env m g s" by (simp add: handle_processStage)
  with a processStage_error [of env m g s e]
  show "\<exists>m' g' t. handle env m g s =
          (Done (Some e, m', g'), Event EventTypeWarning ''Failed'' (Error e) t)"
    by simp
next
  assume a: "call (ClientGet_c ns name) (ClientGet env ns name) s0 = (Inr g, s)
        \<and> ContainsFinalizer (gs_Meta g) FinalizerCleanup
        \<and> DeletionTimestamp (gs_Meta g) = None \<and> passesGate env m g
        \<and> handlerError env m g s = Some e"
  hence "handle env m g s = processStage env m g s" by (simp add: handle_processStage)
  with a processStage_error [of env m g s e] obtain m' g' t where
    "handle env m g s = (Done (Some e, m', g'), t)" by fastforce
  with a have "fst (Reconcile env m ns name s0) =
      Done ((\<lparr>Requeue = False, RequeueAfter = DefaultRequeueError\<rparr>, Some e), m')"
    by (simp add: Reconcile_def)
  thus "\<exists>m'. fst (Reconcile env m ns name s0) =
      Done ((\<lparr>Requeue = False, RequeueAfter = DefaultRequeueError\<rparr>, Some e), m')"
    by blast
next
  assume a: "DeletionTimestamp (gs_Meta f) = None \<and> passesGate env m f
        \<and> Stage (gs_Status f) = GroupSnapshotStageFinal"
  hence "handle env m f sf = processStage env m f sf" by (simp add: handle_processStage)
  with a show "fst (handle env m f sf) = Done (fst (handleFinal env f sf), m, f)"
    by (simp add: processStage_final)
next
  assume a: "DeletionTimestamp (ar_Meta r) = None \<and> setDefaults renv r rs = ((None, r1), rs1)
        \<and> verifyNamespaces renv r1 rs1 = (None, rs2)
        \<and> restoreHandlerError renv r1 rs2 = Some e2"
  hence "restoreHandle renv r rs = restoreStage renv r1 rs2" by (simp add: restoreHandle_def)
  with a restoreStage_error [of renv r1 rs2 e2]
  show "\<exists>r' t. restoreHandle renv r rs =
             ((None, r'),
              REvent EventTypeWarning ''Failed''
                (restoreErrorPrefix (rStage (ar_Status r1)) @ Error e2) t)"
    by simp
next
  assume a: "rcall (RestoreGet_r rns rname) (RestoreGet renv rns rname) rs0 = (Inr r, rs)
        \<and> ContainsFinalizer (ar_Meta r) FinalizerCleanup
        \<and> DeletionTimestamp (ar_Meta r) = None"
  hence "fst (fst (restoreHandle renv r rs)) = None" by (simp add: restoreHandle_never_fails)
  with a show "fst (restoreReconcile renv rns rname rs0) =
            (\<lparr>Requeue = False, RequeueAfter = DefaultRequeue\<rparr>, None)"
    by (cases "restoreHandle renv r rs") (auto simp: restoreReconcile_def)
qed

lemma noDriverEnv_simps:
  "restoreAdminNamespace noDriverEnv = ''kube-system''"
  "GetApplicationBackup noDriverEnv = (\<lambda>n ns w. (Inr backup0, w))"
  "createNamespaces noDriverEnv = (\<lambda>b l r w. (None, w))"
  "VolumeGet noDriverEnv = (\<lambda>d w. (Some (Err Unknown ''driver not registered''), w))"
  "RestoreGet noDriverEnv = (\<lambda>ns n w. (Inr restore0, w))"
  "rangeOrder noDriverEnv = (\<lambda>keys. keys)"
  "GetDefaultDriverName noDriverEnv = ''pxd''"
  by (simp_all add: noDriverEnv_def restoreEnv_def)

lemma drivers_noDriver:
  "inRangeOrder noDriverEnv
     (groupVolumes noDriverEnv restoreInVolumes backup0
        (CreateObjectsMap (IncludeResources (ar_Spec restoreInVolumes)))
        (ab_Namespaces backup0) [])
   = [(''pxd'', ab_Volumes backup0)]"
  by (simp add: inRangeOrder_def noDriverEnv_simps restoreInVolumes_simps CreateObjectsMap_def
      backup0_def addVolume_def)

lemma startVolumes_noDriver:
  "startVolumes noDriverEnv restoreInVolumes (rcluster0, log) =
     ((Aborted (Err Unknown ''driver not registered''), restoreInVolumes),
      (rcluster0, log @ [GetApplicationBackup_r ''backup'' ''ns1'', VolumeGet_r ''pxd'']))"
  by (simp add: startVolumes_def rcall_def noDriverEnv_simps restoreInVolumes_simps(4,5)
      drivers_noDriver prepareDriver_def)

lemma restoreVolumes_noDriver:
  "restoreVolumes noDriverEnv restore0 (rcluster0, log) =
     ((Some (Err Unknown ''driver not registered''), restoreInVolumes),
      (rcluster0, log @ [GetApplicationBackup_r ''backup'' ''ns1'', VolumeGet_r ''pxd'']))"
  using startVolumes_noDriver [of log]
  by (simp add: restoreVolumes_def Let_def restoreInVolumes_def [symmetric] restoreInVolumes_simps(1))

lemma setDefaults_restore0:
  "setDefaults noDriverEnv restore0 s = ((None, restore0), s)"
  by (simp add: setDefaults_def Let_def restore0_simps restore0_more)

lemma verifyNamespaces_restore0:
  "verifyNamespaces noDriverEnv restore0 (rcluster0, log) =
     (None, (rcluster0, log @ [GetApplicationBackup_r ''backup'' ''ns1'', CreateNamespaces_r]))"
  by (simp add: verifyNamespaces_def namespaceRestoreAllowed_def rcall_def noDriverEnv_simps
      restore0_simps restore0_more)

text \<open>
  The restore \<open>restore0\<close> in a cluster whose driver lookup fails: \<open>restoreVolumes\<close>
  returns the error of the lookup, \<open>handle\<close> records the warning event and returns nil, and
  \<open>Reconcile\<close> returns no error and the default requeue delay, as it does on forward
  progress.
\<close>

theorem C4_restore_error_counterexample:
  "restoreVolumes noDriverEnv restore0
     (rcluster0, [RestoreGet_r ''ns1'' ''restore'', GetApplicationBackup_r ''backup'' ''ns1'',
                  CreateNamespaces_r]) =
     ((Some (Err Unknown ''driver not registered''), restoreInVolumes),
      (rcluster0, [RestoreGet_r ''ns1'' ''restore'', GetApplicationBackup_r ''backup'' ''ns1'',
                   CreateNamespaces_r, GetApplicationBackup_r ''backup'' ''ns1'',
                   VolumeGet_r ''pxd'']))
   \<and> restoreHandle noDriverEnv restore0 (rcluster0, [RestoreGet_r ''ns1'' ''restore'']) =
       ((None, restoreInVolumes), (rcluster0, logNoDriver))
   \<and> restoreReconcile noDriverEnv ''ns1'' ''restore'' (rcluster0, []) =
       ((\<lparr>Requeue = False, RequeueAfter = DefaultRequeue\<rparr>, None), (rcluster0, logNoDriver))"
proof -
  have h: "restoreHandle noDriverEnv restore0 (rcluster0, [RestoreGet_r ''ns1'' ''restore'']) =
       ((None, restoreInVolumes), (rcluster0, logNoDriver))"
    by (simp add: restoreHandle_def restore0_more setDefaults_restore0 verifyNamespaces_restore0
        restoreStage_def restoreVolumes_noDriver REvent_def restoreStatusString_def logNoDriver_def)
  have "restoreReconcile noDriverEnv ''ns1'' ''restore'' (rcluster0, []) =
       ((\<lparr>Requeue = False, RequeueAfter = DefaultRequeue\<rparr>, None), (rcluster0, logNoDriver))"
    using h by (simp add: restoreReconcile_def rcall_def noDriverEnv_simps restore0_more)
  with h show ?thesis by (simp add: restoreVolumes_noDriver)
qed


lemma groupSnapNoLabels_gate:
  "DeletionTimestamp (gs_Meta groupSnapNoLabels) = None"
  "passesGate env noFloors groupSnapNoLabels"
  "ContainsFinalizer (gs_Meta groupSnapNoLabels) FinalizerCleanup"
  "Stage (gs_Status groupSnapNoLabels) = GroupSnapshotStageInitial"
  by (simp_all add: groupSnapNoLabels_def groupSnapInitial_def groupSnap0_def emptyMeta_def
      noFloors_def passesGate_def ContainsFinalizer_def)

lemma groupSnapNoLabels_error:
  "handlerError env noFloors groupSnapNoLabels s =
     Some (Errorf ''matchLabels are required for group snapshots. Refer to spec examples'')"
  by (simp add: handlerError_def groupSnapNoLabels_gate(4))
     (simp add: handleInitial_def groupSnapNoLabels_def Let_def)

lemma groupSnapFinal_gate:
  "DeletionTimestamp (gs_Meta groupSnapFinal) = None"
  "passesGate env noFloors groupSnapFinal"
  "Stage (gs_Status groupSnapFinal) = GroupSnapshotStageFinal"
  by (simp_all add: groupSnapFinal_def groupSnap0_def emptyMeta_def noFloors_def passesGate_def)

lemma handleFinal_missing:
  "fst (handleFinal (servingEnv groupSnapNoLabels) groupSnapFinal (cluster0, [])) =
     Some (Err NotFound ''snapshot not found'')"
  by (simp add: handleFinal_def groupSnapFinal_def Let_def call_def servingEnv_def clusterEnv_def
      cluster0_def)

theorem C4_error_propagation_witness:
  "(\<exists>m' g' t.
      handle (servingEnv groupSnapNoLabels) noFloors groupSnapNoLabels
        (cluster0, [ClientGet_c ''ns1'' ''gs'']) =
        (Done (Some (Errorf ''matchLabels are required for group snapshots. Refer to spec examples''),
               m', g'),
         Event EventTypeWarning ''Failed''
           ''matchLabels are required for group snapshots. Refer to spec examples'' t))
   \<and> (\<exists>m'. fst (Reconcile (servingEnv groupSnapNoLabels) noFloors ''ns1'' ''gs'' (cluster0, [])) =
        Done ((\<lparr>Requeue = False, RequeueAfter = DefaultRequeueError\<rparr>,
               Some (Errorf ''matchLabels are required for group snapshots. Refer to spec examples'')),
              m'))
   \<and> fst (handle (servingEnv groupSnapNoLabels) noFloors groupSnapFinal (cluster0, [])) =
       Done (Some (Err NotFound ''snapshot not found''), noFloors, groupSnapFinal)
   \<and> (\<exists>r' t.
        restoreHandle noDriverEnv restore0 (rcluster0, [RestoreGet_r ''ns1'' ''restore'']) =
          ((None, r'),
           REvent EventTypeWarning ''Failed'' ''Error restoring volumes: driver not registered'' t))
   \<and> fst (restoreReconcile noDriverEnv ''ns1'' ''restore'' (rcluster0, [])) =
       (\<lparr>Requeue = False, RequeueAfter = DefaultRequeue\<rparr>, None)"
proof -
  note th = C4_error_propagation
    [where g = groupSnapNoLabels and env = "servingEnv groupSnapNoLabels" and m = noFloors
       and s = "(cluster0, [ClientGet_c ''ns1'' ''gs''])"
       and e = "Errorf ''matchLabels are required for group snapshots. Refer to spec examples''"
       and ns = "''ns1''" and name = "''gs''" and ?s0.0 = "(cluster0, [])"
       and f = groupSnapFinal and sf = "(cluster0, [])"
       and renv = noDriverEnv and r = restore0
       and rs = "(rcluster0, [RestoreGet_r ''ns1'' ''restore''])"
       and ?r1.0 = restore0 and ?rs1.0 = "(rcluster0, [RestoreGet_r ''ns1'' ''restore''])"
       and ?rs2.0 = "(rcluster0, [RestoreGet_r ''ns1'' ''restore'',
                                  GetApplicationBackup_r ''backup'' ''ns1'', CreateNamespaces_r])"
       and ?e2.0 = "Err Unknown ''driver not registered''"
       and rns = "''ns1''" and rname = "''restore''" and ?rs0.0 = "(rcluster0, [])"]
  have a: "call (ClientGet_c ''ns1'' ''gs'') (ClientGet (servingEnv groupSnapNoLabels) ''ns1'' ''gs'')
             (cluster0, []) = (Inr groupSnapNoLabels, (cluster0, [ClientGet_c ''ns1'' ''gs'']))"
    by (simp add: call_def servingEnv_def)
  have b: "verifyNamespaces noDriverEnv restore0 (rcluster0, [RestoreGet_r ''ns1'' ''restore'']) =
            (None, (rcluster0, [RestoreGet_r ''ns1'' ''restore'',
                                GetApplicationBackup_r ''backup'' ''ns1'', CreateNamespaces_r]))"
    using verifyNamespaces_restore0 [of "[RestoreGet_r ''ns1'' ''restore'']"] by simp
  have c: "restoreHandlerError noDriverEnv restore0
             (rcluster0, [RestoreGet_r ''ns1'' ''restore'',
                          GetApplicationBackup_r ''backup'' ''ns1'', CreateNamespaces_r]) =
            Some (Err Unknown ''driver not registered'')"
    by (simp add: restoreHandlerError_def restore0_more restoreVolumes_noDriver)
  have d: "rcall (RestoreGet_r ''ns1'' ''restore'') (RestoreGet noDriverEnv ''ns1'' ''restore'')
             (rcluster0, []) = (Inr restore0, (rcluster0, [RestoreGet_r ''ns1'' ''restore'']))"
    by (simp add: rcall_def noDriverEnv_simps)
  have msg: "Error (Errorf ''matchLabels are required for group snapshots. Refer to spec examples'')
     = ''matchLabels are required for group snapshots. Refer to spec examples''"
    "restoreErrorPrefix ApplicationRestoreStageInitial @ Error (Err Unknown ''driver not registered'')
     = ''Error restoring volumes: driver not registered''"
    by (simp_all add: Errorf_def restoreErrorPrefix_def)
  from th show ?thesis
    by (simp only: groupSnapNoLabels_gate groupSnapNoLabels_error groupSnapFinal_gate
        handleFinal_missing a b c d msg restore0_more setDefaults_restore0 simp_thms)
qed


end
